theory Spec2Isabelle
  imports Main "HOL-Library.Char_ord" "HOL-Library.List_Lexorder" "HOL-Library.Multiset"
begin

section \<open>The gateway admin service: data model\<close>

text \<open>
  The service keeps three tables (backends, routes, config\_history) in a relational
  store and serves create, update, soft-delete and history requests over them.
  The Go structs of package \<^verbatim>\<open>config\<close> become records. An instant is a natural
  number, \<open>0\<close> standing for the zero value of \<^verbatim>\<open>time.Time\<close>; identifiers are
  natural numbers (Go's \<^verbatim>\<open>uint\<close>, 64 bits wide where a literal is decoded into it).
\<close>

type_synonym time = nat

record Backend =
  ID :: nat
  Name :: string
  Addr :: string
  Description :: string
  Enabled :: bool
  CreatedAt :: time
  UpdatedAt :: time

record Route =
  RID :: nat
  HTTPMethod :: string
  HTTPPattern :: string
  BackendName :: string
  BackendService :: string
  BackendMethod :: string
  TimeoutMS :: int
  RDescription :: string
  REnabled :: bool
  RCreatedAt :: time
  RUpdatedAt :: time

text \<open>
  \<^verbatim>\<open>OldValue\<close> and \<^verbatim>\<open>NewValue\<close> hold what \<^verbatim>\<open>json.Marshal\<close> makes of a
  \<^verbatim>\<open>*Backend\<close> or a \<^verbatim>\<open>*Route\<close>. The encoding of these two structs loses nothing
  and cannot fail, so a snapshot is represented by the struct it encodes; an absent
  snapshot (a nil \<^verbatim>\<open>json.RawMessage\<close>, NULL in the table) is \<open>None\<close>.
\<close>

datatype snapshot = BackendJSON Backend | RouteJSON Route

record ConfigHistory =
  HID :: nat
  ConfigType :: string
  ConfigID :: "nat option"
  Operation :: string
  OldValue :: "snapshot option"
  NewValue :: "snapshot option"
  Operator :: string
  HCreatedAt :: time

definition zero_Backend :: Backend where
  "zero_Backend = \<lparr>ID = 0, Name = [], Addr = [], Description = [], Enabled = False,
     CreatedAt = 0, UpdatedAt = 0\<rparr>"

definition zero_Route :: Route where
  "zero_Route = \<lparr>RID = 0, HTTPMethod = [], HTTPPattern = [], BackendName = [],
     BackendService = [], BackendMethod = [], TimeoutMS = 0, RDescription = [],
     REnabled = False, RCreatedAt = 0, RUpdatedAt = 0\<rparr>"

section \<open>Requests and JSON payloads\<close>

text \<open>
  A JSON number is kept by the shape of its literal, which is all the decoder of an
  integer field looks at: an integer literal with its value, the literal \<^verbatim>\<open>-0\<close>, or
  any literal with a fraction or an exponent. (In the update handlers the payload
  passes through \<^verbatim>\<open>map[string]interface{}\<close> and is marshalled again; the literal
  meant is then the one \<^verbatim>\<open>json.Marshal\<close> writes for the \<^verbatim>\<open>float64\<close>.)
\<close>

datatype number = IntLit int | NegZero | OtherLit

datatype json =
  JNull | JBool bool | JNum number | JStr string | JArr "json list" | JObj "(string \<times> json) list"

text \<open>
  What a handler reads of an \<^verbatim>\<open>http.Request\<close>: the path parameter of the route
  (\<^verbatim>\<open>{name}\<close> or \<^verbatim>\<open>{id}\<close>), the parsed query string, the \<^verbatim>\<open>X-Operator\<close> header
  and the body, \<open>None\<close> when the body is not a JSON text.
\<close>

record request =
  url_param :: string
  query :: "(string \<times> string) list"
  X_Operator :: string
  body :: "json option"

definition Query_Has :: "request \<Rightarrow> string \<Rightarrow> bool" where
  "Query_Has r k = (k \<in> set (map fst (query r)))"

definition Query_Get :: "request \<Rightarrow> string \<Rightarrow> string" where
  "Query_Get r k = (case map_of (query r) k of None \<Rightarrow> [] | Some v \<Rightarrow> v)"

subsection \<open>strconv\<close>

definition digit :: "char \<Rightarrow> nat option" where
  "digit c = (let n = (of_char c :: int) in if 48 \<le> n \<and> n \<le> 57 then Some (nat (n - 48)) else None)"

fun digits :: "nat \<Rightarrow> string \<Rightarrow> nat option" where
  "digits acc [] = Some acc"
| "digits acc (c # cs) = (case digit c of None \<Rightarrow> None | Some d \<Rightarrow> digits (10 * acc + d) cs)"

definition ParseUint :: "string \<Rightarrow> nat \<Rightarrow> nat option" where
  \<comment> \<open>\<^verbatim>\<open>strconv.ParseUint(s, 10, bitSize)\<close>: decimal digits only, no sign, in range\<close>
  "ParseUint s bitSize =
     (if s = [] then None
      else case digits 0 s of
        None \<Rightarrow> None
      | Some n \<Rightarrow> if int n < 2 ^ bitSize then Some n else None)"

definition Atoi :: "string \<Rightarrow> int option" where
  \<comment> \<open>\<^verbatim>\<open>strconv.Atoi\<close> on a 64-bit \<^verbatim>\<open>int\<close>: an optional sign, then decimal digits\<close>
  "Atoi s =
     (case s of
        [] \<Rightarrow> None
      | c # cs \<Rightarrow>
          if c = CHR ''-'' then
            (case ParseUint cs 64 of
               None \<Rightarrow> None
             | Some n \<Rightarrow> if int n \<le> 2 ^ 63 then Some (- int n) else None)
          else
            (case ParseUint (if c = CHR ''+'' then cs else s) 64 of
               None \<Rightarrow> None
             | Some n \<Rightarrow> if int n < 2 ^ 63 then Some (int n) else None))"

subsection \<open>encoding/json: decoding an object into a struct\<close>

text \<open>
  The decoder resolves a key to a struct field by its exact name and otherwise by its
  folded name. Folding upper-cases ASCII letters; of the runes outside ASCII only the
  Kelvin sign (bytes E2 84 AA) and the long s (bytes C5 BF) fold onto an ASCII letter,
  and every other byte is left as it is, which decides the comparison with the field
  names of this program, all of them ASCII.
\<close>

definition upper :: "char \<Rightarrow> char" where
  "upper c = (let n = (of_char c :: int) in if 97 \<le> n \<and> n \<le> 122 then char_of (n - 32) else c)"

fun foldName :: "string \<Rightarrow> string" where
  "foldName (c1 # c2 # c3 # cs) =
     (if c1 = CHR 0xE2 \<and> c2 = CHR 0x84 \<and> c3 = CHR 0xAA then CHR ''K'' # foldName cs
      else if c1 = CHR 0xC5 \<and> c2 = CHR 0xBF then CHR ''S'' # foldName (c3 # cs)
      else upper c1 # foldName (c2 # c3 # cs))"
| "foldName [c1, c2] =
     (if c1 = CHR 0xC5 \<and> c2 = CHR 0xBF then [CHR ''S''] else [upper c1, upper c2])"
| "foldName [c1] = [upper c1]"
| "foldName [] = []"

definition names :: "string \<Rightarrow> string \<Rightarrow> bool" where
  \<comment> \<open>the key \<open>k\<close> of a JSON object is decoded into the field tagged \<open>field\<close>\<close>
  "names field k = (foldName k = foldName field)"

text \<open>
  Storing a JSON value into a field of a given Go type: \<^verbatim>\<open>null\<close> leaves the field
  as it is, a value of the wrong kind is an \<^verbatim>\<open>UnmarshalTypeError\<close> (\<open>None\<close>).
  \<^verbatim>\<open>time.Time\<close> decodes itself from a string in RFC 3339 format; that parser is a
  parameter of the model.
\<close>

definition string_field :: "json \<Rightarrow> string \<Rightarrow> string option" where
  "string_field v cur = (case v of JNull \<Rightarrow> Some cur | JStr s \<Rightarrow> Some s | _ \<Rightarrow> None)"

definition bool_field :: "json \<Rightarrow> bool \<Rightarrow> bool option" where
  "bool_field v cur = (case v of JNull \<Rightarrow> Some cur | JBool b \<Rightarrow> Some b | _ \<Rightarrow> None)"

definition uint_field :: "json \<Rightarrow> nat \<Rightarrow> nat option" where
  "uint_field v cur =
     (case v of
        JNull \<Rightarrow> Some cur
      | JNum (IntLit n) \<Rightarrow> if 0 \<le> n \<and> n < 2 ^ 64 then Some (nat n) else None
      | _ \<Rightarrow> None)"

definition int_field :: "json \<Rightarrow> int \<Rightarrow> int option" where
  "int_field v cur =
     (case v of
        JNull \<Rightarrow> Some cur
      | JNum (IntLit n) \<Rightarrow> if - (2 ^ 63) \<le> n \<and> n < 2 ^ 63 then Some n else None
      | JNum NegZero \<Rightarrow> Some 0
      | _ \<Rightarrow> None)"

definition time_field :: "(string \<Rightarrow> time option) \<Rightarrow> json \<Rightarrow> time \<Rightarrow> time option" where
  "time_field parse v cur = (case v of JNull \<Rightarrow> Some cur | JStr s \<Rightarrow> parse s | _ \<Rightarrow> None)"

definition Backend_field :: "(string \<Rightarrow> time option) \<Rightarrow> string \<Rightarrow> json \<Rightarrow> Backend \<Rightarrow> Backend option" where
  "Backend_field parse k v b =
     (if names ''id'' k then map_option (\<lambda>x. b\<lparr>ID := x\<rparr>) (uint_field v (ID b))
      else if names ''name'' k then map_option (\<lambda>x. b\<lparr>Name := x\<rparr>) (string_field v (Name b))
      else if names ''addr'' k then map_option (\<lambda>x. b\<lparr>Addr := x\<rparr>) (string_field v (Addr b))
      else if names ''description'' k then
        map_option (\<lambda>x. b\<lparr>Description := x\<rparr>) (string_field v (Description b))
      else if names ''enabled'' k then map_option (\<lambda>x. b\<lparr>Enabled := x\<rparr>) (bool_field v (Enabled b))
      else if names ''created_at'' k then
        map_option (\<lambda>x. b\<lparr>CreatedAt := x\<rparr>) (time_field parse v (CreatedAt b))
      else if names ''updated_at'' k then
        map_option (\<lambda>x. b\<lparr>UpdatedAt := x\<rparr>) (time_field parse v (UpdatedAt b))
      else Some b)"

definition Route_field :: "(string \<Rightarrow> time option) \<Rightarrow> string \<Rightarrow> json \<Rightarrow> Route \<Rightarrow> Route option" where
  "Route_field parse k v r =
     (if names ''id'' k then map_option (\<lambda>x. r\<lparr>RID := x\<rparr>) (uint_field v (RID r))
      else if names ''http_method'' k then
        map_option (\<lambda>x. r\<lparr>HTTPMethod := x\<rparr>) (string_field v (HTTPMethod r))
      else if names ''http_pattern'' k then
        map_option (\<lambda>x. r\<lparr>HTTPPattern := x\<rparr>) (string_field v (HTTPPattern r))
      else if names ''backend_name'' k then
        map_option (\<lambda>x. r\<lparr>BackendName := x\<rparr>) (string_field v (BackendName r))
      else if names ''backend_service'' k then
        map_option (\<lambda>x. r\<lparr>BackendService := x\<rparr>) (string_field v (BackendService r))
      else if names ''backend_method'' k then
        map_option (\<lambda>x. r\<lparr>BackendMethod := x\<rparr>) (string_field v (BackendMethod r))
      else if names ''timeout_ms'' k then
        map_option (\<lambda>x. r\<lparr>TimeoutMS := x\<rparr>) (int_field v (TimeoutMS r))
      else if names ''description'' k then
        map_option (\<lambda>x. r\<lparr>RDescription := x\<rparr>) (string_field v (RDescription r))
      else if names ''enabled'' k then
        map_option (\<lambda>x. r\<lparr>REnabled := x\<rparr>) (bool_field v (REnabled r))
      else if names ''created_at'' k then
        map_option (\<lambda>x. r\<lparr>RCreatedAt := x\<rparr>) (time_field parse v (RCreatedAt r))
      else if names ''updated_at'' k then
        map_option (\<lambda>x. r\<lparr>RUpdatedAt := x\<rparr>) (time_field parse v (RUpdatedAt r))
      else Some r)"

text \<open>
  The members of the object are stored one after the other, in the order of the text;
  a later member overwrites what an earlier one stored in the same field. One member of
  the wrong kind makes the whole call return an error.
\<close>

fun decode_members :: "(string \<Rightarrow> json \<Rightarrow> 'a \<Rightarrow> 'a option) \<Rightarrow> (string \<times> json) list \<Rightarrow> 'a \<Rightarrow> 'a option" where
  "decode_members store [] x = Some x"
| "decode_members store ((k, v) # ms) x =
     (case store k v x of None \<Rightarrow> None | Some x' \<Rightarrow> decode_members store ms x')"

definition Unmarshal :: "(string \<Rightarrow> json \<Rightarrow> 'a \<Rightarrow> 'a option) \<Rightarrow> json \<Rightarrow> 'a \<Rightarrow> 'a option" where
  \<comment> \<open>\<^verbatim>\<open>json.Unmarshal\<close> / \<^verbatim>\<open>Decoder.Decode\<close> of one JSON value into a struct\<close>
  "Unmarshal store j x =
     (case j of JNull \<Rightarrow> Some x | JObj ms \<Rightarrow> decode_members store ms x | _ \<Rightarrow> None)"

text \<open>
  The update handlers first decode the body into a \<^verbatim>\<open>map[string]interface{}\<close>
  (of two members with one key the later stays) and marshal that map again, which
  writes its keys in increasing byte order. The map is kept as the list of members
  that \<^verbatim>\<open>json.Marshal\<close> writes; a nil map (body \<^verbatim>\<open>null\<close>) has no member and
  is written as \<^verbatim>\<open>null\<close>, which decodes into a struct as the empty object does.
  (Below, \<open>the\<close> is applied to the value of a key of the object, which has one.)
\<close>

definition Decode_map :: "json option \<Rightarrow> (string \<times> json) list option" where
  "Decode_map b =
     (case b of
        None \<Rightarrow> None
      | Some JNull \<Rightarrow> Some []
      | Some (JObj ms) \<Rightarrow>
          Some (map (\<lambda>k. (k, the (map_of (rev ms) k))) (sort (remdups (map fst ms))))
      | Some _ \<Rightarrow> None)"

section \<open>The store\<close>

text \<open>
  A handler talks to the database through \<^verbatim>\<open>MySQLStore\<close>, one SQL statement per
  method call (two for \<^verbatim>\<open>GetHistory\<close>), and each statement is sent at most once
  while a request is served. What the surroundings decide during one request is
  collected in a \<open>world\<close>: which statements return an error, whether reading
  \<^verbatim>\<open>LastInsertId\<close> or \<^verbatim>\<open>RowsAffected\<close> of an executed statement returns an
  error, whether the data source name sets \<^verbatim>\<open>clientFoundRows\<close> (the one the README
  gives does not), the value of \<^verbatim>\<open>CURRENT_TIMESTAMP\<close> a statement sees, the
  successive readings of \<^verbatim>\<open>time.Now()\<close>, the RFC 3339 parser of \<^verbatim>\<open>time.Time\<close>,
  and the order in which the engine happens to read the rows of config\_history, which
  decides between rows that an ORDER BY clause leaves equal.
\<close>

datatype stmt =
  SelectBackend | InsertBackend | UpdateBackend | DeleteBackend
| SelectRoute | InsertRoute | UpdateRoute | DeleteRoute
| InsertHistory | CountHistory | SelectHistory

record world =
  exec_err :: "stmt \<Rightarrow> bool"
  result_err :: bool
  clientFoundRows :: bool
  CURRENT_TIMESTAMP :: "stmt \<Rightarrow> time"
  time_Now :: "nat \<Rightarrow> time"
  time_Parse :: "string \<Rightarrow> time option"
  row_order :: "nat \<Rightarrow> nat"

text \<open>
  The tables hold their rows in the order of insertion; each has an AUTO\_INCREMENT
  counter for the id of the next row. A row of \<^verbatim>\<open>backends\<close> or \<^verbatim>\<open>routes\<close> is kept as
  the struct that \<^verbatim>\<open>Scan\<close> reads from it (a NULL description, which no statement of
  the store writes, would be read as the empty string). The table definitions are not
  part of the repository: the timestamps of a new row are taken to default to
  \<^verbatim>\<open>CURRENT_TIMESTAMP\<close>, and a string column is compared with \<open>=\<close> byte by byte.
\<close>

record database =
  backends :: "Backend list"
  routes :: "Route list"
  config_history :: "ConfigHistory list"
  backends_seq :: nat
  routes_seq :: nat
  config_history_seq :: nat

datatype dberr = DriverError | NotFoundError string

text \<open>
  \<^verbatim>\<open>result.RowsAffected()\<close> of an UPDATE statement. The MySQL driver reports the
  rows that the statement has changed, those of the selected rows in which the
  assignment alters some column; with \<^verbatim>\<open>clientFoundRows\<close> it reports the rows that
  the WHERE clause selects.
\<close>

definition RowsAffected :: "world \<Rightarrow> ('a \<Rightarrow> bool) \<Rightarrow> ('a \<Rightarrow> 'a) \<Rightarrow> 'a list \<Rightarrow> nat" where
  "RowsAffected w selected assign rows =
     (if clientFoundRows w then length (filter selected rows)
      else length (filter (\<lambda>x. selected x \<and> assign x \<noteq> x) rows))"

definition enabledInt :: "bool \<Rightarrow> int" where
  "enabledInt b = (if b then 1 else 0)"

definition MySQLStore_GetBackendByName :: "world \<Rightarrow> string \<Rightarrow> database \<Rightarrow> dberr + Backend option" where
  "MySQLStore_GetBackendByName w name s =
     (if exec_err w SelectBackend then Inl DriverError
      else Inr (find (\<lambda>b. Name b = name) (backends s)))"

definition MySQLStore_CreateBackend :: "world \<Rightarrow> Backend \<Rightarrow> database \<Rightarrow> (dberr + Backend) \<times> database" where
  "MySQLStore_CreateBackend w backend s =
     (if exec_err w InsertBackend then (Inl DriverError, s)
      else
        let id0 = backends_seq s;
            row = \<lparr>ID = id0, Name = Name backend, Addr = Addr backend,
                   Description = Description backend,
                   Enabled = (enabledInt (Enabled backend) = 1),
                   CreatedAt = CURRENT_TIMESTAMP w InsertBackend,
                   UpdatedAt = CURRENT_TIMESTAMP w InsertBackend\<rparr>;
            s' = s\<lparr>backends := backends s @ [row], backends_seq := id0 + 1\<rparr>
        in if result_err w then (Inl DriverError, s')
           else (Inr (backend\<lparr>ID := id0, CreatedAt := time_Now w 0, UpdatedAt := time_Now w 1\<rparr>), s'))"

definition MySQLStore_UpdateBackend :: "world \<Rightarrow> string \<Rightarrow> Backend \<Rightarrow> database \<Rightarrow> (dberr + Backend) \<times> database" where
  "MySQLStore_UpdateBackend w name backend s =
     (if exec_err w UpdateBackend then (Inl DriverError, s)
      else
        let assign = (\<lambda>b. b\<lparr>Addr := Addr backend, Description := Description backend,
                                Enabled := (enabledInt (Enabled backend) = 1),
                                UpdatedAt := CURRENT_TIMESTAMP w UpdateBackend\<rparr>);
            rowsAffected = RowsAffected w (\<lambda>b. Name b = name) assign (backends s);
            s' = s\<lparr>backends := map (\<lambda>b. if Name b = name then assign b else b) (backends s)\<rparr>
        in if result_err w then (Inl DriverError, s')
           else if rowsAffected = 0 then (Inl (NotFoundError ''backend not found''), s')
           else (Inr (backend\<lparr>Name := name, UpdatedAt := time_Now w 0\<rparr>), s'))"

definition MySQLStore_DeleteBackend :: "world \<Rightarrow> string \<Rightarrow> database \<Rightarrow> (dberr + unit) \<times> database" where
  "MySQLStore_DeleteBackend w name s =
     (if exec_err w DeleteBackend then (Inl DriverError, s)
      else
        let assign = (\<lambda>b. b\<lparr>Enabled := False,
                                UpdatedAt := CURRENT_TIMESTAMP w DeleteBackend\<rparr>);
            rowsAffected = RowsAffected w (\<lambda>b. Name b = name) assign (backends s);
            s' = s\<lparr>backends := map (\<lambda>b. if Name b = name then assign b else b) (backends s)\<rparr>
        in if result_err w then (Inl DriverError, s')
           else if rowsAffected = 0 then (Inl (NotFoundError ''backend not found''), s')
           else (Inr (), s'))"

definition MySQLStore_GetRouteByID :: "world \<Rightarrow> nat \<Rightarrow> database \<Rightarrow> dberr + Route option" where
  "MySQLStore_GetRouteByID w id0 s =
     (if exec_err w SelectRoute then Inl DriverError
      else Inr (find (\<lambda>r. RID r = id0) (routes s)))"

definition MySQLStore_CreateRoute :: "world \<Rightarrow> Route \<Rightarrow> database \<Rightarrow> (dberr + Route) \<times> database" where
  "MySQLStore_CreateRoute w route s =
     (if exec_err w InsertRoute then (Inl DriverError, s)
      else
        let id0 = routes_seq s;
            row = \<lparr>RID = id0, HTTPMethod = HTTPMethod route, HTTPPattern = HTTPPattern route,
                   BackendName = BackendName route, BackendService = BackendService route,
                   BackendMethod = BackendMethod route, TimeoutMS = TimeoutMS route,
                   RDescription = RDescription route,
                   REnabled = (enabledInt (REnabled route) = 1),
                   RCreatedAt = CURRENT_TIMESTAMP w InsertRoute,
                   RUpdatedAt = CURRENT_TIMESTAMP w InsertRoute\<rparr>;
            s' = s\<lparr>routes := routes s @ [row], routes_seq := id0 + 1\<rparr>
        in if result_err w then (Inl DriverError, s')
           else (Inr (route\<lparr>RID := id0, RCreatedAt := time_Now w 0, RUpdatedAt := time_Now w 1\<rparr>), s'))"

definition MySQLStore_UpdateRoute :: "world \<Rightarrow> nat \<Rightarrow> Route \<Rightarrow> database \<Rightarrow> (dberr + Route) \<times> database" where
  "MySQLStore_UpdateRoute w id0 route s =
     (if exec_err w UpdateRoute then (Inl DriverError, s)
      else
        let assign = (\<lambda>r. r\<lparr>HTTPMethod := HTTPMethod route, HTTPPattern := HTTPPattern route,
                                BackendName := BackendName route,
                                BackendService := BackendService route,
                                BackendMethod := BackendMethod route,
                                TimeoutMS := TimeoutMS route,
                                RDescription := RDescription route,
                                REnabled := (enabledInt (REnabled route) = 1),
                                RUpdatedAt := CURRENT_TIMESTAMP w UpdateRoute\<rparr>);
            rowsAffected = RowsAffected w (\<lambda>r. RID r = id0) assign (routes s);
            s' = s\<lparr>routes := map (\<lambda>r. if RID r = id0 then assign r else r) (routes s)\<rparr>
        in if result_err w then (Inl DriverError, s')
           else if rowsAffected = 0 then (Inl (NotFoundError ''route not found''), s')
           else (Inr (route\<lparr>RID := id0, RUpdatedAt := time_Now w 0\<rparr>), s'))"

definition MySQLStore_DeleteRoute :: "world \<Rightarrow> nat \<Rightarrow> database \<Rightarrow> (dberr + unit) \<times> database" where
  "MySQLStore_DeleteRoute w id0 s =
     (if exec_err w DeleteRoute then (Inl DriverError, s)
      else
        let assign = (\<lambda>r. r\<lparr>REnabled := False,
                                RUpdatedAt := CURRENT_TIMESTAMP w DeleteRoute\<rparr>);
            rowsAffected = RowsAffected w (\<lambda>r. RID r = id0) assign (routes s);
            s' = s\<lparr>routes := map (\<lambda>r. if RID r = id0 then assign r else r) (routes s)\<rparr>
        in if result_err w then (Inl DriverError, s')
           else if rowsAffected = 0 then (Inl (NotFoundError ''route not found''), s')
           else (Inr (), s'))"

definition MySQLStore_CreateHistory :: "world \<Rightarrow> ConfigHistory \<Rightarrow> database \<Rightarrow> (dberr + unit) \<times> database" where
  "MySQLStore_CreateHistory w history s =
     (if exec_err w InsertHistory then (Inl DriverError, s)
      else
        let row = \<lparr>HID = config_history_seq s, ConfigType = ConfigType history,
                   ConfigID = ConfigID history, Operation = Operation history,
                   OldValue = OldValue history, NewValue = NewValue history,
                   Operator = Operator history,
                   HCreatedAt = CURRENT_TIMESTAMP w InsertHistory\<rparr>
        in (Inr (), s\<lparr>config_history := config_history s @ [row],
                      config_history_seq := config_history_seq s + 1\<rparr>))"

text \<open>
  \<^verbatim>\<open>GetHistory\<close> builds one WHERE clause for a count and for a page. ORDER BY
  \<^verbatim>\<open>created_at\<close> DESC leaves the order of rows with the same time to the engine: the
  rows are taken in the order \<open>row_order\<close> gives their ids before they are sorted. A
  negative LIMIT or OFFSET is an error of the statement. Each row of the page is read
  with \<^verbatim>\<open>rows.Scan\<close>, which stores \<^verbatim>\<open>old_value\<close> and \<^verbatim>\<open>new_value\<close> into a
  \<^verbatim>\<open>json.RawMessage\<close>; \<^verbatim>\<open>database/sql\<close> refuses to store NULL there, so a row
  with an absent snapshot makes \<^verbatim>\<open>Scan\<close>, and with it \<^verbatim>\<open>GetHistory\<close>, return an
  error.
\<close>

definition history_where :: "string option \<Rightarrow> nat option \<Rightarrow> ConfigHistory \<Rightarrow> bool" where
  "history_where configType configID h =
     ((case configType of None \<Rightarrow> True | Some t \<Rightarrow> ConfigType h = t) \<and>
      (case configID of None \<Rightarrow> True | Some i \<Rightarrow> ConfigID h = Some i))"

definition order_by_created_at_desc :: "world \<Rightarrow> ConfigHistory list \<Rightarrow> ConfigHistory list" where
  "order_by_created_at_desc w hs =
     rev (sort_key HCreatedAt (sort_key (\<lambda>h. row_order w (HID h)) hs))"

definition Scan :: "ConfigHistory \<Rightarrow> dberr + ConfigHistory" where
  "Scan h = (if OldValue h = None then Inl DriverError
             else if NewValue h = None then Inl DriverError
             else Inr h)"

fun Scan_rows :: "ConfigHistory list \<Rightarrow> dberr + ConfigHistory list" where
  \<comment> \<open>the loop \<^verbatim>\<open>for rows.Next()\<close>, which returns at the first error\<close>
  "Scan_rows [] = Inr []"
| "Scan_rows (h # hs) =
     (case Scan h of
        Inl err \<Rightarrow> Inl err
      | Inr h' \<Rightarrow> (case Scan_rows hs of Inl err \<Rightarrow> Inl err | Inr histories \<Rightarrow> Inr (h' # histories)))"

definition MySQLStore_GetHistory ::
  "world \<Rightarrow> string option \<Rightarrow> nat option \<Rightarrow> int \<Rightarrow> int \<Rightarrow> database \<Rightarrow> dberr + ConfigHistory list \<times> int" where
  "MySQLStore_GetHistory w configType configID limit offset s =
     (if exec_err w CountHistory then Inl DriverError
      else
        let total' = int (length (filter (history_where configType configID) (config_history s)))
        in if exec_err w SelectHistory \<or> limit < 0 \<or> offset < 0 then Inl DriverError
           else
             (case Scan_rows (take (nat limit) (drop (nat offset)
                       (order_by_created_at_desc w
                          (filter (history_where configType configID) (config_history s))))) of
                Inl err \<Rightarrow> Inl err
              | Inr histories \<Rightarrow> Inr (histories, total')))"

section \<open>The handlers\<close>

text \<open>
  A handler answers with \<^verbatim>\<open>http.Error(w, message, status)\<close> or with the encoded
  entity; it returns that answer and the database it leaves behind. The outcome
  classes of the specification are status and message pairs of the code:
  a broken reference of a route to its backend is the answer below.
\<close>

datatype http_error =
  StatusBadRequest string | StatusNotFound string | StatusConflict string
| StatusInternalServerError string

definition InvalidReference :: http_error where
  "InvalidReference = StatusBadRequest ''backend not found or disabled''"

definition Decode :: "json option \<Rightarrow> (string \<Rightarrow> json \<Rightarrow> 'a \<Rightarrow> 'a option) \<Rightarrow> 'a \<Rightarrow> 'a option" where
  \<comment> \<open>\<^verbatim>\<open>json.NewDecoder(r.Body).Decode(&x)\<close>\<close>
  "Decode b store x = (case b of None \<Rightarrow> None | Some j \<Rightarrow> Unmarshal store j x)"

definition recordHistory ::
  "world \<Rightarrow> string \<Rightarrow> nat option \<Rightarrow> string \<Rightarrow> snapshot option \<Rightarrow> snapshot option \<Rightarrow> request \<Rightarrow> database \<Rightarrow> database" where
  \<comment> \<open>the same method body in \<^verbatim>\<open>BackendHandler\<close> and in \<^verbatim>\<open>RouteHandler\<close>;
      an error of \<^verbatim>\<open>CreateHistory\<close> is logged and dropped\<close>
  "recordHistory w configType configID operation oldVal newVal r s =
     (let history = \<lparr>HID = 0, ConfigType = configType, ConfigID = configID,
                      Operation = operation, OldValue = oldVal, NewValue = newVal,
                      Operator = X_Operator r, HCreatedAt = 0\<rparr>
      in (case MySQLStore_CreateHistory w history s of
            (Inl err, s') \<Rightarrow> s'
          | (Inr u, s') \<Rightarrow> s'))"

definition BackendHandler_CreateBackend :: "world \<Rightarrow> request \<Rightarrow> database \<Rightarrow> (http_error + Backend) \<times> database" where
  "BackendHandler_CreateBackend w r s =
     (case Decode (body r) (Backend_field (time_Parse w)) zero_Backend of
        None \<Rightarrow> (Inl (StatusBadRequest ''invalid json''), s)
      | Some backend \<Rightarrow>
          if Name backend = [] then (Inl (StatusBadRequest ''name is required''), s)
          else if Addr backend = [] then (Inl (StatusBadRequest ''addr is required''), s)
          else
            (case MySQLStore_GetBackendByName w (Name backend) s of
               Inl err \<Rightarrow> (Inl (StatusInternalServerError ''internal server error''), s)
             | Inr (Some existing) \<Rightarrow> (Inl (StatusConflict ''backend already exists''), s)
             | Inr None \<Rightarrow>
                 (let backend = (if \<not> Query_Has r ''enabled'' then backend\<lparr>Enabled := True\<rparr>
                                 else backend)
                  in (case MySQLStore_CreateBackend w backend s of
                        (Inl err, s') \<Rightarrow>
                          (Inl (StatusInternalServerError ''internal server error''), s')
                      | (Inr backend, s') \<Rightarrow>
                          (Inr backend,
                           recordHistory w ''backend'' (Some (ID backend)) ''CREATE'' None
                             (Some (BackendJSON backend)) r s')))))"

definition BackendHandler_UpdateBackend :: "world \<Rightarrow> request \<Rightarrow> database \<Rightarrow> (http_error + Backend) \<times> database" where
  "BackendHandler_UpdateBackend w r s =
     (let name = url_param r
      in (case MySQLStore_GetBackendByName w name s of
            Inl err \<Rightarrow> (Inl (StatusInternalServerError ''internal server error''), s)
          | Inr None \<Rightarrow> (Inl (StatusNotFound ''backend not found''), s)
          | Inr (Some oldBackend) \<Rightarrow>
              (case Decode_map (body r) of
                 None \<Rightarrow> (Inl (StatusBadRequest ''invalid json''), s)
               | Some backendUpdate \<Rightarrow>
                   (let enabledPresent = (map_of backendUpdate ''enabled'' \<noteq> None);
                        enabledValue = (case map_of backendUpdate ''enabled'' of
                                          Some (JBool boolVal) \<Rightarrow> boolVal | _ \<Rightarrow> False)
                    in (case Unmarshal (Backend_field (time_Parse w)) (JObj backendUpdate)
                               zero_Backend of
                          None \<Rightarrow> (Inl (StatusBadRequest ''invalid json''), s)
                        | Some backend \<Rightarrow>
                            (let backend = backend\<lparr>Enabled :=
                                   (if \<not> enabledPresent then Enabled oldBackend else enabledValue)\<rparr>
                             in if Addr backend = []
                                then (Inl (StatusBadRequest ''addr is required''), s)
                                else
                                  (let backend = backend\<lparr>ID := ID oldBackend, Name := name\<rparr>
                                   in (case MySQLStore_UpdateBackend w name backend s of
                                         (Inl err, s') \<Rightarrow>
                                           (if err = NotFoundError ''backend not found''
                                            then (Inl (StatusNotFound ''backend not found''), s')
                                            else (Inl (StatusInternalServerError
                                                         ''internal server error''), s'))
                                       | (Inr backend, s') \<Rightarrow>
                                           (Inr backend,
                                            recordHistory w ''backend'' (Some (ID backend)) ''UPDATE''
                                              (Some (BackendJSON oldBackend))
                                              (Some (BackendJSON backend)) r s')))))))))"

definition BackendHandler_DeleteBackend :: "world \<Rightarrow> request \<Rightarrow> database \<Rightarrow> (http_error + unit) \<times> database" where
  "BackendHandler_DeleteBackend w r s =
     (let name = url_param r
      in (case MySQLStore_GetBackendByName w name s of
            Inl err \<Rightarrow> (Inl (StatusInternalServerError ''internal server error''), s)
          | Inr None \<Rightarrow> (Inl (StatusNotFound ''backend not found''), s)
          | Inr (Some oldBackend) \<Rightarrow>
              (case MySQLStore_DeleteBackend w name s of
                 (Inl err, s') \<Rightarrow>
                   (if err = NotFoundError ''backend not found''
                    then (Inl (StatusNotFound ''backend not found''), s')
                    else (Inl (StatusInternalServerError ''internal server error''), s'))
               | (Inr u, s') \<Rightarrow>
                   (let oldBackend = oldBackend\<lparr>Enabled := False\<rparr>
                    in (Inr (),
                        recordHistory w ''backend'' (Some (ID oldBackend)) ''DELETE''
                          (Some (BackendJSON oldBackend)) None r s')))))"

definition verify_backend :: "world \<Rightarrow> string \<Rightarrow> database \<Rightarrow> http_error option" where
  \<comment> \<open>the block \<^verbatim>\<open>// Verify backend exists\<close>, the same in both route handlers, with
      the answer it returns early, if any\<close>
  "verify_backend w backendName s =
     (case MySQLStore_GetBackendByName w backendName s of
        Inl err \<Rightarrow> Some (StatusInternalServerError ''internal server error'')
      | Inr None \<Rightarrow> Some InvalidReference
      | Inr (Some backend) \<Rightarrow> if Enabled backend then None else Some InvalidReference)"

definition RouteHandler_CreateRoute :: "world \<Rightarrow> request \<Rightarrow> database \<Rightarrow> (http_error + Route) \<times> database" where
  "RouteHandler_CreateRoute w r s =
     (case Decode (body r) (Route_field (time_Parse w)) zero_Route of
        None \<Rightarrow> (Inl (StatusBadRequest ''invalid json''), s)
      | Some route \<Rightarrow>
          if HTTPMethod route = [] then (Inl (StatusBadRequest ''http_method is required''), s)
          else if HTTPPattern route = [] then (Inl (StatusBadRequest ''http_pattern is required''), s)
          else if BackendName route = [] then (Inl (StatusBadRequest ''backend_name is required''), s)
          else if BackendService route = [] then
            (Inl (StatusBadRequest ''backend_service is required''), s)
          else if BackendMethod route = [] then
            (Inl (StatusBadRequest ''backend_method is required''), s)
          else
            (case verify_backend w (BackendName route) s of
               Some e \<Rightarrow> (Inl e, s)
             | None \<Rightarrow>
                   (let route = (if TimeoutMS route \<le> 0 then route\<lparr>TimeoutMS := 5000\<rparr> else route);
                        route = (if \<not> Query_Has r ''enabled'' then route\<lparr>REnabled := True\<rparr>
                                 else route)
                    in (case MySQLStore_CreateRoute w route s of
                          (Inl err, s') \<Rightarrow>
                            (Inl (StatusInternalServerError ''internal server error''), s')
                        | (Inr route, s') \<Rightarrow>
                            (Inr route,
                             recordHistory w ''route'' (Some (RID route)) ''CREATE'' None
                               (Some (RouteJSON route)) r s')))))"

definition RouteHandler_UpdateRoute :: "world \<Rightarrow> request \<Rightarrow> database \<Rightarrow> (http_error + Route) \<times> database" where
  "RouteHandler_UpdateRoute w r s =
     (case ParseUint (url_param r) 32 of
        None \<Rightarrow> (Inl (StatusBadRequest ''invalid route id''), s)
      | Some id0 \<Rightarrow>
          (case MySQLStore_GetRouteByID w id0 s of
             Inl err \<Rightarrow> (Inl (StatusInternalServerError ''internal server error''), s)
           | Inr None \<Rightarrow> (Inl (StatusNotFound ''route not found''), s)
           | Inr (Some oldRoute) \<Rightarrow>
               (case Decode_map (body r) of
                  None \<Rightarrow> (Inl (StatusBadRequest ''invalid json''), s)
                | Some routeUpdate \<Rightarrow>
                    (let enabledPresent = (map_of routeUpdate ''enabled'' \<noteq> None);
                         enabledValue = (case map_of routeUpdate ''enabled'' of
                                           Some (JBool boolVal) \<Rightarrow> boolVal | _ \<Rightarrow> False)
                     in (case Unmarshal (Route_field (time_Parse w)) (JObj routeUpdate)
                                zero_Route of
                           None \<Rightarrow> (Inl (StatusBadRequest ''invalid json''), s)
                         | Some route \<Rightarrow>
                             (let route = route\<lparr>REnabled :=
                                    (if \<not> enabledPresent then REnabled oldRoute else enabledValue)\<rparr>
                              in if HTTPMethod route = [] \<or> HTTPPattern route = [] \<or>
                                    BackendName route = [] \<or> BackendService route = [] \<or>
                                    BackendMethod route = []
                                 then (Inl (StatusBadRequest ''required fields cannot be empty''), s)
                                 else
                                   (case (if BackendName route \<noteq> BackendName oldRoute
                                          then verify_backend w (BackendName route) s
                                          else None) of
                                      Some e \<Rightarrow> (Inl e, s)
                                    | None \<Rightarrow>
                                        (let route = route\<lparr>RID := id0\<rparr>
                                         in (case MySQLStore_UpdateRoute w id0 route s of
                                               (Inl err, s') \<Rightarrow>
                                                 (if err = NotFoundError ''route not found''
                                                  then (Inl (StatusNotFound ''route not found''), s')
                                                  else (Inl (StatusInternalServerError
                                                               ''internal server error''), s'))
                                             | (Inr route, s') \<Rightarrow>
                                                 (Inr route,
                                                  recordHistory w ''route'' (Some (RID route))
                                                    ''UPDATE'' (Some (RouteJSON oldRoute))
                                                    (Some (RouteJSON route)) r s'))))))))))"

definition RouteHandler_DeleteRoute :: "world \<Rightarrow> request \<Rightarrow> database \<Rightarrow> (http_error + unit) \<times> database" where
  "RouteHandler_DeleteRoute w r s =
     (case ParseUint (url_param r) 32 of
        None \<Rightarrow> (Inl (StatusBadRequest ''invalid route id''), s)
      | Some id0 \<Rightarrow>
          (case MySQLStore_GetRouteByID w id0 s of
             Inl err \<Rightarrow> (Inl (StatusInternalServerError ''internal server error''), s)
           | Inr None \<Rightarrow> (Inl (StatusNotFound ''route not found''), s)
           | Inr (Some oldRoute) \<Rightarrow>
               (case MySQLStore_DeleteRoute w id0 s of
                  (Inl err, s') \<Rightarrow>
                    (if err = NotFoundError ''route not found''
                     then (Inl (StatusNotFound ''route not found''), s')
                     else (Inl (StatusInternalServerError ''internal server error''), s'))
                | (Inr u, s') \<Rightarrow>
                    (let oldRoute = oldRoute\<lparr>REnabled := False\<rparr>
                     in (Inr (),
                         recordHistory w ''route'' (Some (RID oldRoute)) ''DELETE''
                           (Some (RouteJSON oldRoute)) None r s')))))"

record history_page =
  page_items :: "ConfigHistory list"
  page_total :: int
  page_limit :: int
  page_offset :: int

definition invalid_config_type :: string where
  "invalid_config_type =
     ''invalid config_type (must be '' @ [CHR 0x27] @ ''backend'' @ [CHR 0x27] @ '' or '' @
     [CHR 0x27] @ ''route'' @ [CHR 0x27] @ '')''"

definition HistoryHandler_ListHistory :: "world \<Rightarrow> request \<Rightarrow> database \<Rightarrow> http_error + history_page" where
  "HistoryHandler_ListHistory w r s =
     (let typeParam = Query_Get r ''config_type''
      in if typeParam \<noteq> [] \<and> typeParam \<noteq> ''backend'' \<and> typeParam \<noteq> ''route''
         then Inl (StatusBadRequest invalid_config_type)
         else
           let configType = (if typeParam \<noteq> [] then Some typeParam else None);
               idParam = Query_Get r ''config_id''
           in (case (if idParam \<noteq> [] then map_option Some (ParseUint idParam 32)
                     else Some None) of
                None \<Rightarrow> Inl (StatusBadRequest ''invalid config_id'')
              | Some configID \<Rightarrow>
                  (let limitParam = Query_Get r ''limit'';
                      limit = (if limitParam \<noteq> []
                               then (case Atoi limitParam of
                                       Some parsedLimit \<Rightarrow>
                                         if parsedLimit > 0 \<and> parsedLimit \<le> 100 then parsedLimit else 50
                                     | None \<Rightarrow> 50)
                               else 50);
                      offsetParam = Query_Get r ''offset'';
                      offset = (if offsetParam \<noteq> []
                                then (case Atoi offsetParam of
                                        Some parsedOffset \<Rightarrow> if parsedOffset \<ge> 0 then parsedOffset else 0
                                      | None \<Rightarrow> 0)
                                else 0)
                   in (case MySQLStore_GetHistory w configType configID limit offset s of
                         Inl err \<Rightarrow> Inl (StatusInternalServerError ''internal server error'')
                       | Inr (histories, total') \<Rightarrow>
                           Inr \<lparr>page_items = histories, page_total = total', page_limit = limit,
                                page_offset = offset\<rparr>))))"

section \<open>Notions used to state the properties\<close>

text \<open>
  The payload of a request as the specification speaks of it: the keys of the JSON
  object in the body, and the value a key has (the last one, where the text repeats
  a key).
\<close>

definition keys :: "json option \<Rightarrow> string set" where
  "keys b = (case b of Some (JObj ms) \<Rightarrow> fst ` set ms | _ \<Rightarrow> {})"

definition member :: "json option \<Rightarrow> string \<Rightarrow> json option" where
  "member b k = (case b of Some (JObj ms) \<Rightarrow> map_of (rev ms) k | _ \<Rightarrow> None)"

definition merged_enabled :: "(string \<times> json) list \<Rightarrow> bool \<Rightarrow> bool" where
  \<comment> \<open>what the update handlers compute from \<^verbatim>\<open>enabledPresent\<close> and \<^verbatim>\<open>enabledValue\<close>\<close>
  "merged_enabled ms old =
     (if map_of ms ''enabled'' = None then old
      else (case map_of ms ''enabled'' of Some (JBool v) \<Rightarrow> v | _ \<Rightarrow> False))"

definition audit_row ::
  "world \<Rightarrow> request \<Rightarrow> database \<Rightarrow> string \<Rightarrow> nat \<Rightarrow> string \<Rightarrow> snapshot option \<Rightarrow> snapshot option \<Rightarrow> ConfigHistory" where
  \<comment> \<open>the row of config\_history that records one change made to the database \<open>s\<close>\<close>
  "audit_row w r s configType id0 operation oldVal newVal =
     \<lparr>HID = config_history_seq s, ConfigType = configType, ConfigID = Some id0,
      Operation = operation, OldValue = oldVal, NewValue = newVal,
      Operator = X_Operator r, HCreatedAt = CURRENT_TIMESTAMP w InsertHistory\<rparr>"

definition history_fails :: "world \<Rightarrow> world" where
  \<comment> \<open>the same surroundings, except that the insert into config\_history returns an error\<close>
  "history_fails w = w\<lparr>exec_err := (exec_err w)(InsertHistory := True)\<rparr>"

definition without_audit :: "database \<Rightarrow> database \<Rightarrow> database" where
  \<comment> \<open>the database \<open>s'\<close> with the table config\_history as it is in \<open>s\<close>\<close>
  "without_audit s s' =
     s'\<lparr>config_history := config_history s, config_history_seq := config_history_seq s\<rparr>"

text \<open>Concrete surroundings, databases and requests for the examples below.\<close>

definition quiet :: world where
  \<comment> \<open>no statement fails, the driver counts changed rows as with the data source name
      of the README; the database clock shows 100, the clock of the process 101\<close>
  "quiet = \<lparr>exec_err = (\<lambda>_. False), result_err = False, clientFoundRows = False,
            CURRENT_TIMESTAMP = (\<lambda>_. 100), time_Now = (\<lambda>_. 101), time_Parse = (\<lambda>_. None),
            row_order = (\<lambda>n. n)\<rparr>"

definition history_down :: world where
  \<comment> \<open>as \<open>quiet\<close>, but the insert into config\_history returns an error\<close>
  "history_down = quiet\<lparr>exec_err := (\<lambda>q. q = InsertHistory)\<rparr>"

definition account :: Backend where
  "account = \<lparr>ID = 1, Name = ''account'', Addr = ''127.0.0.1:50051'',
               Description = ''Account service'', Enabled = True, CreatedAt = 10, UpdatedAt = 10\<rparr>"

definition login :: Route where
  "login = \<lparr>RID = 1, HTTPMethod = ''POST'', HTTPPattern = ''/v1/user/login'',
             BackendName = ''account'', BackendService = ''user.v1.UserService'',
             BackendMethod = ''Login'', TimeoutMS = 5000, RDescription = ''User login route'',
             REnabled = True, RCreatedAt = 20, RUpdatedAt = 20\<rparr>"

definition db1 :: database where
  \<comment> \<open>one enabled backend and one route to it\<close>
  "db1 = \<lparr>backends = [account], routes = [login], config_history = [],
           backends_seq = 2, routes_seq = 2, config_history_seq = 1\<rparr>"

definition db2 :: database where
  \<comment> \<open>the same with the backend disabled\<close>
  "db2 = db1\<lparr>backends := [account\<lparr>Enabled := False\<rparr>]\<rparr>"

definition req :: "string \<Rightarrow> (string \<times> json) list \<Rightarrow> request" where
  \<comment> \<open>a request with a path parameter and a JSON object as its body, sent by \<open>ops\<close>\<close>
  "req p ms = \<lparr>url_param = p, query = [], X_Operator = ''ops'', body = Some (JObj ms)\<rparr>"

definition db3 :: database where
  \<comment> \<open>\<open>db1\<close> after \<^verbatim>\<open>DELETE /api/v1/backends/account\<close>, sent by \<open>ops\<close> when the database
      clock shows 100\<close>
  "db3 = db1\<lparr>backends := [account\<lparr>Enabled := False, UpdatedAt := 100\<rparr>],
            config_history :=
              [\<lparr>HID = 1, ConfigType = ''backend'', ConfigID = Some 1, Operation = ''DELETE'',
                OldValue = Some (BackendJSON (account\<lparr>Enabled := False\<rparr>)), NewValue = None,
                Operator = ''ops'', HCreatedAt = 100\<rparr>],
            config_history_seq := 2\<rparr>"

definition login_members :: "(string \<times> json) list" where
  "login_members =
     [(''http_method'', JStr ''POST''), (''http_pattern'', JStr ''/v1/user/login''),
      (''backend_name'', JStr ''account''), (''backend_service'', JStr ''user.v1.UserService''),
      (''backend_method'', JStr ''Login'')]"

definition login_payload :: Route where
  \<comment> \<open>the struct that \<open>login_members\<close> decodes to\<close>
  "login_payload = zero_Route\<lparr>HTTPMethod := ''POST'', HTTPPattern := ''/v1/user/login'',
     BackendName := ''account'', BackendService := ''user.v1.UserService'',
     BackendMethod := ''Login''\<rparr>"

definition ghost_members :: "(string \<times> json) list" where
  \<comment> \<open>as \<open>login_members\<close>, naming a backend that no database below has\<close>
  "ghost_members =
     [(''http_method'', JStr ''POST''), (''http_pattern'', JStr ''/v1/user/login''),
      (''backend_name'', JStr ''ghost''), (''backend_service'', JStr ''user.v1.UserService''),
      (''backend_method'', JStr ''Login'')]"

definition later :: world where
  \<comment> \<open>as \<open>quiet\<close>, a minute later by the database clock\<close>
  "later = quiet\<lparr>CURRENT_TIMESTAMP := (\<lambda>_. 160)\<rparr>"

definition hist :: "nat \<Rightarrow> string \<Rightarrow> nat \<Rightarrow> snapshot \<Rightarrow> time \<Rightarrow> ConfigHistory" where
  \<comment> \<open>a row of config\_history that an update has written, with both snapshots\<close>
  "hist n ty i v t =
     \<lparr>HID = n, ConfigType = ty, ConfigID = Some i, Operation = ''UPDATE'', OldValue = Some v,
      NewValue = Some v, Operator = ''ops'', HCreatedAt = t\<rparr>"

definition db_audited :: database where
  \<comment> \<open>five recorded updates, three of them of the backend with id 7, two of these at
      the same time\<close>
  "db_audited = db1\<lparr>config_history :=
       [hist 1 ''backend'' 7 (BackendJSON (account\<lparr>ID := 7\<rparr>)) 5,
        hist 2 ''route'' 1 (RouteJSON login) 6,
        hist 3 ''backend'' 7 (BackendJSON (account\<lparr>ID := 7\<rparr>)) 7,
        hist 4 ''backend'' 8 (BackendJSON (account\<lparr>ID := 8\<rparr>)) 8,
        hist 5 ''backend'' 7 (BackendJSON (account\<lparr>ID := 7\<rparr>)) 7],
     config_history_seq := 6\<rparr>"

definition history_request :: "(string \<times> string) list \<Rightarrow> request" where
  \<comment> \<open>\<^verbatim>\<open>GET /api/v1/history\<close> with a query string\<close>
  "history_request q = \<lparr>url_param = [], query = q, X_Operator = [], body = None\<rparr>"

section \<open>Auxiliary facts\<close>

lemma find_Some_D: "find P xs = Some x \<Longrightarrow> P x \<and> x \<in> set xs"
  by (induction xs) (auto split: if_splits)

lemma RowsAffected_found:
  assumes "find selected rows = Some old" and "clientFoundRows w \<or> assign old \<noteq> old"
  shows "RowsAffected w selected assign rows \<noteq> 0"
proof -
  from assms(1) have "selected old \<and> old \<in> set rows" by (rule find_Some_D)
  with assms(2) show ?thesis
    by (auto simp: RowsAffected_def filter_empty_conv)
qed

lemma find_map_same_key:
  assumes "\<And>x. P (f x) = P x"
  shows "find P (map f xs) = map_option f (find P xs)"
  by (induction xs) (simp_all add: assms)

lemma recordHistory_backends [simp]: "backends (recordHistory w ct ci opn ov nv r s) = backends s"
  by (simp add: recordHistory_def MySQLStore_CreateHistory_def Let_def)

lemma recordHistory_routes [simp]: "routes (recordHistory w ct ci opn ov nv r s) = routes s"
  by (simp add: recordHistory_def MySQLStore_CreateHistory_def Let_def)

lemma recordHistory_config_history:
  "config_history (recordHistory w ct ci opn ov nv r s) =
     (if exec_err w InsertHistory then config_history s
      else config_history s @
        [\<lparr>HID = config_history_seq s, ConfigType = ct, ConfigID = ci, Operation = opn,
          OldValue = ov, NewValue = nv, Operator = X_Operator r,
          HCreatedAt = CURRENT_TIMESTAMP w InsertHistory\<rparr>])"
  by (simp add: recordHistory_def MySQLStore_CreateHistory_def Let_def)

subsection \<open>The update of a backend, step by step\<close>

lemma UpdateBackend_eval:
  assumes "\<not> exec_err w SelectBackend"
    and "find (\<lambda>x. Name x = url_param r) (backends s) = Some old"
    and "Decode_map (body r) = Some ms"
    and "Unmarshal (Backend_field (time_Parse w)) (JObj ms) zero_Backend = Some d"
    and "Addr d \<noteq> []"
    and "\<not> exec_err w UpdateBackend" and "\<not> result_err w"
    and "RowsAffected w (\<lambda>x. Name x = url_param r)
           (\<lambda>x. x\<lparr>Addr := Addr d, Description := Description d,
                  Enabled := merged_enabled ms (Enabled old),
                  UpdatedAt := CURRENT_TIMESTAMP w UpdateBackend\<rparr>) (backends s) \<noteq> 0"
  shows "BackendHandler_UpdateBackend w r s =
     (Inr (d\<lparr>Enabled := merged_enabled ms (Enabled old), ID := ID old, Name := url_param r,
             UpdatedAt := time_Now w 0\<rparr>),
      recordHistory w ''backend'' (Some (ID old)) ''UPDATE'' (Some (BackendJSON old))
        (Some (BackendJSON (d\<lparr>Enabled := merged_enabled ms (Enabled old), ID := ID old,
           Name := url_param r, UpdatedAt := time_Now w 0\<rparr>))) r
        (s\<lparr>backends := map (\<lambda>x. if Name x = url_param r
             then x\<lparr>Addr := Addr d, Description := Description d,
                    Enabled := merged_enabled ms (Enabled old),
                    UpdatedAt := CURRENT_TIMESTAMP w UpdateBackend\<rparr> else x) (backends s)\<rparr>))"
  using assms
  by (auto simp add: BackendHandler_UpdateBackend_def MySQLStore_GetBackendByName_def
      MySQLStore_UpdateBackend_def Let_def enabledInt_def merged_enabled_def cong: if_cong)

lemma UpdateBackend_Inr:
  assumes ok: "BackendHandler_UpdateBackend w r s = (Inr b, s')"
  obtains old ms d where
    "\<not> exec_err w SelectBackend" "\<not> exec_err w UpdateBackend" "\<not> result_err w"
    "find (\<lambda>x. Name x = url_param r) (backends s) = Some old"
    "Decode_map (body r) = Some ms"
    "Unmarshal (Backend_field (time_Parse w)) (JObj ms) zero_Backend = Some d"
    "Addr d \<noteq> []"
    "RowsAffected w (\<lambda>x. Name x = url_param r)
       (\<lambda>x. x\<lparr>Addr := Addr d, Description := Description d,
              Enabled := merged_enabled ms (Enabled old),
              UpdatedAt := CURRENT_TIMESTAMP w UpdateBackend\<rparr>) (backends s) \<noteq> 0"
proof -
  note defs = BackendHandler_UpdateBackend_def MySQLStore_GetBackendByName_def Let_def
  have no_inl: "\<not> isl (fst (BackendHandler_UpdateBackend w r s))"
    using ok by simp
  have 1: "\<not> exec_err w SelectBackend"
    using no_inl by (auto simp: defs)
  obtain old where 2: "find (\<lambda>x. Name x = url_param r) (backends s) = Some old"
    using no_inl 1
    by (cases "find (\<lambda>x. Name x = url_param r) (backends s)") (auto simp: defs)
  obtain ms where 3: "Decode_map (body r) = Some ms"
    using no_inl 1 2 by (cases "Decode_map (body r)") (auto simp: defs)
  obtain d where 4: "Unmarshal (Backend_field (time_Parse w)) (JObj ms) zero_Backend = Some d"
    using no_inl 1 2 3
    by (cases "Unmarshal (Backend_field (time_Parse w)) (JObj ms) zero_Backend") (auto simp: defs)
  have 5: "Addr d \<noteq> []"
    using no_inl 1 2 3 4 by (auto simp: defs)
  have 6: "\<not> exec_err w UpdateBackend"
    using no_inl 1 2 3 4 5 by (auto simp: defs MySQLStore_UpdateBackend_def)
  have 7: "\<not> result_err w"
    using no_inl 1 2 3 4 5 6 by (auto simp: defs MySQLStore_UpdateBackend_def)
  have 8: "RowsAffected w (\<lambda>x. Name x = url_param r)
       (\<lambda>x. x\<lparr>Addr := Addr d, Description := Description d,
              Enabled := merged_enabled ms (Enabled old),
              UpdatedAt := CURRENT_TIMESTAMP w UpdateBackend\<rparr>) (backends s) \<noteq> 0"
  proof
    assume "RowsAffected w (\<lambda>x. Name x = url_param r)
       (\<lambda>x. x\<lparr>Addr := Addr d, Description := Description d,
              Enabled := merged_enabled ms (Enabled old),
              UpdatedAt := CURRENT_TIMESTAMP w UpdateBackend\<rparr>) (backends s) = 0"
    then have "isl (fst (BackendHandler_UpdateBackend w r s))"
      using 1 2 3 4 5 6 7
      by (auto simp: defs MySQLStore_UpdateBackend_def enabledInt_def merged_enabled_def
          cong: if_cong)
    with no_inl show False by simp
  qed
  from that 1 2 3 4 5 6 7 8 show ?thesis by blast
qed

subsection \<open>The creation of a backend, step by step\<close>

lemma CreateBackend_eval:
  assumes "Decode (body r) (Backend_field (time_Parse w)) zero_Backend = Some d"
    and "Name d \<noteq> []" and "Addr d \<noteq> []"
    and "\<not> exec_err w SelectBackend"
    and "find (\<lambda>x. Name x = Name d) (backends s) = None"
    and "\<not> exec_err w InsertBackend" and "\<not> result_err w"
  shows "BackendHandler_CreateBackend w r s =
     (Inr (d\<lparr>Enabled := (if Query_Has r ''enabled'' then Enabled d else True),
             ID := backends_seq s, CreatedAt := time_Now w 0, UpdatedAt := time_Now w 1\<rparr>),
      recordHistory w ''backend'' (Some (backends_seq s)) ''CREATE'' None
        (Some (BackendJSON (d\<lparr>Enabled := (if Query_Has r ''enabled'' then Enabled d else True),
             ID := backends_seq s, CreatedAt := time_Now w 0, UpdatedAt := time_Now w 1\<rparr>))) r
        (s\<lparr>backends := backends s @
             [\<lparr>ID = backends_seq s, Name = Name d, Addr = Addr d, Description = Description d,
               Enabled = (if Query_Has r ''enabled'' then Enabled d else True),
               CreatedAt = CURRENT_TIMESTAMP w InsertBackend,
               UpdatedAt = CURRENT_TIMESTAMP w InsertBackend\<rparr>],
            backends_seq := backends_seq s + 1\<rparr>))"
  using assms
  by (simp add: BackendHandler_CreateBackend_def MySQLStore_GetBackendByName_def
      MySQLStore_CreateBackend_def Let_def enabledInt_def)

lemma CreateBackend_Inr:
  assumes ok: "BackendHandler_CreateBackend w r s = (Inr b, s')"
  obtains d where
    "Decode (body r) (Backend_field (time_Parse w)) zero_Backend = Some d"
    "Name d \<noteq> []" "Addr d \<noteq> []" "\<not> exec_err w SelectBackend"
    "find (\<lambda>x. Name x = Name d) (backends s) = None"
    "\<not> exec_err w InsertBackend" "\<not> result_err w"
proof -
  note defs = BackendHandler_CreateBackend_def MySQLStore_GetBackendByName_def Let_def
  have no_inl: "\<not> isl (fst (BackendHandler_CreateBackend w r s))"
    using ok by simp
  obtain d where 1: "Decode (body r) (Backend_field (time_Parse w)) zero_Backend = Some d"
    using no_inl
    by (cases "Decode (body r) (Backend_field (time_Parse w)) zero_Backend") (auto simp: defs)
  have 2: "Name d \<noteq> []" using no_inl 1 by (auto simp: defs)
  have 3: "Addr d \<noteq> []" using no_inl 1 2 by (auto simp: defs)
  have 4: "\<not> exec_err w SelectBackend" using no_inl 1 2 3 by (auto simp: defs)
  have 5: "find (\<lambda>x. Name x = Name d) (backends s) = None"
    using no_inl 1 2 3 4
    by (cases "find (\<lambda>x. Name x = Name d) (backends s)") (auto simp: defs)
  have 6: "\<not> exec_err w InsertBackend"
    using no_inl 1 2 3 4 5 by (auto simp: defs MySQLStore_CreateBackend_def)
  have 7: "\<not> result_err w"
    using no_inl 1 2 3 4 5 6 by (auto simp: defs MySQLStore_CreateBackend_def)
  from that 1 2 3 4 5 6 7 show ?thesis by blast
qed

subsection \<open>The deletion of a backend, step by step\<close>

lemma DeleteBackend_eval:
  assumes "\<not> exec_err w SelectBackend"
    and "find (\<lambda>x. Name x = url_param r) (backends s) = Some old"
    and "\<not> exec_err w DeleteBackend" and "\<not> result_err w"
    and "RowsAffected w (\<lambda>x. Name x = url_param r)
           (\<lambda>x. x\<lparr>Enabled := False, UpdatedAt := CURRENT_TIMESTAMP w DeleteBackend\<rparr>)
           (backends s) \<noteq> 0"
  shows "BackendHandler_DeleteBackend w r s =
     (Inr (),
      recordHistory w ''backend'' (Some (ID old)) ''DELETE''
        (Some (BackendJSON (old\<lparr>Enabled := False\<rparr>))) None r
        (s\<lparr>backends := map (\<lambda>x. if Name x = url_param r
             then x\<lparr>Enabled := False, UpdatedAt := CURRENT_TIMESTAMP w DeleteBackend\<rparr>
             else x) (backends s)\<rparr>))"
  using assms
  by (simp add: BackendHandler_DeleteBackend_def MySQLStore_GetBackendByName_def
      MySQLStore_DeleteBackend_def Let_def)

lemma DeleteBackend_Inr:
  assumes ok: "BackendHandler_DeleteBackend w r s = (Inr u, s')"
  obtains old where
    "\<not> exec_err w SelectBackend" "\<not> exec_err w DeleteBackend" "\<not> result_err w"
    "find (\<lambda>x. Name x = url_param r) (backends s) = Some old"
    "RowsAffected w (\<lambda>x. Name x = url_param r)
       (\<lambda>x. x\<lparr>Enabled := False, UpdatedAt := CURRENT_TIMESTAMP w DeleteBackend\<rparr>)
       (backends s) \<noteq> 0"
proof -
  note defs = BackendHandler_DeleteBackend_def MySQLStore_GetBackendByName_def Let_def
  have no_inl: "\<not> isl (fst (BackendHandler_DeleteBackend w r s))"
    using ok by simp
  have 1: "\<not> exec_err w SelectBackend"
    using no_inl by (auto simp: defs)
  obtain old where 2: "find (\<lambda>x. Name x = url_param r) (backends s) = Some old"
    using no_inl 1
    by (cases "find (\<lambda>x. Name x = url_param r) (backends s)") (auto simp: defs)
  have 3: "\<not> exec_err w DeleteBackend"
    using no_inl 1 2 by (auto simp: defs MySQLStore_DeleteBackend_def)
  have 4: "\<not> result_err w"
    using no_inl 1 2 3 by (auto simp: defs MySQLStore_DeleteBackend_def)
  have 5: "RowsAffected w (\<lambda>x. Name x = url_param r)
       (\<lambda>x. x\<lparr>Enabled := False, UpdatedAt := CURRENT_TIMESTAMP w DeleteBackend\<rparr>)
       (backends s) \<noteq> 0"
  proof
    assume "RowsAffected w (\<lambda>x. Name x = url_param r)
       (\<lambda>x. x\<lparr>Enabled := False, UpdatedAt := CURRENT_TIMESTAMP w DeleteBackend\<rparr>)
       (backends s) = 0"
    then have "isl (fst (BackendHandler_DeleteBackend w r s))"
      using 1 2 3 4 by (simp add: defs MySQLStore_DeleteBackend_def)
    with no_inl show False by simp
  qed
  from that 1 2 3 4 5 show ?thesis by blast
qed

subsection \<open>The route handlers, step by step\<close>

lemma CreateRoute_eval:
  assumes "Decode (body r) (Route_field (time_Parse w)) zero_Route = Some d"
    and "HTTPMethod d \<noteq> []" and "HTTPPattern d \<noteq> []" and "BackendName d \<noteq> []"
    and "BackendService d \<noteq> []" and "BackendMethod d \<noteq> []"
    and "verify_backend w (BackendName d) s = None"
    and "\<not> exec_err w InsertRoute" and "\<not> result_err w"
  shows "RouteHandler_CreateRoute w r s =
     (Inr (d\<lparr>TimeoutMS := (if TimeoutMS d \<le> 0 then 5000 else TimeoutMS d),
             REnabled := (if Query_Has r ''enabled'' then REnabled d else True),
             RID := routes_seq s, RCreatedAt := time_Now w 0, RUpdatedAt := time_Now w 1\<rparr>),
      recordHistory w ''route'' (Some (routes_seq s)) ''CREATE'' None
        (Some (RouteJSON (d\<lparr>TimeoutMS := (if TimeoutMS d \<le> 0 then 5000 else TimeoutMS d),
             REnabled := (if Query_Has r ''enabled'' then REnabled d else True),
             RID := routes_seq s, RCreatedAt := time_Now w 0, RUpdatedAt := time_Now w 1\<rparr>))) r
        (s\<lparr>routes := routes s @
             [\<lparr>RID = routes_seq s, HTTPMethod = HTTPMethod d, HTTPPattern = HTTPPattern d,
               BackendName = BackendName d, BackendService = BackendService d,
               BackendMethod = BackendMethod d,
               TimeoutMS = (if TimeoutMS d \<le> 0 then 5000 else TimeoutMS d),
               RDescription = RDescription d,
               REnabled = (if Query_Has r ''enabled'' then REnabled d else True),
               RCreatedAt = CURRENT_TIMESTAMP w InsertRoute,
               RUpdatedAt = CURRENT_TIMESTAMP w InsertRoute\<rparr>],
            routes_seq := routes_seq s + 1\<rparr>))"
  using assms
  by (simp add: RouteHandler_CreateRoute_def MySQLStore_CreateRoute_def Let_def enabledInt_def)

lemma CreateRoute_Inr:
  assumes ok: "RouteHandler_CreateRoute w r s = (Inr b, s')"
  obtains d where
    "Decode (body r) (Route_field (time_Parse w)) zero_Route = Some d"
    "HTTPMethod d \<noteq> []" "HTTPPattern d \<noteq> []" "BackendName d \<noteq> []"
    "BackendService d \<noteq> []" "BackendMethod d \<noteq> []"
    "verify_backend w (BackendName d) s = None"
    "\<not> exec_err w InsertRoute" "\<not> result_err w"
proof -
  note defs = RouteHandler_CreateRoute_def Let_def
  have no_inl: "\<not> isl (fst (RouteHandler_CreateRoute w r s))"
    using ok by simp
  obtain d where 1: "Decode (body r) (Route_field (time_Parse w)) zero_Route = Some d"
    using no_inl
    by (cases "Decode (body r) (Route_field (time_Parse w)) zero_Route") (auto simp: defs)
  have 2: "HTTPMethod d \<noteq> []" using no_inl 1 by (auto simp: defs)
  have 3: "HTTPPattern d \<noteq> []" using no_inl 1 2 by (auto simp: defs)
  have 4: "BackendName d \<noteq> []" using no_inl 1 2 3 by (auto simp: defs)
  have 5: "BackendService d \<noteq> []" using no_inl 1 2 3 4 by (auto simp: defs)
  have 6: "BackendMethod d \<noteq> []" using no_inl 1 2 3 4 5 by (auto simp: defs)
  have 7: "verify_backend w (BackendName d) s = None"
    using no_inl 1 2 3 4 5 6
    by (cases "verify_backend w (BackendName d) s") (auto simp: defs)
  have 8: "\<not> exec_err w InsertRoute"
    using no_inl 1 2 3 4 5 6 7 by (auto simp: defs MySQLStore_CreateRoute_def)
  have 9: "\<not> result_err w"
    using no_inl 1 2 3 4 5 6 7 8 by (auto simp: defs MySQLStore_CreateRoute_def)
  from that 1 2 3 4 5 6 7 8 9 show ?thesis by blast
qed

lemma UpdateRoute_eval:
  assumes "ParseUint (url_param r) 32 = Some i"
    and "\<not> exec_err w SelectRoute"
    and "find (\<lambda>x. RID x = i) (routes s) = Some old"
    and "Decode_map (body r) = Some ms"
    and "Unmarshal (Route_field (time_Parse w)) (JObj ms) zero_Route = Some d"
    and "HTTPMethod d \<noteq> []" and "HTTPPattern d \<noteq> []" and "BackendName d \<noteq> []"
    and "BackendService d \<noteq> []" and "BackendMethod d \<noteq> []"
    and "BackendName d = BackendName old \<or> verify_backend w (BackendName d) s = None"
    and "\<not> exec_err w UpdateRoute" and "\<not> result_err w"
    and "RowsAffected w (\<lambda>x. RID x = i)
       (\<lambda>x. x\<lparr>HTTPMethod := HTTPMethod d, HTTPPattern := HTTPPattern d,
              BackendName := BackendName d, BackendService := BackendService d,
              BackendMethod := BackendMethod d, TimeoutMS := TimeoutMS d,
              RDescription := RDescription d,
              REnabled := merged_enabled ms (REnabled old),
              RUpdatedAt := CURRENT_TIMESTAMP w UpdateRoute\<rparr>) (routes s) \<noteq> 0"
  shows "RouteHandler_UpdateRoute w r s =
     (Inr (d\<lparr>REnabled := merged_enabled ms (REnabled old), RID := i,
             RUpdatedAt := time_Now w 0\<rparr>),
      recordHistory w ''route'' (Some i) ''UPDATE'' (Some (RouteJSON old))
        (Some (RouteJSON (d\<lparr>REnabled := merged_enabled ms (REnabled old), RID := i,
             RUpdatedAt := time_Now w 0\<rparr>))) r
        (s\<lparr>routes := map (\<lambda>x. if RID x = i
             then x\<lparr>HTTPMethod := HTTPMethod d, HTTPPattern := HTTPPattern d,
                    BackendName := BackendName d, BackendService := BackendService d,
                    BackendMethod := BackendMethod d, TimeoutMS := TimeoutMS d,
                    RDescription := RDescription d,
                    REnabled := merged_enabled ms (REnabled old),
                    RUpdatedAt := CURRENT_TIMESTAMP w UpdateRoute\<rparr> else x) (routes s)\<rparr>))"
  using assms
  by (auto simp add: RouteHandler_UpdateRoute_def MySQLStore_GetRouteByID_def
      MySQLStore_UpdateRoute_def Let_def enabledInt_def merged_enabled_def cong: if_cong)

lemma UpdateRoute_Inr:
  assumes ok: "RouteHandler_UpdateRoute w r s = (Inr b, s')"
  obtains i old ms d where
    "ParseUint (url_param r) 32 = Some i"
    "\<not> exec_err w SelectRoute"
    "find (\<lambda>x. RID x = i) (routes s) = Some old"
    "Decode_map (body r) = Some ms"
    "Unmarshal (Route_field (time_Parse w)) (JObj ms) zero_Route = Some d"
    "HTTPMethod d \<noteq> []" "HTTPPattern d \<noteq> []" "BackendName d \<noteq> []"
    "BackendService d \<noteq> []" "BackendMethod d \<noteq> []"
    "BackendName d = BackendName old \<or> verify_backend w (BackendName d) s = None"
    "\<not> exec_err w UpdateRoute" "\<not> result_err w"
    "RowsAffected w (\<lambda>x. RID x = i)
       (\<lambda>x. x\<lparr>HTTPMethod := HTTPMethod d, HTTPPattern := HTTPPattern d,
              BackendName := BackendName d, BackendService := BackendService d,
              BackendMethod := BackendMethod d, TimeoutMS := TimeoutMS d,
              RDescription := RDescription d,
              REnabled := merged_enabled ms (REnabled old),
              RUpdatedAt := CURRENT_TIMESTAMP w UpdateRoute\<rparr>) (routes s) \<noteq> 0"
proof -
  note defs = RouteHandler_UpdateRoute_def MySQLStore_GetRouteByID_def Let_def
  have no_inl: "\<not> isl (fst (RouteHandler_UpdateRoute w r s))"
    using ok by simp
  obtain i where 1: "ParseUint (url_param r) 32 = Some i"
    using no_inl by (cases "ParseUint (url_param r) 32") (auto simp: defs)
  have 2: "\<not> exec_err w SelectRoute"
    using no_inl 1 by (auto simp: defs)
  obtain old where 3: "find (\<lambda>x. RID x = i) (routes s) = Some old"
    using no_inl 1 2 by (cases "find (\<lambda>x. RID x = i) (routes s)") (auto simp: defs)
  obtain ms where 4: "Decode_map (body r) = Some ms"
    using no_inl 1 2 3 by (cases "Decode_map (body r)") (auto simp: defs)
  obtain d where 5: "Unmarshal (Route_field (time_Parse w)) (JObj ms) zero_Route = Some d"
    using no_inl 1 2 3 4
    by (cases "Unmarshal (Route_field (time_Parse w)) (JObj ms) zero_Route") (auto simp: defs)
  have 6: "HTTPMethod d \<noteq> [] \<and> HTTPPattern d \<noteq> [] \<and> BackendName d \<noteq> [] \<and>
      BackendService d \<noteq> [] \<and> BackendMethod d \<noteq> []"
  proof (rule ccontr)
    assume "\<not> ?thesis"
    then have "HTTPMethod d = [] \<or> HTTPPattern d = [] \<or> BackendName d = [] \<or>
      BackendService d = [] \<or> BackendMethod d = []" by blast
    then have "isl (fst (RouteHandler_UpdateRoute w r s))"
      using 1 2 3 4 5 by (simp add: defs)
    with no_inl show False by simp
  qed
  have 7: "BackendName d = BackendName old \<or> verify_backend w (BackendName d) s = None"
  proof (rule ccontr)
    assume "\<not> ?thesis"
    then obtain e where "BackendName d \<noteq> BackendName old"
      "verify_backend w (BackendName d) s = Some e" by auto
    then have "isl (fst (RouteHandler_UpdateRoute w r s))"
      using 1 2 3 4 5 6 by (simp add: defs)
    with no_inl show False by simp
  qed
  have 8: "\<not> exec_err w UpdateRoute"
  proof
    assume "exec_err w UpdateRoute"
    then have "isl (fst (RouteHandler_UpdateRoute w r s))"
      using 1 2 3 4 5 6 7 by (auto simp: defs MySQLStore_UpdateRoute_def)
    with no_inl show False by simp
  qed
  have 9: "\<not> result_err w"
  proof
    assume "result_err w"
    then have "isl (fst (RouteHandler_UpdateRoute w r s))"
      using 1 2 3 4 5 6 7 8 by (auto simp: defs MySQLStore_UpdateRoute_def)
    with no_inl show False by simp
  qed
  have 10: "RowsAffected w (\<lambda>x. RID x = i)
       (\<lambda>x. x\<lparr>HTTPMethod := HTTPMethod d, HTTPPattern := HTTPPattern d,
              BackendName := BackendName d, BackendService := BackendService d,
              BackendMethod := BackendMethod d, TimeoutMS := TimeoutMS d,
              RDescription := RDescription d,
              REnabled := merged_enabled ms (REnabled old),
              RUpdatedAt := CURRENT_TIMESTAMP w UpdateRoute\<rparr>) (routes s) \<noteq> 0"
  proof
    assume "RowsAffected w (\<lambda>x. RID x = i)
       (\<lambda>x. x\<lparr>HTTPMethod := HTTPMethod d, HTTPPattern := HTTPPattern d,
              BackendName := BackendName d, BackendService := BackendService d,
              BackendMethod := BackendMethod d, TimeoutMS := TimeoutMS d,
              RDescription := RDescription d,
              REnabled := merged_enabled ms (REnabled old),
              RUpdatedAt := CURRENT_TIMESTAMP w UpdateRoute\<rparr>) (routes s) = 0"
    then have "isl (fst (RouteHandler_UpdateRoute w r s))"
      using 1 2 3 4 5 6 7 8 9
      by (auto simp: defs MySQLStore_UpdateRoute_def enabledInt_def merged_enabled_def
          cong: if_cong)
    with no_inl show False by simp
  qed
  from that 1 2 3 4 5 6 7 8 9 10 show ?thesis by blast
qed

lemma DeleteRoute_eval:
  assumes "ParseUint (url_param r) 32 = Some i"
    and "\<not> exec_err w SelectRoute"
    and "find (\<lambda>x. RID x = i) (routes s) = Some old"
    and "\<not> exec_err w DeleteRoute" and "\<not> result_err w"
    and "RowsAffected w (\<lambda>x. RID x = i)
       (\<lambda>x. x\<lparr>REnabled := False, RUpdatedAt := CURRENT_TIMESTAMP w DeleteRoute\<rparr>)
       (routes s) \<noteq> 0"
  shows "RouteHandler_DeleteRoute w r s =
     (Inr (),
      recordHistory w ''route'' (Some (RID old)) ''DELETE''
        (Some (RouteJSON (old\<lparr>REnabled := False\<rparr>))) None r
        (s\<lparr>routes := map (\<lambda>x. if RID x = i
             then x\<lparr>REnabled := False, RUpdatedAt := CURRENT_TIMESTAMP w DeleteRoute\<rparr>
             else x) (routes s)\<rparr>))"
  using assms
  by (simp add: RouteHandler_DeleteRoute_def MySQLStore_GetRouteByID_def
      MySQLStore_DeleteRoute_def Let_def)

lemma DeleteRoute_Inr:
  assumes ok: "RouteHandler_DeleteRoute w r s = (Inr u, s')"
  obtains i old where
    "ParseUint (url_param r) 32 = Some i"
    "\<not> exec_err w SelectRoute" "\<not> exec_err w DeleteRoute" "\<not> result_err w"
    "find (\<lambda>x. RID x = i) (routes s) = Some old"
    "RowsAffected w (\<lambda>x. RID x = i)
       (\<lambda>x. x\<lparr>REnabled := False, RUpdatedAt := CURRENT_TIMESTAMP w DeleteRoute\<rparr>)
       (routes s) \<noteq> 0"
proof -
  note defs = RouteHandler_DeleteRoute_def MySQLStore_GetRouteByID_def Let_def
  have no_inl: "\<not> isl (fst (RouteHandler_DeleteRoute w r s))"
    using ok by simp
  obtain i where 1: "ParseUint (url_param r) 32 = Some i"
    using no_inl by (cases "ParseUint (url_param r) 32") (auto simp: defs)
  have 2: "\<not> exec_err w SelectRoute"
    using no_inl 1 by (auto simp: defs)
  obtain old where 3: "find (\<lambda>x. RID x = i) (routes s) = Some old"
    using no_inl 1 2 by (cases "find (\<lambda>x. RID x = i) (routes s)") (auto simp: defs)
  have 4: "\<not> exec_err w DeleteRoute"
    using no_inl 1 2 3 by (auto simp: defs MySQLStore_DeleteRoute_def)
  have 5: "\<not> result_err w"
    using no_inl 1 2 3 4 by (auto simp: defs MySQLStore_DeleteRoute_def)
  have 6: "RowsAffected w (\<lambda>x. RID x = i)
       (\<lambda>x. x\<lparr>REnabled := False, RUpdatedAt := CURRENT_TIMESTAMP w DeleteRoute\<rparr>)
       (routes s) \<noteq> 0"
  proof
    assume "RowsAffected w (\<lambda>x. RID x = i)
       (\<lambda>x. x\<lparr>REnabled := False, RUpdatedAt := CURRENT_TIMESTAMP w DeleteRoute\<rparr>)
       (routes s) = 0"
    then have "isl (fst (RouteHandler_DeleteRoute w r s))"
      using 1 2 3 4 5 by (simp add: defs MySQLStore_DeleteRoute_def)
    with no_inl show False by simp
  qed
  from that 1 2 3 4 5 6 show ?thesis by blast
qed

subsection \<open>Payloads\<close>

lemma Decode_map_lookup:
  assumes "Decode_map b = Some ms"
  shows "map_of ms k = member b k"
proof (cases b)
  case None
  with assms show ?thesis by (simp add: Decode_map_def)
next
  case (Some j)
  show ?thesis
  proof (cases j)
    case (JObj m)
    have "map_of (rev m) k = None" if "k \<notin> fst ` set m"
      using that by (simp add: map_of_eq_None_iff)
    moreover have "\<exists>v. map_of (rev m) k = Some v" if "k \<in> fst ` set m"
      using that by (cases "map_of (rev m) k") (simp_all add: map_of_eq_None_iff)
    ultimately show ?thesis
      using assms Some JObj
      by (auto simp: Decode_map_def member_def map_of_map_restrict restrict_map_def)
  qed (use assms Some in \<open>auto simp: Decode_map_def member_def\<close>)
qed

lemma Decode_map_keys:
  assumes "Decode_map b = Some ms"
  shows "fst ` set ms = keys b"
  using assms
  by (force simp: Decode_map_def keys_def split: option.splits json.splits)

lemma Decode_map_distinct:
  assumes "Decode_map b = Some ms"
  shows "distinct (map fst ms)"
  using assms
  by (auto simp: Decode_map_def comp_def split: option.splits json.splits)

lemma Decode_map_member:
  assumes "Decode_map b = Some ms" and "(k, v) \<in> set ms"
  shows "member b k = Some v"
  using Decode_map_lookup [OF assms(1), of k] Decode_map_distinct [OF assms(1)] assms(2)
  by simp

lemma foldName_literals:
  "foldName ''id'' = ''ID''" "foldName ''name'' = ''NAME''" "foldName ''addr'' = ''ADDR''"
  "foldName ''description'' = ''DESCRIPTION''" "foldName ''enabled'' = ''ENABLED''"
  "foldName ''created_at'' = ''CREATED_AT''" "foldName ''updated_at'' = ''UPDATED_AT''"
  "foldName ''http_method'' = ''HTTP_METHOD''" "foldName ''http_pattern'' = ''HTTP_PATTERN''"
  "foldName ''backend_name'' = ''BACKEND_NAME''"
  "foldName ''backend_service'' = ''BACKEND_SERVICE''"
  "foldName ''backend_method'' = ''BACKEND_METHOD''" "foldName ''timeout_ms'' = ''TIMEOUT_MS''"
  by code_simp+

lemma names_refl [simp]: "names f f"
  by (simp add: names_def)

lemma Backend_field_Description_keep:
  assumes "Backend_field p k v x = Some y" and "\<not> names ''description'' k"
  shows "Description y = Description x"
  using assms by (auto simp: Backend_field_def split: if_splits)

lemma Backend_field_Addr_keep:
  assumes "Backend_field p k v x = Some y" and "\<not> names ''addr'' k"
  shows "Addr y = Addr x"
  using assms by (auto simp: Backend_field_def split: if_splits)

lemma names_addr:
  assumes "names ''addr'' k"
  shows "\<not> names ''id'' k" and "\<not> names ''name'' k"
  using assms unfolding names_def foldName_literals by simp_all

lemma names_description:
  assumes "names ''description'' k"
  shows "\<not> names ''id'' k" and "\<not> names ''name'' k" and "\<not> names ''addr'' k"
  using assms unfolding names_def foldName_literals by simp_all

lemma Backend_field_Description_set:
  assumes "Backend_field p k (JStr v) x = Some y" and "names ''description'' k"
  shows "Description y = v"
  using assms names_description [OF assms(2)]
  by (auto simp: Backend_field_def string_field_def)

lemma Backend_field_Addr_set:
  assumes "Backend_field p k (JStr v) x = Some y" and "names ''addr'' k"
  shows "Addr y = v"
  using assms names_addr [OF assms(2)]
  by (auto simp: Backend_field_def string_field_def)

lemma decode_members_Description_keep:
  assumes "decode_members (Backend_field p) ms x = Some y"
    and "\<forall>k\<in>fst ` set ms. \<not> names ''description'' k"
  shows "Description y = Description x"
  using assms
proof (induction ms arbitrary: x)
  case Nil
  then show ?case by simp
next
  case (Cons m ms)
  obtain k v where m: "m = (k, v)" by (cases m)
  from Cons.prems(1) m obtain x' where
    x': "Backend_field p k v x = Some x'" "decode_members (Backend_field p) ms x' = Some y"
    by (auto split: option.splits)
  from Cons.prems(2) m have "\<not> names ''description'' k" by simp
  with x'(1) have "Description x' = Description x" by (rule Backend_field_Description_keep)
  moreover from Cons.IH [OF x'(2)] Cons.prems(2) have "Description y = Description x'" by simp
  ultimately show ?case by simp
qed

lemma decode_members_Addr_keep:
  assumes "decode_members (Backend_field p) ms x = Some y"
    and "\<forall>k\<in>fst ` set ms. \<not> names ''addr'' k"
  shows "Addr y = Addr x"
  using assms
proof (induction ms arbitrary: x)
  case Nil
  then show ?case by simp
next
  case (Cons m ms)
  obtain k v where m: "m = (k, v)" by (cases m)
  from Cons.prems(1) m obtain x' where
    x': "Backend_field p k v x = Some x'" "decode_members (Backend_field p) ms x' = Some y"
    by (auto split: option.splits)
  from Cons.prems(2) m have "\<not> names ''addr'' k" by simp
  with x'(1) have "Addr x' = Addr x" by (rule Backend_field_Addr_keep)
  moreover from Cons.IH [OF x'(2)] Cons.prems(2) have "Addr y = Addr x'" by simp
  ultimately show ?case by simp
qed

lemma decode_members_Description_set:
  assumes "decode_members (Backend_field p) ms x = Some y"
    and "\<forall>(k, u)\<in>set ms. names ''description'' k \<longrightarrow> u = JStr v"
    and "\<exists>k\<in>fst ` set ms. names ''description'' k"
  shows "Description y = v"
  using assms
proof (induction ms arbitrary: x)
  case Nil
  then show ?case by simp
next
  case (Cons m ms)
  obtain k u where m: "m = (k, u)" by (cases m)
  from Cons.prems(1) m obtain x' where
    x': "Backend_field p k u x = Some x'" "decode_members (Backend_field p) ms x' = Some y"
    by (auto split: option.splits)
  from Cons.prems(2) have rest: "\<forall>(k, u)\<in>set ms. names ''description'' k \<longrightarrow> u = JStr v"
    by simp
  show ?case
  proof (cases "\<exists>k\<in>fst ` set ms. names ''description'' k")
    case True
    with Cons.IH [OF x'(2) rest] show ?thesis by simp
  next
    case False
    with Cons.prems(3) m have k: "names ''description'' k" by auto
    with Cons.prems(2) m have "u = JStr v" by simp
    with x'(1) k have "Description x' = v" by (simp add: Backend_field_Description_set)
    moreover from False have "Description y = Description x'"
      using decode_members_Description_keep [OF x'(2)] by blast
    ultimately show ?thesis by simp
  qed
qed

lemma decode_members_Addr_set:
  assumes "decode_members (Backend_field p) ms x = Some y"
    and "\<forall>(k, u)\<in>set ms. names ''addr'' k \<longrightarrow> u = JStr v"
    and "\<exists>k\<in>fst ` set ms. names ''addr'' k"
  shows "Addr y = v"
  using assms
proof (induction ms arbitrary: x)
  case Nil
  then show ?case by simp
next
  case (Cons m ms)
  obtain k u where m: "m = (k, u)" by (cases m)
  from Cons.prems(1) m obtain x' where
    x': "Backend_field p k u x = Some x'" "decode_members (Backend_field p) ms x' = Some y"
    by (auto split: option.splits)
  from Cons.prems(2) have rest: "\<forall>(k, u)\<in>set ms. names ''addr'' k \<longrightarrow> u = JStr v"
    by simp
  show ?case
  proof (cases "\<exists>k\<in>fst ` set ms. names ''addr'' k")
    case True
    with Cons.IH [OF x'(2) rest] show ?thesis by simp
  next
    case False
    with Cons.prems(3) m have k: "names ''addr'' k" by auto
    with Cons.prems(2) m have "u = JStr v" by simp
    with x'(1) k have "Addr x' = v" by (simp add: Backend_field_Addr_set)
    moreover from False have "Addr y = Addr x'"
      using decode_members_Addr_keep [OF x'(2)] by blast
    ultimately show ?thesis by simp
  qed
qed

lemma member_None_iff: "member b k = None \<longleftrightarrow> k \<notin> keys b"
  by (auto simp: member_def keys_def map_of_eq_None_iff split: option.splits json.splits)

lemma merged_enabled_absent:
  assumes "Decode_map b = Some ms" and "''enabled'' \<notin> keys b"
  shows "merged_enabled ms old = old"
  using assms Decode_map_lookup [OF assms(1), of "''enabled''"]
  by (simp add: merged_enabled_def member_None_iff)

lemma merged_enabled_present:
  assumes "Decode_map b = Some ms" and "member b ''enabled'' = Some (JBool v)"
  shows "merged_enabled ms old = v"
  using assms Decode_map_lookup [OF assms(1), of "''enabled''"]
  by (simp add: merged_enabled_def)

lemma merged_enabled_null:
  assumes "Decode_map b = Some ms" and "member b ''enabled'' = Some JNull"
  shows "merged_enabled ms old = False"
  using assms Decode_map_lookup [OF assms(1), of "''enabled''"]
  by (simp add: merged_enabled_def)

section \<open>Partial updates and the enabled flag\<close>

text \<open>
  C1. An update of a backend or of a route that succeeds answers with the merged entity
  and stores it. If the payload has no key \<^verbatim>\<open>enabled\<close>, the merged entity has the
  enabled value of the existing record; if the payload has the key with a boolean, also
  \<^verbatim>\<open>false\<close>, the merged entity has that boolean. The stored row carries the same
  value as the answer. (A key \<^verbatim>\<open>enabled\<close> that holds \<^verbatim>\<open>null\<close> gives false; with
  any other value that is not a boolean the payload does not decode and the update is
  refused.)
\<close>

theorem update_enabled_omitted_or_present:
  "(BackendHandler_UpdateBackend w r s = (Inr b, s') \<longrightarrow>
      (\<exists>old row.
         MySQLStore_GetBackendByName w (url_param r) s = Inr (Some old) \<and>
         MySQLStore_GetBackendByName w (url_param r) s' = Inr (Some row) \<and>
         Enabled row = Enabled b \<and>
         (''enabled'' \<notin> keys (body r) \<longrightarrow> Enabled b = Enabled old) \<and>
         (\<forall>v. member (body r) ''enabled'' = Some (JBool v) \<longrightarrow> Enabled b = v) \<and>
         (member (body r) ''enabled'' = Some JNull \<longrightarrow> \<not> Enabled b))) \<and>
   (RouteHandler_UpdateRoute w r2 s2 = (Inr rt, s2') \<longrightarrow>
      (\<exists>i old row.
         ParseUint (url_param r2) 32 = Some i \<and>
         MySQLStore_GetRouteByID w i s2 = Inr (Some old) \<and>
         MySQLStore_GetRouteByID w i s2' = Inr (Some row) \<and>
         REnabled row = REnabled rt \<and>
         (''enabled'' \<notin> keys (body r2) \<longrightarrow> REnabled rt = REnabled old) \<and>
         (\<forall>v. member (body r2) ''enabled'' = Some (JBool v) \<longrightarrow> REnabled rt = v) \<and>
         (member (body r2) ''enabled'' = Some JNull \<longrightarrow> \<not> REnabled rt)))"
proof (intro conjI impI)
  assume ok: "BackendHandler_UpdateBackend w r s = (Inr b, s')"
  then obtain old ms d where f:
    "\<not> exec_err w SelectBackend" "\<not> exec_err w UpdateBackend" "\<not> result_err w"
    "find (\<lambda>x. Name x = url_param r) (backends s) = Some old"
    "Decode_map (body r) = Some ms"
    "Unmarshal (Backend_field (time_Parse w)) (JObj ms) zero_Backend = Some d"
    "Addr d \<noteq> []"
    "RowsAffected w (\<lambda>x. Name x = url_param r)
       (\<lambda>x. x\<lparr>Addr := Addr d, Description := Description d,
              Enabled := merged_enabled ms (Enabled old),
              UpdatedAt := CURRENT_TIMESTAMP w UpdateBackend\<rparr>) (backends s) \<noteq> 0"
    by (rule UpdateBackend_Inr)
  from ok UpdateBackend_eval [OF f(1) f(4) f(5) f(6) f(7) f(2) f(3) f(8)]
  have b: "Enabled b = merged_enabled ms (Enabled old)"
    and s': "backends s' = map (\<lambda>x. if Name x = url_param r
             then x\<lparr>Addr := Addr d, Description := Description d,
                    Enabled := merged_enabled ms (Enabled old),
                    UpdatedAt := CURRENT_TIMESTAMP w UpdateBackend\<rparr> else x) (backends s)"
    by auto
  let ?row = "old\<lparr>Addr := Addr d, Description := Description d,
                    Enabled := merged_enabled ms (Enabled old),
                    UpdatedAt := CURRENT_TIMESTAMP w UpdateBackend\<rparr>"
  from find_Some_D [OF f(4)] have "Name old = url_param r" by simp
  then have "find (\<lambda>x. Name x = url_param r) (backends s') = Some ?row"
    unfolding s' by (subst find_map_same_key) (simp_all add: f(4))
  with f(1) have "MySQLStore_GetBackendByName w (url_param r) s' = Inr (Some ?row)"
    by (simp add: MySQLStore_GetBackendByName_def)
  moreover from f(1) f(4) have "MySQLStore_GetBackendByName w (url_param r) s = Inr (Some old)"
    by (simp add: MySQLStore_GetBackendByName_def)
  moreover have "Enabled ?row = Enabled b" by (simp add: b)
  moreover have "''enabled'' \<notin> keys (body r) \<longrightarrow> Enabled b = Enabled old"
    by (simp add: b merged_enabled_absent [OF f(5)])
  moreover have "\<forall>v. member (body r) ''enabled'' = Some (JBool v) \<longrightarrow> Enabled b = v"
    by (simp add: b merged_enabled_present [OF f(5)])
  moreover have "member (body r) ''enabled'' = Some JNull \<longrightarrow> \<not> Enabled b"
    by (simp add: b merged_enabled_null [OF f(5)])
  ultimately show "\<exists>old row.
         MySQLStore_GetBackendByName w (url_param r) s = Inr (Some old) \<and>
         MySQLStore_GetBackendByName w (url_param r) s' = Inr (Some row) \<and>
         Enabled row = Enabled b \<and>
         (''enabled'' \<notin> keys (body r) \<longrightarrow> Enabled b = Enabled old) \<and>
         (\<forall>v. member (body r) ''enabled'' = Some (JBool v) \<longrightarrow> Enabled b = v) \<and>
         (member (body r) ''enabled'' = Some JNull \<longrightarrow> \<not> Enabled b)"
    by blast
next
  assume ok: "RouteHandler_UpdateRoute w r2 s2 = (Inr rt, s2')"
  then obtain i old ms d where f:
    "ParseUint (url_param r2) 32 = Some i"
    "\<not> exec_err w SelectRoute"
    "find (\<lambda>x. RID x = i) (routes s2) = Some old"
    "Decode_map (body r2) = Some ms"
    "Unmarshal (Route_field (time_Parse w)) (JObj ms) zero_Route = Some d"
    "HTTPMethod d \<noteq> []" "HTTPPattern d \<noteq> []" "BackendName d \<noteq> []"
    "BackendService d \<noteq> []" "BackendMethod d \<noteq> []"
    "BackendName d = BackendName old \<or> verify_backend w (BackendName d) s2 = None"
    "\<not> exec_err w UpdateRoute" "\<not> result_err w"
    "RowsAffected w (\<lambda>x. RID x = i)
       (\<lambda>x. x\<lparr>HTTPMethod := HTTPMethod d, HTTPPattern := HTTPPattern d,
              BackendName := BackendName d, BackendService := BackendService d,
              BackendMethod := BackendMethod d, TimeoutMS := TimeoutMS d,
              RDescription := RDescription d,
              REnabled := merged_enabled ms (REnabled old),
              RUpdatedAt := CURRENT_TIMESTAMP w UpdateRoute\<rparr>) (routes s2) \<noteq> 0"
    by (rule UpdateRoute_Inr)
  from ok UpdateRoute_eval [OF f]
  have b: "REnabled rt = merged_enabled ms (REnabled old)"
    and s': "routes s2' = map (\<lambda>x. if RID x = i
             then x\<lparr>HTTPMethod := HTTPMethod d, HTTPPattern := HTTPPattern d,
                    BackendName := BackendName d, BackendService := BackendService d,
                    BackendMethod := BackendMethod d, TimeoutMS := TimeoutMS d,
                    RDescription := RDescription d,
                    REnabled := merged_enabled ms (REnabled old),
                    RUpdatedAt := CURRENT_TIMESTAMP w UpdateRoute\<rparr> else x) (routes s2)"
    by auto
  let ?row = "old\<lparr>HTTPMethod := HTTPMethod d, HTTPPattern := HTTPPattern d,
                    BackendName := BackendName d, BackendService := BackendService d,
                    BackendMethod := BackendMethod d, TimeoutMS := TimeoutMS d,
                    RDescription := RDescription d,
                    REnabled := merged_enabled ms (REnabled old),
                    RUpdatedAt := CURRENT_TIMESTAMP w UpdateRoute\<rparr>"
  from find_Some_D [OF f(3)] have "RID old = i" by simp
  then have "find (\<lambda>x. RID x = i) (routes s2') = Some ?row"
    unfolding s' by (subst find_map_same_key) (simp_all add: f(3))
  with f(2) have "MySQLStore_GetRouteByID w i s2' = Inr (Some ?row)"
    by (simp add: MySQLStore_GetRouteByID_def)
  moreover from f(2) f(3) have "MySQLStore_GetRouteByID w i s2 = Inr (Some old)"
    by (simp add: MySQLStore_GetRouteByID_def)
  moreover have "REnabled ?row = REnabled rt" by (simp add: b)
  moreover have "''enabled'' \<notin> keys (body r2) \<longrightarrow> REnabled rt = REnabled old"
    by (simp add: b merged_enabled_absent [OF f(4)])
  moreover have "\<forall>v. member (body r2) ''enabled'' = Some (JBool v) \<longrightarrow> REnabled rt = v"
    by (simp add: b merged_enabled_present [OF f(4)])
  moreover have "member (body r2) ''enabled'' = Some JNull \<longrightarrow> \<not> REnabled rt"
    by (simp add: b merged_enabled_null [OF f(4)])
  ultimately show "\<exists>i old row.
         ParseUint (url_param r2) 32 = Some i \<and>
         MySQLStore_GetRouteByID w i s2 = Inr (Some old) \<and>
         MySQLStore_GetRouteByID w i s2' = Inr (Some row) \<and>
         REnabled row = REnabled rt \<and>
         (''enabled'' \<notin> keys (body r2) \<longrightarrow> REnabled rt = REnabled old) \<and>
         (\<forall>v. member (body r2) ''enabled'' = Some (JBool v) \<longrightarrow> REnabled rt = v) \<and>
         (member (body r2) ''enabled'' = Some JNull \<longrightarrow> \<not> REnabled rt)"
    using f(1) by blast
qed

theorem update_enabled_omitted_or_present_witness:
  "BackendHandler_UpdateBackend quiet (req ''account'' [(''addr'', JStr ''127.0.0.1:9999'')]) db1 =
     (Inr (account\<lparr>Addr := ''127.0.0.1:9999'', Description := [], CreatedAt := 0,
                   UpdatedAt := 101\<rparr>),
      db1\<lparr>backends := [account\<lparr>Addr := ''127.0.0.1:9999'', Description := [],
                                 UpdatedAt := 100\<rparr>],
          config_history :=
            [\<lparr>HID = 1, ConfigType = ''backend'', ConfigID = Some 1, Operation = ''UPDATE'',
              OldValue = Some (BackendJSON account),
              NewValue = Some (BackendJSON (account\<lparr>Addr := ''127.0.0.1:9999'',
                Description := [], CreatedAt := 0, UpdatedAt := 101\<rparr>)),
              Operator = ''ops'', HCreatedAt = 100\<rparr>],
          config_history_seq := 2\<rparr>) \<and>
   ''enabled'' \<notin> keys (body (req ''account'' [(''addr'', JStr ''127.0.0.1:9999'')])) \<and>
   Enabled (account\<lparr>Addr := ''127.0.0.1:9999'', Description := [], CreatedAt := 0,
                   UpdatedAt := 101\<rparr>) = Enabled account \<and>
   RouteHandler_UpdateRoute quiet (req ''1'' (login_members @ [(''enabled'', JBool False)])) db1 =
     (Inr (login\<lparr>TimeoutMS := 0, RDescription := [], REnabled := False, RCreatedAt := 0,
                 RUpdatedAt := 101\<rparr>),
      db1\<lparr>routes := [login\<lparr>TimeoutMS := 0, RDescription := [], REnabled := False,
                             RUpdatedAt := 100\<rparr>],
          config_history :=
            [\<lparr>HID = 1, ConfigType = ''route'', ConfigID = Some 1, Operation = ''UPDATE'',
              OldValue = Some (RouteJSON login),
              NewValue = Some (RouteJSON (login\<lparr>TimeoutMS := 0, RDescription := [],
                REnabled := False, RCreatedAt := 0, RUpdatedAt := 101\<rparr>)),
              Operator = ''ops'', HCreatedAt = 100\<rparr>],
          config_history_seq := 2\<rparr>) \<and>
   member (body (req ''1'' (login_members @ [(''enabled'', JBool False)]))) ''enabled'' =
     Some (JBool False) \<and>
   REnabled (login\<lparr>TimeoutMS := 0, RDescription := [], REnabled := False, RCreatedAt := 0,
                 RUpdatedAt := 101\<rparr>) = False"
  (is "?h1 \<and> ?k1 \<and> ?c1 \<and> ?h2 \<and> ?k2 \<and> ?c2")
proof -
  have h1: ?h1 by code_simp
  have h2: ?h2 by code_simp
  have k1: ?k1 by (simp add: req_def keys_def)
  have k2: ?k2 by (simp add: req_def member_def login_members_def)
  have g: "MySQLStore_GetBackendByName quiet (url_param (req ''account'' [(''addr'', JStr ''127.0.0.1:9999'')])) db1 = Inr (Some account)"
    by (simp add: MySQLStore_GetBackendByName_def quiet_def req_def db1_def account_def)
  from update_enabled_omitted_or_present [THEN conjunct1, rule_format, OF h1] k1 g
  have c1: ?c1 by auto
  from update_enabled_omitted_or_present [THEN conjunct2, rule_format, OF h2] k2
  have c2: ?c2 by auto
  from h1 k1 c1 h2 k2 c2 show ?thesis by blast
qed

section \<open>Partial updates and the other fields of a backend\<close>

text \<open>
  C2, as the specification states it: a field other than \<^verbatim>\<open>enabled\<close> that the update
  payload omits, such as the description, keeps the value of the existing record. The
  code decodes the payload into a fresh struct and writes that: the backend
  \<open>account\<close> has a description, the payload below has only an address, and the
  answer and the stored row come out with an empty description.
\<close>

theorem update_backend_omitted_description_counterexample:
  "MySQLStore_GetBackendByName quiet ''account'' db1 = Inr (Some account) \<and>
   Description account = ''Account service'' \<and>
   ''description'' \<notin> keys (body (req ''account'' [(''addr'', JStr ''10.0.0.7:50051'')])) \<and>
   BackendHandler_UpdateBackend quiet (req ''account'' [(''addr'', JStr ''10.0.0.7:50051'')]) db1 =
     (Inr (account\<lparr>Addr := ''10.0.0.7:50051'', Description := [], CreatedAt := 0,
                   UpdatedAt := 101\<rparr>),
      db1\<lparr>backends := [account\<lparr>Addr := ''10.0.0.7:50051'', Description := [],
                                 UpdatedAt := 100\<rparr>],
          config_history :=
            [\<lparr>HID = 1, ConfigType = ''backend'', ConfigID = Some 1, Operation = ''UPDATE'',
              OldValue = Some (BackendJSON account),
              NewValue = Some (BackendJSON (account\<lparr>Addr := ''10.0.0.7:50051'',
                Description := [], CreatedAt := 0, UpdatedAt := 101\<rparr>)),
              Operator = ''ops'', HCreatedAt = 100\<rparr>],
          config_history_seq := 2\<rparr>)"
proof (intro conjI)
  show "MySQLStore_GetBackendByName quiet ''account'' db1 = Inr (Some account)"
    by code_simp
  show "Description account = ''Account service''"
    by (simp add: account_def)
  show "''description'' \<notin> keys (body (req ''account'' [(''addr'', JStr ''10.0.0.7:50051'')]))"
    by (simp add: req_def keys_def)
  show "BackendHandler_UpdateBackend quiet (req ''account'' [(''addr'', JStr ''10.0.0.7:50051'')]) db1 =
     (Inr (account\<lparr>Addr := ''10.0.0.7:50051'', Description := [], CreatedAt := 0,
                   UpdatedAt := 101\<rparr>),
      db1\<lparr>backends := [account\<lparr>Addr := ''10.0.0.7:50051'', Description := [],
                                 UpdatedAt := 100\<rparr>],
          config_history :=
            [\<lparr>HID = 1, ConfigType = ''backend'', ConfigID = Some 1, Operation = ''UPDATE'',
              OldValue = Some (BackendJSON account),
              NewValue = Some (BackendJSON (account\<lparr>Addr := ''10.0.0.7:50051'',
                Description := [], CreatedAt := 0, UpdatedAt := 101\<rparr>)),
              Operator = ''ops'', HCreatedAt = 100\<rparr>],
          config_history_seq := 2\<rparr>)"
    by code_simp
qed

text \<open>
  C2, amended. When an update of a backend succeeds, the id and the name of the merged
  entity, in the answer and in the stored row, are those of the existing record,
  whatever the payload holds. The address and the description are the ones the payload
  gives: some key of the payload names the address (an update without one is refused),
  a description that no key of the payload names is stored empty and not kept, and
  where some key of the payload names the description, or the address, and every key
  of the payload that names it holds the same string, the merged entity has that
  string. A key names a field when it is the field's JSON name in any spelling that
  the decoder folds to it (\<open>names\<close>): the name itself, \<^verbatim>\<open>Addr\<close>, \<^verbatim>\<open>DESCRIPTION\<close>.
  Where keys that name one field hold different values, the decoder assigns them in
  the order of the keys and the last one stays, so the value under the key
  \<^verbatim>\<open>description\<close> itself need not be the one stored.
\<close>

theorem update_backend_fields:
  assumes "BackendHandler_UpdateBackend w r s = (Inr b, s')"
  shows "\<exists>old row.
     MySQLStore_GetBackendByName w (url_param r) s = Inr (Some old) \<and>
     MySQLStore_GetBackendByName w (url_param r) s' = Inr (Some row) \<and>
     ID b = ID old \<and> Name b = Name old \<and> ID row = ID old \<and> Name row = Name old \<and>
     Addr row = Addr b \<and> Description row = Description b \<and>
     (\<exists>k\<in>keys (body r). names ''addr'' k) \<and>
     ((\<forall>k\<in>keys (body r). \<not> names ''description'' k) \<longrightarrow> Description b = []) \<and>
     (\<forall>v. (\<exists>k\<in>keys (body r). names ''description'' k) \<and>
          (\<forall>k\<in>keys (body r). names ''description'' k \<longrightarrow>
             member (body r) k = Some (JStr v)) \<longrightarrow>
          Description b = v) \<and>
     (\<forall>v. (\<exists>k\<in>keys (body r). names ''addr'' k) \<and>
          (\<forall>k\<in>keys (body r). names ''addr'' k \<longrightarrow> member (body r) k = Some (JStr v)) \<longrightarrow>
          Addr b = v)"
proof -
  from assms obtain old ms d where f:
    "\<not> exec_err w SelectBackend" "\<not> exec_err w UpdateBackend" "\<not> result_err w"
    "find (\<lambda>x. Name x = url_param r) (backends s) = Some old"
    "Decode_map (body r) = Some ms"
    "Unmarshal (Backend_field (time_Parse w)) (JObj ms) zero_Backend = Some d"
    "Addr d \<noteq> []"
    "RowsAffected w (\<lambda>x. Name x = url_param r)
       (\<lambda>x. x\<lparr>Addr := Addr d, Description := Description d,
              Enabled := merged_enabled ms (Enabled old),
              UpdatedAt := CURRENT_TIMESTAMP w UpdateBackend\<rparr>) (backends s) \<noteq> 0"
    by (rule UpdateBackend_Inr)
  from assms UpdateBackend_eval [OF f(1) f(4) f(5) f(6) f(7) f(2) f(3) f(8)]
  have b: "b = d\<lparr>Enabled := merged_enabled ms (Enabled old), ID := ID old, Name := url_param r,
             UpdatedAt := time_Now w 0\<rparr>"
    and s': "backends s' = map (\<lambda>x. if Name x = url_param r
             then x\<lparr>Addr := Addr d, Description := Description d,
                    Enabled := merged_enabled ms (Enabled old),
                    UpdatedAt := CURRENT_TIMESTAMP w UpdateBackend\<rparr> else x) (backends s)"
    by auto
  let ?row = "old\<lparr>Addr := Addr d, Description := Description d,
                    Enabled := merged_enabled ms (Enabled old),
                    UpdatedAt := CURRENT_TIMESTAMP w UpdateBackend\<rparr>"
  from find_Some_D [OF f(4)] have name: "Name old = url_param r" by simp
  then have "find (\<lambda>x. Name x = url_param r) (backends s') = Some ?row"
    unfolding s' by (subst find_map_same_key) (simp_all add: f(4))
  with f(1) have after: "MySQLStore_GetBackendByName w (url_param r) s' = Inr (Some ?row)"
    by (simp add: MySQLStore_GetBackendByName_def)
  from f(1) f(4) have before: "MySQLStore_GetBackendByName w (url_param r) s = Inr (Some old)"
    by (simp add: MySQLStore_GetBackendByName_def)
  from f(6) have dm: "decode_members (Backend_field (time_Parse w)) ms zero_Backend = Some d"
    by (simp add: Unmarshal_def)
  note ks = Decode_map_keys [OF f(5)]
  have addr_named: "\<exists>k\<in>keys (body r). names ''addr'' k"
  proof (rule ccontr)
    assume "\<not> ?thesis"
    with ks have "\<forall>k\<in>fst ` set ms. \<not> names ''addr'' k" by simp
    from decode_members_Addr_keep [OF dm this] f(7) show False
      by (simp add: zero_Backend_def)
  qed
  have descr_absent: "Description b = []" if "\<forall>k\<in>keys (body r). \<not> names ''description'' k"
  proof -
    from that ks have "\<forall>k\<in>fst ` set ms. \<not> names ''description'' k" by simp
    from decode_members_Description_keep [OF dm this] show ?thesis
      by (simp add: b zero_Backend_def)
  qed
  have only: "\<forall>(k, u)\<in>set ms. names fld k \<longrightarrow> u = JStr v"
    if "\<forall>k\<in>keys (body r). names fld k \<longrightarrow> member (body r) k = Some (JStr v)" for fld v
  proof (clarify)
    fix k u assume m: "(k, u) \<in> set ms" and n: "names fld k"
    from m ks have "k \<in> keys (body r)" by force
    with that n have "member (body r) k = Some (JStr v)" by simp
    with Decode_map_member [OF f(5) m] show "u = JStr v" by simp
  qed
  have named: "\<exists>k\<in>fst ` set ms. names fld k" if "\<exists>k\<in>keys (body r). names fld k" for fld
    using that ks by simp
  have descr_present: "Description b = v"
    if "\<exists>k\<in>keys (body r). names ''description'' k"
      "\<forall>k\<in>keys (body r). names ''description'' k \<longrightarrow> member (body r) k = Some (JStr v)"
    for v
    using decode_members_Description_set [OF dm only [OF that(2)] named [OF that(1)]]
    by (simp add: b)
  have addr_present: "Addr b = v"
    if "\<exists>k\<in>keys (body r). names ''addr'' k"
      "\<forall>k\<in>keys (body r). names ''addr'' k \<longrightarrow> member (body r) k = Some (JStr v)"
    for v
    using decode_members_Addr_set [OF dm only [OF that(2)] named [OF that(1)]]
    by (simp add: b)
  have "ID b = ID old \<and> Name b = Name old \<and> ID ?row = ID old \<and> Name ?row = Name old \<and>
     Addr ?row = Addr b \<and> Description ?row = Description b"
    by (simp add: b name)
  with before after addr_named descr_absent descr_present addr_present
  show ?thesis by blast
qed

theorem update_backend_fields_witness:
  "BackendHandler_UpdateBackend quiet
     (req ''account'' [(''id'', JNum (IntLit 7)), (''name'', JStr ''billing''),
        (''Addr'', JStr ''10.0.0.8:50051''), (''description'', JStr ''moved'')]) db1 =
     (Inr (account\<lparr>Addr := ''10.0.0.8:50051'', Description := ''moved'', CreatedAt := 0,
                   UpdatedAt := 101\<rparr>),
      db1\<lparr>backends := [account\<lparr>Addr := ''10.0.0.8:50051'', Description := ''moved'',
                                 UpdatedAt := 100\<rparr>],
          config_history :=
            [\<lparr>HID = 1, ConfigType = ''backend'', ConfigID = Some 1, Operation = ''UPDATE'',
              OldValue = Some (BackendJSON account),
              NewValue = Some (BackendJSON (account\<lparr>Addr := ''10.0.0.8:50051'', Description := ''moved'', CreatedAt := 0,
                   UpdatedAt := 101\<rparr>)),
              Operator = ''ops'', HCreatedAt = 100\<rparr>],
          config_history_seq := 2\<rparr>) \<and>
   ((\<exists>old. MySQLStore_GetBackendByName quiet ''account'' db1 = Inr (Some old) \<and>
      ID (account\<lparr>Addr := ''10.0.0.8:50051'', Description := ''moved'', CreatedAt := 0,
                   UpdatedAt := 101\<rparr>) = ID old \<and>
      Name (account\<lparr>Addr := ''10.0.0.8:50051'', Description := ''moved'', CreatedAt := 0,
                   UpdatedAt := 101\<rparr>) = Name old) \<and>
    Addr (account\<lparr>Addr := ''10.0.0.8:50051'', Description := ''moved'', CreatedAt := 0,
                   UpdatedAt := 101\<rparr>) = ''10.0.0.8:50051'')"
  (is "?h \<and> ?c")
proof -
  have h: ?h by code_simp
  have a: "(\<exists>k\<in>keys (body (req ''account'' [(''id'', JNum (IntLit 7)), (''name'', JStr ''billing''),
        (''Addr'', JStr ''10.0.0.8:50051''), (''description'', JStr ''moved'')])). names ''addr'' k) \<and>
    (\<forall>k\<in>keys (body (req ''account'' [(''id'', JNum (IntLit 7)), (''name'', JStr ''billing''),
        (''Addr'', JStr ''10.0.0.8:50051''), (''description'', JStr ''moved'')])). names ''addr'' k \<longrightarrow>
       member (body (req ''account'' [(''id'', JNum (IntLit 7)), (''name'', JStr ''billing''),
        (''Addr'', JStr ''10.0.0.8:50051''), (''description'', JStr ''moved'')])) k = Some (JStr ''10.0.0.8:50051''))"
    by code_simp
  from update_backend_fields [OF h] a have ?c
    by (auto simp: req_def)
  with h show ?thesis by blast
qed

section \<open>The reference of a route to its backend\<close>

lemma GetBackendByName_Inr:
  assumes "MySQLStore_GetBackendByName w n s = Inr x"
  shows "\<not> exec_err w SelectBackend" and "find (\<lambda>b. Name b = n) (backends s) = x"
  using assms by (auto simp: MySQLStore_GetBackendByName_def split: if_splits)

lemma GetRouteByID_Inr:
  assumes "MySQLStore_GetRouteByID w i s = Inr x"
  shows "\<not> exec_err w SelectRoute" and "find (\<lambda>r. RID r = i) (routes s) = x"
  using assms by (auto simp: MySQLStore_GetRouteByID_def split: if_splits)

lemma verify_backend_refused:
  assumes "MySQLStore_GetBackendByName w n s = Inr None \<or>
     (\<exists>bk. MySQLStore_GetBackendByName w n s = Inr (Some bk) \<and> \<not> Enabled bk)"
  shows "verify_backend w n s = Some InvalidReference"
  using assms by (auto simp: verify_backend_def)

text \<open>
  C3. A payload is taken as the decoder reads it: \<open>d\<close> is the struct the body decodes
  to, with its required fields filled in.
  \<^item> Creating a route whose \<^verbatim>\<open>backend_name\<close> the store does not know, or knows as
    disabled, is answered with \<open>InvalidReference\<close> and returns the database as it was:
    no row in \<^verbatim>\<open>routes\<close>, no row in \<^verbatim>\<open>config_history\<close>.
  \<^item> Updating a route with a payload that names the backend the route already has
    succeeds, if the UPDATE statement does and changes the row, whatever the table of
    backends holds: the backend is not looked up, so it may be disabled or gone. The
    statement changes the row when a column, or the time of the update, gets another
    value than the row has; where it changes nothing the driver reports no affected
    row, unless the connection counts the rows found, and the store takes the route as
    missing.
  \<^item> Updating a route with a payload that names another backend, unknown or
    disabled, is answered with \<open>InvalidReference\<close> and changes nothing.
\<close>

theorem route_backend_reference:
  "(Decode (body r) (Route_field (time_Parse w)) zero_Route = Some d \<and>
    HTTPMethod d \<noteq> [] \<and> HTTPPattern d \<noteq> [] \<and> BackendName d \<noteq> [] \<and>
    BackendService d \<noteq> [] \<and> BackendMethod d \<noteq> [] \<and>
    (MySQLStore_GetBackendByName w (BackendName d) s = Inr None \<or>
     (\<exists>bk. MySQLStore_GetBackendByName w (BackendName d) s = Inr (Some bk) \<and> \<not> Enabled bk))
    \<longrightarrow> RouteHandler_CreateRoute w r s = (Inl InvalidReference, s)) \<and>
   (ParseUint (url_param r2) 32 = Some i2 \<and>
    MySQLStore_GetRouteByID w i2 s2 = Inr (Some old2) \<and>
    Decode_map (body r2) = Some ms2 \<and>
    Unmarshal (Route_field (time_Parse w)) (JObj ms2) zero_Route = Some d2 \<and>
    HTTPMethod d2 \<noteq> [] \<and> HTTPPattern d2 \<noteq> [] \<and> BackendName d2 \<noteq> [] \<and>
    BackendService d2 \<noteq> [] \<and> BackendMethod d2 \<noteq> [] \<and>
    BackendName d2 = BackendName old2 \<and> \<not> exec_err w UpdateRoute \<and> \<not> result_err w \<and>
    (clientFoundRows w \<or>
     old2\<lparr>HTTPMethod := HTTPMethod d2, HTTPPattern := HTTPPattern d2,
          BackendName := BackendName d2, BackendService := BackendService d2,
          BackendMethod := BackendMethod d2, TimeoutMS := TimeoutMS d2,
          RDescription := RDescription d2, REnabled := merged_enabled ms2 (REnabled old2),
          RUpdatedAt := CURRENT_TIMESTAMP w UpdateRoute\<rparr> \<noteq> old2)
    \<longrightarrow> (\<forall>bs. \<exists>rt s2'.
           RouteHandler_UpdateRoute w r2 (s2\<lparr>backends := bs\<rparr>) = (Inr rt, s2') \<and>
           rt = d2\<lparr>REnabled := REnabled rt, RID := i2, RUpdatedAt := time_Now w 0\<rparr> \<and>
           BackendName rt = BackendName old2 \<and>
           (\<exists>row. MySQLStore_GetRouteByID w i2 s2' = Inr (Some row) \<and>
              row = old2\<lparr>HTTPMethod := HTTPMethod rt, HTTPPattern := HTTPPattern rt,
                      BackendService := BackendService rt,
                      BackendMethod := BackendMethod rt, TimeoutMS := TimeoutMS rt,
                      RDescription := RDescription rt, REnabled := REnabled rt,
                      RUpdatedAt := CURRENT_TIMESTAMP w UpdateRoute\<rparr>))) \<and>
   (ParseUint (url_param r3) 32 = Some i3 \<and>
    MySQLStore_GetRouteByID w i3 s3 = Inr (Some old3) \<and>
    Decode_map (body r3) = Some ms3 \<and>
    Unmarshal (Route_field (time_Parse w)) (JObj ms3) zero_Route = Some d3 \<and>
    HTTPMethod d3 \<noteq> [] \<and> HTTPPattern d3 \<noteq> [] \<and> BackendName d3 \<noteq> [] \<and>
    BackendService d3 \<noteq> [] \<and> BackendMethod d3 \<noteq> [] \<and>
    BackendName d3 \<noteq> BackendName old3 \<and>
    (MySQLStore_GetBackendByName w (BackendName d3) s3 = Inr None \<or>
     (\<exists>bk. MySQLStore_GetBackendByName w (BackendName d3) s3 = Inr (Some bk) \<and> \<not> Enabled bk))
    \<longrightarrow> RouteHandler_UpdateRoute w r3 s3 = (Inl InvalidReference, s3))"
proof (intro conjI impI allI)
  assume a: "Decode (body r) (Route_field (time_Parse w)) zero_Route = Some d \<and>
    HTTPMethod d \<noteq> [] \<and> HTTPPattern d \<noteq> [] \<and> BackendName d \<noteq> [] \<and>
    BackendService d \<noteq> [] \<and> BackendMethod d \<noteq> [] \<and>
    (MySQLStore_GetBackendByName w (BackendName d) s = Inr None \<or>
     (\<exists>bk. MySQLStore_GetBackendByName w (BackendName d) s = Inr (Some bk) \<and> \<not> Enabled bk))"
  then have "verify_backend w (BackendName d) s = Some InvalidReference"
    by (intro verify_backend_refused) blast
  with a show "RouteHandler_CreateRoute w r s = (Inl InvalidReference, s)"
    by (simp add: RouteHandler_CreateRoute_def)
next
  fix bs
  assume a: "ParseUint (url_param r2) 32 = Some i2 \<and>
    MySQLStore_GetRouteByID w i2 s2 = Inr (Some old2) \<and>
    Decode_map (body r2) = Some ms2 \<and>
    Unmarshal (Route_field (time_Parse w)) (JObj ms2) zero_Route = Some d2 \<and>
    HTTPMethod d2 \<noteq> [] \<and> HTTPPattern d2 \<noteq> [] \<and> BackendName d2 \<noteq> [] \<and>
    BackendService d2 \<noteq> [] \<and> BackendMethod d2 \<noteq> [] \<and>
    BackendName d2 = BackendName old2 \<and> \<not> exec_err w UpdateRoute \<and> \<not> result_err w \<and>
    (clientFoundRows w \<or>
     old2\<lparr>HTTPMethod := HTTPMethod d2, HTTPPattern := HTTPPattern d2,
          BackendName := BackendName d2, BackendService := BackendService d2,
          BackendMethod := BackendMethod d2, TimeoutMS := TimeoutMS d2,
          RDescription := RDescription d2, REnabled := merged_enabled ms2 (REnabled old2),
          RUpdatedAt := CURRENT_TIMESTAMP w UpdateRoute\<rparr> \<noteq> old2)"
  let ?s = "s2\<lparr>backends := bs\<rparr>"
  from a have sel: "\<not> exec_err w SelectRoute"
    and old: "find (\<lambda>x. RID x = i2) (routes ?s) = Some old2"
    using GetRouteByID_Inr [of w i2 s2 "Some old2"] by simp_all
  from a have same: "BackendName d2 = BackendName old2 \<or>
      verify_backend w (BackendName d2) ?s = None" by simp
  let ?rt = "d2\<lparr>REnabled := merged_enabled ms2 (REnabled old2), RID := i2,
               RUpdatedAt := time_Now w 0\<rparr>"
  let ?row = "old2\<lparr>HTTPMethod := HTTPMethod d2, HTTPPattern := HTTPPattern d2,
                    BackendName := BackendName d2, BackendService := BackendService d2,
                    BackendMethod := BackendMethod d2, TimeoutMS := TimeoutMS d2,
                    RDescription := RDescription d2,
                    REnabled := merged_enabled ms2 (REnabled old2),
                    RUpdatedAt := CURRENT_TIMESTAMP w UpdateRoute\<rparr>"
  from a have p: "ParseUint (url_param r2) 32 = Some i2" "Decode_map (body r2) = Some ms2"
    "Unmarshal (Route_field (time_Parse w)) (JObj ms2) zero_Route = Some d2"
    "HTTPMethod d2 \<noteq> []" "HTTPPattern d2 \<noteq> []" "BackendName d2 \<noteq> []"
    "BackendService d2 \<noteq> []" "BackendMethod d2 \<noteq> []"
    "\<not> exec_err w UpdateRoute" "\<not> result_err w"
    by blast+
  from a have "clientFoundRows w \<or> ?row \<noteq> old2" by blast
  then have ra: "RowsAffected w (\<lambda>x. RID x = i2)
       (\<lambda>x. x\<lparr>HTTPMethod := HTTPMethod d2, HTTPPattern := HTTPPattern d2,
              BackendName := BackendName d2, BackendService := BackendService d2,
              BackendMethod := BackendMethod d2, TimeoutMS := TimeoutMS d2,
              RDescription := RDescription d2,
              REnabled := merged_enabled ms2 (REnabled old2),
              RUpdatedAt := CURRENT_TIMESTAMP w UpdateRoute\<rparr>) (routes ?s) \<noteq> 0"
    by (intro RowsAffected_found [OF old]) simp
  have ev: "RouteHandler_UpdateRoute w r2 ?s =
     (Inr ?rt,
      recordHistory w ''route'' (Some i2) ''UPDATE'' (Some (RouteJSON old2))
        (Some (RouteJSON ?rt)) r2
        (?s\<lparr>routes := map (\<lambda>x. if RID x = i2
             then x\<lparr>HTTPMethod := HTTPMethod d2, HTTPPattern := HTTPPattern d2,
                    BackendName := BackendName d2, BackendService := BackendService d2,
                    BackendMethod := BackendMethod d2, TimeoutMS := TimeoutMS d2,
                    RDescription := RDescription d2,
                    REnabled := merged_enabled ms2 (REnabled old2),
                    RUpdatedAt := CURRENT_TIMESTAMP w UpdateRoute\<rparr> else x) (routes ?s)\<rparr>))"
    (is "_ = (_, ?s')")
    by (simp add: UpdateRoute_eval [OF p(1) sel old _ p(3-8) same p(9,10) ra] p(2))
  from find_Some_D [OF old] have "RID old2 = i2" by simp
  then have "find (\<lambda>x. RID x = i2) (routes ?s') = Some ?row"
    using old by (simp add: find_map_same_key)
  with sel have "MySQLStore_GetRouteByID w i2 ?s' = Inr (Some ?row)"
    by (simp add: MySQLStore_GetRouteByID_def)
  moreover from a have "?row = old2\<lparr>HTTPMethod := HTTPMethod ?rt, HTTPPattern := HTTPPattern ?rt,
                      BackendService := BackendService ?rt,
                      BackendMethod := BackendMethod ?rt, TimeoutMS := TimeoutMS ?rt,
                      RDescription := RDescription ?rt, REnabled := REnabled ?rt,
                      RUpdatedAt := CURRENT_TIMESTAMP w UpdateRoute\<rparr>"
    by simp
  moreover from a have "BackendName ?rt = BackendName old2" by simp
  moreover have "?rt = d2\<lparr>REnabled := REnabled ?rt, RID := i2, RUpdatedAt := time_Now w 0\<rparr>"
    by simp
  ultimately show "\<exists>rt s2'.
           RouteHandler_UpdateRoute w r2 ?s = (Inr rt, s2') \<and>
           rt = d2\<lparr>REnabled := REnabled rt, RID := i2, RUpdatedAt := time_Now w 0\<rparr> \<and>
           BackendName rt = BackendName old2 \<and>
           (\<exists>row. MySQLStore_GetRouteByID w i2 s2' = Inr (Some row) \<and>
              row = old2\<lparr>HTTPMethod := HTTPMethod rt, HTTPPattern := HTTPPattern rt,
                      BackendService := BackendService rt,
                      BackendMethod := BackendMethod rt, TimeoutMS := TimeoutMS rt,
                      RDescription := RDescription rt, REnabled := REnabled rt,
                      RUpdatedAt := CURRENT_TIMESTAMP w UpdateRoute\<rparr>)"
    using ev by blast
next
  assume a: "ParseUint (url_param r3) 32 = Some i3 \<and>
    MySQLStore_GetRouteByID w i3 s3 = Inr (Some old3) \<and>
    Decode_map (body r3) = Some ms3 \<and>
    Unmarshal (Route_field (time_Parse w)) (JObj ms3) zero_Route = Some d3 \<and>
    HTTPMethod d3 \<noteq> [] \<and> HTTPPattern d3 \<noteq> [] \<and> BackendName d3 \<noteq> [] \<and>
    BackendService d3 \<noteq> [] \<and> BackendMethod d3 \<noteq> [] \<and>
    BackendName d3 \<noteq> BackendName old3 \<and>
    (MySQLStore_GetBackendByName w (BackendName d3) s3 = Inr None \<or>
     (\<exists>bk. MySQLStore_GetBackendByName w (BackendName d3) s3 = Inr (Some bk) \<and> \<not> Enabled bk))"
  then have "verify_backend w (BackendName d3) s3 = Some InvalidReference"
    by (intro verify_backend_refused) blast
  with a show "RouteHandler_UpdateRoute w r3 s3 = (Inl InvalidReference, s3)"
    by (simp add: RouteHandler_UpdateRoute_def Let_def)
qed

theorem route_backend_reference_witness:
  "RouteHandler_CreateRoute quiet (req [] login_members) db2 = (Inl InvalidReference, db2) \<and>
   (\<exists>rt s'. RouteHandler_UpdateRoute quiet
        (req ''1'' (login_members @ [(''timeout_ms'', JNum (IntLit 3000))]))
        (db2\<lparr>backends := []\<rparr>) = (Inr rt, s') \<and>
      rt = login_payload\<lparr>TimeoutMS := 3000, REnabled := REnabled rt, RID := 1,
             RUpdatedAt := time_Now quiet 0\<rparr> \<and>
      BackendName rt = BackendName login) \<and>
   RouteHandler_UpdateRoute quiet (req ''1'' ghost_members) db1 = (Inl InvalidReference, db1)"
proof -
  let ?r2 = "req ''1'' (login_members @ [(''timeout_ms'', JNum (IntLit 3000))])"
  let ?ms2 = "[(''backend_method'', JStr ''Login''), (''backend_name'', JStr ''account''),
     (''backend_service'', JStr ''user.v1.UserService''), (''http_method'', JStr ''POST''),
     (''http_pattern'', JStr ''/v1/user/login''), (''timeout_ms'', JNum (IntLit 3000))]"
  let ?ms3 = "[(''backend_method'', JStr ''Login''), (''backend_name'', JStr ''ghost''),
     (''backend_service'', JStr ''user.v1.UserService''), (''http_method'', JStr ''POST''),
     (''http_pattern'', JStr ''/v1/user/login'')]"
  have c1: "Decode (body (req [] login_members)) (Route_field (time_Parse quiet)) zero_Route =
      Some login_payload"
    by code_simp
  have c2: "HTTPMethod login_payload \<noteq> [] \<and> HTTPPattern login_payload \<noteq> [] \<and>
      BackendName login_payload \<noteq> [] \<and> BackendService login_payload \<noteq> [] \<and>
      BackendMethod login_payload \<noteq> []"
    by (simp add: login_payload_def)
  have "MySQLStore_GetBackendByName quiet (BackendName login_payload) db2 =
      Inr (Some (account\<lparr>Enabled := False\<rparr>))"
    by code_simp
  then have c3: "MySQLStore_GetBackendByName quiet (BackendName login_payload) db2 = Inr None \<or>
     (\<exists>bk. MySQLStore_GetBackendByName quiet (BackendName login_payload) db2 = Inr (Some bk) \<and>
        \<not> Enabled bk)"
    by simp
  have u1: "ParseUint (url_param ?r2) 32 = Some 1" by code_simp
  have u2: "MySQLStore_GetRouteByID quiet 1 db2 = Inr (Some login)" by code_simp
  have u3: "Decode_map (body ?r2) = Some ?ms2" by code_simp
  have u4: "Unmarshal (Route_field (time_Parse quiet)) (JObj ?ms2) zero_Route =
      Some (login_payload\<lparr>TimeoutMS := 3000\<rparr>)"
    by code_simp
  have u5: "HTTPMethod (login_payload\<lparr>TimeoutMS := 3000\<rparr>) \<noteq> [] \<and>
      HTTPPattern (login_payload\<lparr>TimeoutMS := 3000\<rparr>) \<noteq> [] \<and>
      BackendName (login_payload\<lparr>TimeoutMS := 3000\<rparr>) \<noteq> [] \<and>
      BackendService (login_payload\<lparr>TimeoutMS := 3000\<rparr>) \<noteq> [] \<and>
      BackendMethod (login_payload\<lparr>TimeoutMS := 3000\<rparr>) \<noteq> [] \<and>
      BackendName (login_payload\<lparr>TimeoutMS := 3000\<rparr>) = BackendName login \<and>
      \<not> exec_err quiet UpdateRoute \<and> \<not> result_err quiet"
    by (simp add: login_payload_def login_def quiet_def)
  have u6: "clientFoundRows quiet \<or>
     login\<lparr>HTTPMethod := HTTPMethod (login_payload\<lparr>TimeoutMS := 3000\<rparr>),
          HTTPPattern := HTTPPattern (login_payload\<lparr>TimeoutMS := 3000\<rparr>),
          BackendName := BackendName (login_payload\<lparr>TimeoutMS := 3000\<rparr>),
          BackendService := BackendService (login_payload\<lparr>TimeoutMS := 3000\<rparr>),
          BackendMethod := BackendMethod (login_payload\<lparr>TimeoutMS := 3000\<rparr>),
          TimeoutMS := TimeoutMS (login_payload\<lparr>TimeoutMS := 3000\<rparr>),
          RDescription := RDescription (login_payload\<lparr>TimeoutMS := 3000\<rparr>),
          REnabled := merged_enabled ?ms2 (REnabled login),
          RUpdatedAt := CURRENT_TIMESTAMP quiet UpdateRoute\<rparr> \<noteq> login"
    by code_simp
  have g1: "ParseUint (url_param (req ''1'' ghost_members)) 32 = Some 1" by code_simp
  have g2: "MySQLStore_GetRouteByID quiet 1 db1 = Inr (Some login)" by code_simp
  have g3: "Decode_map (body (req ''1'' ghost_members)) = Some ?ms3" by code_simp
  have g4: "Unmarshal (Route_field (time_Parse quiet)) (JObj ?ms3) zero_Route =
      Some (login_payload\<lparr>BackendName := ''ghost''\<rparr>)"
    by code_simp
  have g5: "HTTPMethod (login_payload\<lparr>BackendName := ''ghost''\<rparr>) \<noteq> [] \<and>
      HTTPPattern (login_payload\<lparr>BackendName := ''ghost''\<rparr>) \<noteq> [] \<and>
      BackendName (login_payload\<lparr>BackendName := ''ghost''\<rparr>) \<noteq> [] \<and>
      BackendService (login_payload\<lparr>BackendName := ''ghost''\<rparr>) \<noteq> [] \<and>
      BackendMethod (login_payload\<lparr>BackendName := ''ghost''\<rparr>) \<noteq> [] \<and>
      BackendName (login_payload\<lparr>BackendName := ''ghost''\<rparr>) \<noteq> BackendName login"
    by (simp add: login_payload_def login_def)
  have "MySQLStore_GetBackendByName quiet (BackendName (login_payload\<lparr>BackendName := ''ghost''\<rparr>)) db1 =
      Inr None"
    by code_simp
  then have g6: "MySQLStore_GetBackendByName quiet
        (BackendName (login_payload\<lparr>BackendName := ''ghost''\<rparr>)) db1 = Inr None \<or>
     (\<exists>bk. MySQLStore_GetBackendByName quiet
        (BackendName (login_payload\<lparr>BackendName := ''ghost''\<rparr>)) db1 = Inr (Some bk) \<and>
        \<not> Enabled bk)"
    by simp
  note t = route_backend_reference [where w = quiet]
  from t [THEN conjunct1, rule_format, OF conjI [OF c1 conjI [OF c2 [THEN conjunct1] _]]] c2 c3
  have r1: "RouteHandler_CreateRoute quiet (req [] login_members) db2 = (Inl InvalidReference, db2)"
    by blast
  from t [THEN conjunct2, THEN conjunct1, rule_format, of ?r2 1 db2 login ?ms2
      "login_payload\<lparr>TimeoutMS := 3000\<rparr>" "[]"] u1 u2 u3 u4 u5 u6
  have r2: "\<exists>rt s'. RouteHandler_UpdateRoute quiet ?r2 (db2\<lparr>backends := []\<rparr>) = (Inr rt, s') \<and>
      rt = login_payload\<lparr>TimeoutMS := 3000, REnabled := REnabled rt, RID := 1,
             RUpdatedAt := time_Now quiet 0\<rparr> \<and>
      BackendName rt = BackendName login"
    by blast
  from t [THEN conjunct2, THEN conjunct2, rule_format, of "req ''1'' ghost_members" 1 db1 login ?ms3
      "login_payload\<lparr>BackendName := ''ghost''\<rparr>"] g1 g2 g3 g4 g5 g6
  have r3: "RouteHandler_UpdateRoute quiet (req ''1'' ghost_members) db1 = (Inl InvalidReference, db1)"
    by blast
  from r1 r2 r3 show ?thesis by blast
qed

section \<open>Soft deletion\<close>

text \<open>
  C4. Deleting the enabled backend \<open>account\<close> succeeds, keeps the row and leaves it
  disabled: looking the name up afterwards gives the record with \<^verbatim>\<open>enabled\<close> false.
  The second delete of the now disabled backend is meant to succeed again. The store
  takes \<^verbatim>\<open>rowsAffected == 0\<close> as the sign that no row has the name, but the driver
  counts the rows that the statement has changed: a delete that reaches the disabled
  row while the database clock still shows the time of the first one changes no
  column, and is answered with not found, although the row exists. Once the clock has
  moved on, or on a connection that counts the rows found, the same request succeeds.
\<close>

theorem delete_backend_twice_not_found:
  "BackendHandler_DeleteBackend quiet (req ''account'' []) db1 = (Inr (), db3) \<and>
   MySQLStore_GetBackendByName quiet ''account'' db3 =
     Inr (Some (account\<lparr>Enabled := False, UpdatedAt := 100\<rparr>)) \<and>
   length (backends db3) = length (backends db1) \<and>
   BackendHandler_DeleteBackend quiet (req ''account'' []) db3 =
     (Inl (StatusNotFound ''backend not found''), db3) \<and>
   fst (BackendHandler_DeleteBackend later (req ''account'' []) db3) = Inr () \<and>
   MySQLStore_GetBackendByName later ''account''
       (snd (BackendHandler_DeleteBackend later (req ''account'' []) db3)) =
     Inr (Some (account\<lparr>Enabled := False, UpdatedAt := 160\<rparr>)) \<and>
   fst (BackendHandler_DeleteBackend (quiet\<lparr>clientFoundRows := True\<rparr>) (req ''account'' []) db3) =
     Inr ()"
  by (intro conjI; code_simp)

section \<open>The audit trail\<close>

lemma pair_InrD: "(Inr a, x) = (Inr b, y) \<Longrightarrow> a = b \<and> x = y"
  by simp

lemma CreateBackend_audit:
  assumes "BackendHandler_CreateBackend w r s = (Inr b, s')"
  shows "config_history s' =
      (if exec_err w InsertHistory then config_history s
       else config_history s @
         [audit_row w r s ''backend'' (ID b) ''CREATE'' None (Some (BackendJSON b))])"
    and "\<exists>row. backends s' = backends s @ [row] \<and>
      b = row\<lparr>CreatedAt := CreatedAt b, UpdatedAt := UpdatedAt b\<rparr>"
    and "routes s' = routes s"
proof -
  from assms obtain d where f:
    "Decode (body r) (Backend_field (time_Parse w)) zero_Backend = Some d"
    "Name d \<noteq> []" "Addr d \<noteq> []" "\<not> exec_err w SelectBackend"
    "find (\<lambda>x. Name x = Name d) (backends s) = None"
    "\<not> exec_err w InsertBackend" "\<not> result_err w"
    by (rule CreateBackend_Inr)
  let ?b = "d\<lparr>Enabled := (if Query_Has r ''enabled'' then Enabled d else True),
             ID := backends_seq s, CreatedAt := time_Now w 0, UpdatedAt := time_Now w 1\<rparr>"
  note e = pair_InrD [OF trans [OF assms [symmetric] CreateBackend_eval [OF f]]]
  have b: "b = ?b"
    by (rule e [THEN conjunct1])
  have s': "s' = recordHistory w ''backend'' (Some (backends_seq s)) ''CREATE'' None
        (Some (BackendJSON ?b)) r
        (s\<lparr>backends := backends s @
             [\<lparr>ID = backends_seq s, Name = Name d, Addr = Addr d, Description = Description d,
               Enabled = (if Query_Has r ''enabled'' then Enabled d else True),
               CreatedAt = CURRENT_TIMESTAMP w InsertBackend,
               UpdatedAt = CURRENT_TIMESTAMP w InsertBackend\<rparr>],
            backends_seq := backends_seq s + 1\<rparr>)"
    by (rule e [THEN conjunct2])
  show "config_history s' =
      (if exec_err w InsertHistory then config_history s
       else config_history s @
         [audit_row w r s ''backend'' (ID b) ''CREATE'' None (Some (BackendJSON b))])"
    by (subst s') (simp add: recordHistory_config_history audit_row_def b)
  show "\<exists>row. backends s' = backends s @ [row] \<and>
      b = row\<lparr>CreatedAt := CreatedAt b, UpdatedAt := UpdatedAt b\<rparr>"
    by (subst s') (simp add: b)
  show "routes s' = routes s"
    by (subst s') simp
qed

lemma UpdateBackend_audit:
  assumes "BackendHandler_UpdateBackend w r s = (Inr b, s')"
  shows "\<exists>old row.
      MySQLStore_GetBackendByName w (url_param r) s = Inr (Some old) \<and>
      MySQLStore_GetBackendByName w (url_param r) s' = Inr (Some row) \<and>
      config_history s' =
        (if exec_err w InsertHistory then config_history s
         else config_history s @
           [audit_row w r s ''backend'' (ID b) ''UPDATE'' (Some (BackendJSON old))
              (Some (BackendJSON b))]) \<and>
      ID b = ID old \<and>
      b = row\<lparr>CreatedAt := CreatedAt b, UpdatedAt := UpdatedAt b\<rparr>"
proof -
  from assms obtain old ms d where f:
    "\<not> exec_err w SelectBackend" "\<not> exec_err w UpdateBackend" "\<not> result_err w"
    "find (\<lambda>x. Name x = url_param r) (backends s) = Some old"
    "Decode_map (body r) = Some ms"
    "Unmarshal (Backend_field (time_Parse w)) (JObj ms) zero_Backend = Some d"
    "Addr d \<noteq> []"
    "RowsAffected w (\<lambda>x. Name x = url_param r)
       (\<lambda>x. x\<lparr>Addr := Addr d, Description := Description d,
              Enabled := merged_enabled ms (Enabled old),
              UpdatedAt := CURRENT_TIMESTAMP w UpdateBackend\<rparr>) (backends s) \<noteq> 0"
    by (rule UpdateBackend_Inr)
  note e = pair_InrD [OF trans [OF assms [symmetric] UpdateBackend_eval [OF f(1) f(4) f(5) f(6) f(7) f(2) f(3) f(8)]]]
  let ?b = "d\<lparr>Enabled := merged_enabled ms (Enabled old), ID := ID old, Name := url_param r,
             UpdatedAt := time_Now w 0\<rparr>"
  have b: "b = ?b"
    by (rule e [THEN conjunct1])
  have s': "s' = recordHistory w ''backend'' (Some (ID old)) ''UPDATE'' (Some (BackendJSON old))
        (Some (BackendJSON ?b)) r
        (s\<lparr>backends := map (\<lambda>x. if Name x = url_param r
             then x\<lparr>Addr := Addr d, Description := Description d,
                    Enabled := merged_enabled ms (Enabled old),
                    UpdatedAt := CURRENT_TIMESTAMP w UpdateBackend\<rparr> else x) (backends s)\<rparr>)"
    by (rule e [THEN conjunct2])
  let ?row = "old\<lparr>Addr := Addr d, Description := Description d,
                    Enabled := merged_enabled ms (Enabled old),
                    UpdatedAt := CURRENT_TIMESTAMP w UpdateBackend\<rparr>"
  from find_Some_D [OF f(4)] have name: "Name old = url_param r" by simp
  then have "find (\<lambda>x. Name x = url_param r) (backends s') = Some ?row"
    by (subst s') (simp add: find_map_same_key f(4))
  with f(1) have after: "MySQLStore_GetBackendByName w (url_param r) s' = Inr (Some ?row)"
    by (simp add: MySQLStore_GetBackendByName_def)
  from f(1) f(4) have before: "MySQLStore_GetBackendByName w (url_param r) s = Inr (Some old)"
    by (simp add: MySQLStore_GetBackendByName_def)
  have hist: "config_history s' =
        (if exec_err w InsertHistory then config_history s
         else config_history s @
           [audit_row w r s ''backend'' (ID b) ''UPDATE'' (Some (BackendJSON old))
              (Some (BackendJSON b))])"
    by (subst s') (simp add: recordHistory_config_history audit_row_def b)
  have "ID b = ID old" by (simp add: b)
  moreover have "b = ?row\<lparr>CreatedAt := CreatedAt b, UpdatedAt := UpdatedAt b\<rparr>"
    by (simp add: b name)
  ultimately show ?thesis using before after hist by blast
qed

lemma DeleteBackend_audit:
  assumes "BackendHandler_DeleteBackend w r s = (Inr u, s')"
  shows "\<exists>old.
      MySQLStore_GetBackendByName w (url_param r) s = Inr (Some old) \<and>
      config_history s' =
        (if exec_err w InsertHistory then config_history s
         else config_history s @
           [audit_row w r s ''backend'' (ID old) ''DELETE''
              (Some (BackendJSON (old\<lparr>Enabled := False\<rparr>))) None])"
proof -
  from assms obtain old where f:
    "\<not> exec_err w SelectBackend" "\<not> exec_err w DeleteBackend" "\<not> result_err w"
    "find (\<lambda>x. Name x = url_param r) (backends s) = Some old"
    "RowsAffected w (\<lambda>x. Name x = url_param r)
       (\<lambda>x. x\<lparr>Enabled := False, UpdatedAt := CURRENT_TIMESTAMP w DeleteBackend\<rparr>)
       (backends s) \<noteq> 0"
    by (rule DeleteBackend_Inr)
  note e = pair_InrD [OF trans [OF assms [symmetric] DeleteBackend_eval [OF f(1) f(4) f(2) f(3) f(5)]]]
  have s': "s' = recordHistory w ''backend'' (Some (ID old)) ''DELETE''
        (Some (BackendJSON (old\<lparr>Enabled := False\<rparr>))) None r
        (s\<lparr>backends := map (\<lambda>x. if Name x = url_param r
             then x\<lparr>Enabled := False, UpdatedAt := CURRENT_TIMESTAMP w DeleteBackend\<rparr>
             else x) (backends s)\<rparr>)"
    by (rule e [THEN conjunct2])
  from f(1) f(4) have "MySQLStore_GetBackendByName w (url_param r) s = Inr (Some old)"
    by (simp add: MySQLStore_GetBackendByName_def)
  moreover have "config_history s' =
        (if exec_err w InsertHistory then config_history s
         else config_history s @
           [audit_row w r s ''backend'' (ID old) ''DELETE''
              (Some (BackendJSON (old\<lparr>Enabled := False\<rparr>))) None])"
    by (subst s') (simp add: recordHistory_config_history audit_row_def)
  ultimately show ?thesis by blast
qed

lemma CreateRoute_audit:
  assumes "RouteHandler_CreateRoute w r s = (Inr b, s')"
  shows "config_history s' =
      (if exec_err w InsertHistory then config_history s
       else config_history s @
         [audit_row w r s ''route'' (RID b) ''CREATE'' None (Some (RouteJSON b))])"
    and "\<exists>row. routes s' = routes s @ [row] \<and>
      b = row\<lparr>RCreatedAt := RCreatedAt b, RUpdatedAt := RUpdatedAt b\<rparr>"
    and "backends s' = backends s"
proof -
  from assms obtain d where f:
    "Decode (body r) (Route_field (time_Parse w)) zero_Route = Some d"
    "HTTPMethod d \<noteq> []" "HTTPPattern d \<noteq> []" "BackendName d \<noteq> []"
    "BackendService d \<noteq> []" "BackendMethod d \<noteq> []"
    "verify_backend w (BackendName d) s = None"
    "\<not> exec_err w InsertRoute" "\<not> result_err w"
    by (rule CreateRoute_Inr)
  let ?b = "d\<lparr>TimeoutMS := (if TimeoutMS d \<le> 0 then 5000 else TimeoutMS d),
             REnabled := (if Query_Has r ''enabled'' then REnabled d else True),
             RID := routes_seq s, RCreatedAt := time_Now w 0, RUpdatedAt := time_Now w 1\<rparr>"
  note e = pair_InrD [OF trans [OF assms [symmetric] CreateRoute_eval [OF f]]]
  have b: "b = ?b"
    by (rule e [THEN conjunct1])
  have s': "s' = recordHistory w ''route'' (Some (routes_seq s)) ''CREATE'' None
        (Some (RouteJSON ?b)) r
        (s\<lparr>routes := routes s @
             [\<lparr>RID = routes_seq s, HTTPMethod = HTTPMethod d, HTTPPattern = HTTPPattern d,
               BackendName = BackendName d, BackendService = BackendService d,
               BackendMethod = BackendMethod d,
               TimeoutMS = (if TimeoutMS d \<le> 0 then 5000 else TimeoutMS d),
               RDescription = RDescription d,
               REnabled = (if Query_Has r ''enabled'' then REnabled d else True),
               RCreatedAt = CURRENT_TIMESTAMP w InsertRoute,
               RUpdatedAt = CURRENT_TIMESTAMP w InsertRoute\<rparr>],
            routes_seq := routes_seq s + 1\<rparr>)"
    by (rule e [THEN conjunct2])
  show "config_history s' =
      (if exec_err w InsertHistory then config_history s
       else config_history s @
         [audit_row w r s ''route'' (RID b) ''CREATE'' None (Some (RouteJSON b))])"
    by (subst s') (simp add: recordHistory_config_history audit_row_def b)
  show "\<exists>row. routes s' = routes s @ [row] \<and>
      b = row\<lparr>RCreatedAt := RCreatedAt b, RUpdatedAt := RUpdatedAt b\<rparr>"
    by (subst s') (simp add: b)
  show "backends s' = backends s"
    by (subst s') simp
qed

lemma UpdateRoute_audit:
  assumes "RouteHandler_UpdateRoute w r s = (Inr b, s')"
  shows "\<exists>i old row.
      ParseUint (url_param r) 32 = Some i \<and>
      MySQLStore_GetRouteByID w i s = Inr (Some old) \<and>
      MySQLStore_GetRouteByID w i s' = Inr (Some row) \<and>
      config_history s' =
        (if exec_err w InsertHistory then config_history s
         else config_history s @
           [audit_row w r s ''route'' (RID b) ''UPDATE'' (Some (RouteJSON old))
              (Some (RouteJSON b))]) \<and>
      RID b = RID old \<and>
      b = row\<lparr>RCreatedAt := RCreatedAt b, RUpdatedAt := RUpdatedAt b\<rparr>"
proof -
  from assms obtain i old ms d where f:
    "ParseUint (url_param r) 32 = Some i"
    "\<not> exec_err w SelectRoute"
    "find (\<lambda>x. RID x = i) (routes s) = Some old"
    "Decode_map (body r) = Some ms"
    "Unmarshal (Route_field (time_Parse w)) (JObj ms) zero_Route = Some d"
    "HTTPMethod d \<noteq> []" "HTTPPattern d \<noteq> []" "BackendName d \<noteq> []"
    "BackendService d \<noteq> []" "BackendMethod d \<noteq> []"
    "BackendName d = BackendName old \<or> verify_backend w (BackendName d) s = None"
    "\<not> exec_err w UpdateRoute" "\<not> result_err w"
    "RowsAffected w (\<lambda>x. RID x = i)
       (\<lambda>x. x\<lparr>HTTPMethod := HTTPMethod d, HTTPPattern := HTTPPattern d,
              BackendName := BackendName d, BackendService := BackendService d,
              BackendMethod := BackendMethod d, TimeoutMS := TimeoutMS d,
              RDescription := RDescription d,
              REnabled := merged_enabled ms (REnabled old),
              RUpdatedAt := CURRENT_TIMESTAMP w UpdateRoute\<rparr>) (routes s) \<noteq> 0"
    by (rule UpdateRoute_Inr)
  note e = pair_InrD [OF trans [OF assms [symmetric] UpdateRoute_eval [OF f]]]
  let ?b = "d\<lparr>REnabled := merged_enabled ms (REnabled old), RID := i,
             RUpdatedAt := time_Now w 0\<rparr>"
  have b: "b = ?b"
    by (rule e [THEN conjunct1])
  have s': "s' = recordHistory w ''route'' (Some i) ''UPDATE'' (Some (RouteJSON old))
        (Some (RouteJSON ?b)) r
        (s\<lparr>routes := map (\<lambda>x. if RID x = i
             then x\<lparr>HTTPMethod := HTTPMethod d, HTTPPattern := HTTPPattern d,
                    BackendName := BackendName d, BackendService := BackendService d,
                    BackendMethod := BackendMethod d, TimeoutMS := TimeoutMS d,
                    RDescription := RDescription d,
                    REnabled := merged_enabled ms (REnabled old),
                    RUpdatedAt := CURRENT_TIMESTAMP w UpdateRoute\<rparr> else x) (routes s)\<rparr>)"
    by (rule e [THEN conjunct2])
  let ?row = "old\<lparr>HTTPMethod := HTTPMethod d, HTTPPattern := HTTPPattern d,
                    BackendName := BackendName d, BackendService := BackendService d,
                    BackendMethod := BackendMethod d, TimeoutMS := TimeoutMS d,
                    RDescription := RDescription d,
                    REnabled := merged_enabled ms (REnabled old),
                    RUpdatedAt := CURRENT_TIMESTAMP w UpdateRoute\<rparr>"
  from find_Some_D [OF f(3)] have rid: "RID old = i" by simp
  then have "find (\<lambda>x. RID x = i) (routes s') = Some ?row"
    by (subst s') (simp add: find_map_same_key f(3))
  with f(2) have after: "MySQLStore_GetRouteByID w i s' = Inr (Some ?row)"
    by (simp add: MySQLStore_GetRouteByID_def)
  from f(2) f(3) have before: "MySQLStore_GetRouteByID w i s = Inr (Some old)"
    by (simp add: MySQLStore_GetRouteByID_def)
  have hist: "config_history s' =
        (if exec_err w InsertHistory then config_history s
         else config_history s @
           [audit_row w r s ''route'' (RID b) ''UPDATE'' (Some (RouteJSON old))
              (Some (RouteJSON b))])"
    by (subst s') (simp add: recordHistory_config_history audit_row_def b)
  have "RID b = RID old" by (simp add: b rid)
  moreover have "b = ?row\<lparr>RCreatedAt := RCreatedAt b, RUpdatedAt := RUpdatedAt b\<rparr>"
    by (simp add: b rid)
  ultimately show ?thesis using f(1) before after hist by blast
qed

lemma DeleteRoute_audit:
  assumes "RouteHandler_DeleteRoute w r s = (Inr u, s')"
  shows "\<exists>i old.
      ParseUint (url_param r) 32 = Some i \<and>
      MySQLStore_GetRouteByID w i s = Inr (Some old) \<and>
      config_history s' =
        (if exec_err w InsertHistory then config_history s
         else config_history s @
           [audit_row w r s ''route'' (RID old) ''DELETE''
              (Some (RouteJSON (old\<lparr>REnabled := False\<rparr>))) None])"
proof -
  from assms obtain i old where f:
    "ParseUint (url_param r) 32 = Some i"
    "\<not> exec_err w SelectRoute" "\<not> exec_err w DeleteRoute" "\<not> result_err w"
    "find (\<lambda>x. RID x = i) (routes s) = Some old"
    "RowsAffected w (\<lambda>x. RID x = i)
       (\<lambda>x. x\<lparr>REnabled := False, RUpdatedAt := CURRENT_TIMESTAMP w DeleteRoute\<rparr>)
       (routes s) \<noteq> 0"
    by (rule DeleteRoute_Inr)
  note e = pair_InrD [OF trans [OF assms [symmetric] DeleteRoute_eval [OF f(1) f(2) f(5) f(3) f(4) f(6)]]]
  have s': "s' = recordHistory w ''route'' (Some (RID old)) ''DELETE''
        (Some (RouteJSON (old\<lparr>REnabled := False\<rparr>))) None r
        (s\<lparr>routes := map (\<lambda>x. if RID x = i
             then x\<lparr>REnabled := False, RUpdatedAt := CURRENT_TIMESTAMP w DeleteRoute\<rparr>
             else x) (routes s)\<rparr>)"
    by (rule e [THEN conjunct2])
  from f(2) f(5) have "MySQLStore_GetRouteByID w i s = Inr (Some old)"
    by (simp add: MySQLStore_GetRouteByID_def)
  moreover have "config_history s' =
        (if exec_err w InsertHistory then config_history s
         else config_history s @
           [audit_row w r s ''route'' (RID old) ''DELETE''
              (Some (RouteJSON (old\<lparr>REnabled := False\<rparr>))) None])"
    by (subst s') (simp add: recordHistory_config_history audit_row_def)
  ultimately show ?thesis using f(1) by blast
qed

text \<open>
  C5, as the specification states it, fails in three places, shown here on the
  database \<open>db1\<close>.
  \<^item> The backend \<open>account\<close> is enabled. Deleting it succeeds and records a row
    whose \<^verbatim>\<open>old_value\<close> is the backend with \<^verbatim>\<open>enabled\<close> false: the handler clears
    the flag of the record it has read before it passes the record on as the old
    value.
  \<^item> The same delete while the insert into config\_history fails also succeeds, and
    no row is recorded.
  \<^item> An update records as \<^verbatim>\<open>new_value\<close> the struct decoded from the payload, whose
    \<^verbatim>\<open>created_at\<close> is the zero time, while the stored row keeps the time of its
    creation.
\<close>

theorem audit_snapshots_counterexample:
  "MySQLStore_GetBackendByName quiet ''account'' db1 = Inr (Some account) \<and>
   Enabled account \<and>
   BackendHandler_DeleteBackend quiet (req ''account'' []) db1 =
     (Inr (),
      db1\<lparr>backends := [account\<lparr>Enabled := False, UpdatedAt := 100\<rparr>],
          config_history :=
            [\<lparr>HID = 1, ConfigType = ''backend'', ConfigID = Some 1, Operation = ''DELETE'',
              OldValue = Some (BackendJSON (account\<lparr>Enabled := False\<rparr>)),
              NewValue = None, Operator = ''ops'', HCreatedAt = 100\<rparr>],
          config_history_seq := 2\<rparr>) \<and>
   BackendJSON (account\<lparr>Enabled := False\<rparr>) \<noteq> BackendJSON account \<and>
   BackendHandler_DeleteBackend history_down (req ''account'' []) db1 =
     (Inr (), db1\<lparr>backends := [account\<lparr>Enabled := False, UpdatedAt := 100\<rparr>]\<rparr>) \<and>
   BackendHandler_UpdateBackend quiet
     (req ''account'' [(''addr'', JStr ''10.0.0.9:50051''),
        (''description'', JStr ''Account service'')]) db1 =
     (Inr (account\<lparr>Addr := ''10.0.0.9:50051'', CreatedAt := 0, UpdatedAt := 101\<rparr>),
      db1\<lparr>backends := [account\<lparr>Addr := ''10.0.0.9:50051'', UpdatedAt := 100\<rparr>],
          config_history :=
            [\<lparr>HID = 1, ConfigType = ''backend'', ConfigID = Some 1, Operation = ''UPDATE'',
              OldValue = Some (BackendJSON account),
              NewValue = Some (BackendJSON (account\<lparr>Addr := ''10.0.0.9:50051'',
                CreatedAt := 0, UpdatedAt := 101\<rparr>)),
              Operator = ''ops'', HCreatedAt = 100\<rparr>],
          config_history_seq := 2\<rparr>) \<and>
   CreatedAt (account\<lparr>Addr := ''10.0.0.9:50051'', CreatedAt := 0, UpdatedAt := 101\<rparr>) \<noteq>
     CreatedAt (account\<lparr>Addr := ''10.0.0.9:50051'', UpdatedAt := 100\<rparr>)"
  by (intro conjI; code_simp)

text \<open>
  C5, amended. Every create, update or delete of a backend or of a route that succeeds
  appends exactly one row to config\_history if the insert of that row does not fail,
  and none if it does. The row has the type of the entity, its id and the operation;
  \<^verbatim>\<open>old_value\<close> is absent for CREATE and \<^verbatim>\<open>new_value\<close> for DELETE. For UPDATE
  \<^verbatim>\<open>old_value\<close> is the entity as it was stored before; for DELETE it is that entity
  with \<^verbatim>\<open>enabled\<close> already false. \<^verbatim>\<open>new_value\<close> is the entity as it is answered
  to the caller, which is the stored row after the change in every field but the two
  timestamps.
\<close>

theorem audit_rows:
  "(BackendHandler_CreateBackend w r1 s1 = (Inr b1, s1') \<longrightarrow>
      config_history s1' =
        (if exec_err w InsertHistory then config_history s1
         else config_history s1 @
           [audit_row w r1 s1 ''backend'' (ID b1) ''CREATE'' None (Some (BackendJSON b1))]) \<and>
      (\<exists>row. backends s1' = backends s1 @ [row] \<and>
         b1 = row\<lparr>CreatedAt := CreatedAt b1, UpdatedAt := UpdatedAt b1\<rparr>)) \<and>
   (BackendHandler_UpdateBackend w r2 s2 = (Inr b2, s2') \<longrightarrow>
      (\<exists>old row.
         MySQLStore_GetBackendByName w (url_param r2) s2 = Inr (Some old) \<and>
         MySQLStore_GetBackendByName w (url_param r2) s2' = Inr (Some row) \<and>
         config_history s2' =
           (if exec_err w InsertHistory then config_history s2
            else config_history s2 @
              [audit_row w r2 s2 ''backend'' (ID b2) ''UPDATE'' (Some (BackendJSON old))
                 (Some (BackendJSON b2))]) \<and>
         ID b2 = ID old \<and>
         b2 = row\<lparr>CreatedAt := CreatedAt b2, UpdatedAt := UpdatedAt b2\<rparr>)) \<and>
   (BackendHandler_DeleteBackend w r3 s3 = (Inr u3, s3') \<longrightarrow>
      (\<exists>old.
         MySQLStore_GetBackendByName w (url_param r3) s3 = Inr (Some old) \<and>
         config_history s3' =
           (if exec_err w InsertHistory then config_history s3
            else config_history s3 @
              [audit_row w r3 s3 ''backend'' (ID old) ''DELETE''
                 (Some (BackendJSON (old\<lparr>Enabled := False\<rparr>))) None]))) \<and>
   (RouteHandler_CreateRoute w r4 s4 = (Inr b4, s4') \<longrightarrow>
      config_history s4' =
        (if exec_err w InsertHistory then config_history s4
         else config_history s4 @
           [audit_row w r4 s4 ''route'' (RID b4) ''CREATE'' None (Some (RouteJSON b4))]) \<and>
      (\<exists>row. routes s4' = routes s4 @ [row] \<and>
         b4 = row\<lparr>RCreatedAt := RCreatedAt b4, RUpdatedAt := RUpdatedAt b4\<rparr>)) \<and>
   (RouteHandler_UpdateRoute w r5 s5 = (Inr b5, s5') \<longrightarrow>
      (\<exists>i old row.
         ParseUint (url_param r5) 32 = Some i \<and>
         MySQLStore_GetRouteByID w i s5 = Inr (Some old) \<and>
         MySQLStore_GetRouteByID w i s5' = Inr (Some row) \<and>
         config_history s5' =
           (if exec_err w InsertHistory then config_history s5
            else config_history s5 @
              [audit_row w r5 s5 ''route'' (RID b5) ''UPDATE'' (Some (RouteJSON old))
                 (Some (RouteJSON b5))]) \<and>
         RID b5 = RID old \<and>
         b5 = row\<lparr>RCreatedAt := RCreatedAt b5, RUpdatedAt := RUpdatedAt b5\<rparr>)) \<and>
   (RouteHandler_DeleteRoute w r6 s6 = (Inr u6, s6') \<longrightarrow>
      (\<exists>i old.
         ParseUint (url_param r6) 32 = Some i \<and>
         MySQLStore_GetRouteByID w i s6 = Inr (Some old) \<and>
         config_history s6' =
           (if exec_err w InsertHistory then config_history s6
            else config_history s6 @
              [audit_row w r6 s6 ''route'' (RID old) ''DELETE''
                 (Some (RouteJSON (old\<lparr>REnabled := False\<rparr>))) None])))"
  using CreateBackend_audit(1,2) [of w r1 s1 b1 s1'] UpdateBackend_audit [of w r2 s2 b2 s2']
    DeleteBackend_audit [of w r3 s3 u3 s3'] CreateRoute_audit(1,2) [of w r4 s4 b4 s4']
    UpdateRoute_audit [of w r5 s5 b5 s5'] DeleteRoute_audit [of w r6 s6 u6 s6']
  by blast

theorem audit_rows_witness:
  "config_history (snd (BackendHandler_CreateBackend quiet
       (req [] [(''name'', JStr ''billing''), (''addr'', JStr ''10.0.0.2:50051'')]) db1)) =
     [audit_row quiet (req [] [(''name'', JStr ''billing''), (''addr'', JStr ''10.0.0.2:50051'')])
        db1 ''backend'' 2 ''CREATE'' None
        (Some (BackendJSON \<lparr>ID = 2, Name = ''billing'', Addr = ''10.0.0.2:50051'',
           Description = [], Enabled = True, CreatedAt = 101, UpdatedAt = 101\<rparr>))] \<and>
   config_history (snd (BackendHandler_UpdateBackend quiet
       (req ''account'' [(''addr'', JStr ''10.0.0.3:50051'')]) db1)) =
     [audit_row quiet (req ''account'' [(''addr'', JStr ''10.0.0.3:50051'')]) db1 ''backend'' 1
        ''UPDATE'' (Some (BackendJSON account))
        (Some (BackendJSON (account\<lparr>Addr := ''10.0.0.3:50051'', Description := [],
           CreatedAt := 0, UpdatedAt := 101\<rparr>)))] \<and>
   config_history (snd (BackendHandler_DeleteBackend quiet (req ''account'' []) db1)) =
     [audit_row quiet (req ''account'' []) db1 ''backend'' 1 ''DELETE''
        (Some (BackendJSON (account\<lparr>Enabled := False\<rparr>))) None] \<and>
   config_history (snd (RouteHandler_CreateRoute quiet (req [] login_members) db1)) =
     [audit_row quiet (req [] login_members) db1 ''route'' 2 ''CREATE'' None
        (Some (RouteJSON (login_payload\<lparr>RID := 2, TimeoutMS := 5000, REnabled := True,
           RCreatedAt := 101, RUpdatedAt := 101\<rparr>)))] \<and>
   config_history (snd (RouteHandler_UpdateRoute quiet (req ''1'' login_members) db1)) =
     [audit_row quiet (req ''1'' login_members) db1 ''route'' 1 ''UPDATE''
        (Some (RouteJSON login))
        (Some (RouteJSON (login_payload\<lparr>RID := 1, REnabled := True, RUpdatedAt := 101\<rparr>)))] \<and>
   config_history (snd (RouteHandler_DeleteRoute quiet (req ''1'' []) db1)) =
     [audit_row quiet (req ''1'' []) db1 ''route'' 1 ''DELETE''
        (Some (RouteJSON (login\<lparr>REnabled := False\<rparr>))) None]"
proof -
  let ?r1 = "req [] [(''name'', JStr ''billing''), (''addr'', JStr ''10.0.0.2:50051'')]"
  let ?r2 = "req ''account'' [(''addr'', JStr ''10.0.0.3:50051'')]"
  let ?r3 = "req ''account'' []"
  let ?r4 = "req [] login_members"
  let ?r5 = "req ''1'' login_members"
  let ?r6 = "req ''1'' []"
  let ?b1 = "\<lparr>ID = 2, Name = ''billing'', Addr = ''10.0.0.2:50051'',
           Description = [], Enabled = True, CreatedAt = 101, UpdatedAt = 101\<rparr>"
  let ?b2 = "account\<lparr>Addr := ''10.0.0.3:50051'', Description := [],
           CreatedAt := 0, UpdatedAt := 101\<rparr>"
  let ?b4 = "login_payload\<lparr>RID := 2, TimeoutMS := 5000, REnabled := True,
           RCreatedAt := 101, RUpdatedAt := 101\<rparr>"
  let ?b5 = "login_payload\<lparr>RID := 1, REnabled := True, RUpdatedAt := 101\<rparr>"
  have q: "\<not> exec_err quiet InsertHistory" by (simp add: quiet_def)
  have h1: "BackendHandler_CreateBackend quiet ?r1 db1 =
      (Inr ?b1, snd (BackendHandler_CreateBackend quiet ?r1 db1))"
    by code_simp
  have h2: "BackendHandler_UpdateBackend quiet ?r2 db1 =
      (Inr ?b2, snd (BackendHandler_UpdateBackend quiet ?r2 db1))"
    by code_simp
  have h3: "BackendHandler_DeleteBackend quiet ?r3 db1 =
      (Inr (), snd (BackendHandler_DeleteBackend quiet ?r3 db1))"
    by code_simp
  have h4: "RouteHandler_CreateRoute quiet ?r4 db1 =
      (Inr ?b4, snd (RouteHandler_CreateRoute quiet ?r4 db1))"
    by code_simp
  have h5: "RouteHandler_UpdateRoute quiet ?r5 db1 =
      (Inr ?b5, snd (RouteHandler_UpdateRoute quiet ?r5 db1))"
    by code_simp
  have h6: "RouteHandler_DeleteRoute quiet ?r6 db1 =
      (Inr (), snd (RouteHandler_DeleteRoute quiet ?r6 db1))"
    by code_simp
  have g2: "MySQLStore_GetBackendByName quiet (url_param ?r2) db1 = Inr (Some account)"
    and g3: "MySQLStore_GetBackendByName quiet (url_param ?r3) db1 = Inr (Some account)"
    by code_simp+
  have p5: "ParseUint (url_param ?r5) 32 = Some 1" and p6: "ParseUint (url_param ?r6) 32 = Some 1"
    by code_simp+
  have g5: "MySQLStore_GetRouteByID quiet 1 db1 = Inr (Some login)"
    by code_simp
  have e: "config_history db1 = []" "ID account = 1" "RID login = 1"
    by (simp_all add: db1_def account_def login_def)
  note t = audit_rows [where w = quiet]
  from t [THEN conjunct1, rule_format, OF h1] q e
  have c1: "config_history (snd (BackendHandler_CreateBackend quiet ?r1 db1)) =
     [audit_row quiet ?r1 db1 ''backend'' 2 ''CREATE'' None (Some (BackendJSON ?b1))]"
    by simp
  from t [THEN conjunct2, THEN conjunct1, rule_format, OF h2] q e g2
  have c2: "config_history (snd (BackendHandler_UpdateBackend quiet ?r2 db1)) =
     [audit_row quiet ?r2 db1 ''backend'' 1 ''UPDATE'' (Some (BackendJSON account))
        (Some (BackendJSON ?b2))]"
    by auto
  from t [THEN conjunct2, THEN conjunct2, THEN conjunct1, rule_format, OF h3] q e g3
  have c3: "config_history (snd (BackendHandler_DeleteBackend quiet ?r3 db1)) =
     [audit_row quiet ?r3 db1 ''backend'' 1 ''DELETE''
        (Some (BackendJSON (account\<lparr>Enabled := False\<rparr>))) None]"
    by auto
  from t [THEN conjunct2, THEN conjunct2, THEN conjunct2, THEN conjunct1, rule_format, OF h4] q e
  have c4: "config_history (snd (RouteHandler_CreateRoute quiet ?r4 db1)) =
     [audit_row quiet ?r4 db1 ''route'' 2 ''CREATE'' None (Some (RouteJSON ?b4))]"
    by simp
  from t [THEN conjunct2, THEN conjunct2, THEN conjunct2, THEN conjunct2, THEN conjunct1,
      rule_format, OF h5] q e p5 g5
  have c5: "config_history (snd (RouteHandler_UpdateRoute quiet ?r5 db1)) =
     [audit_row quiet ?r5 db1 ''route'' 1 ''UPDATE'' (Some (RouteJSON login))
        (Some (RouteJSON ?b5))]"
    by auto
  from t [THEN conjunct2, THEN conjunct2, THEN conjunct2, THEN conjunct2, THEN conjunct2,
      rule_format, OF h6] q e p6 g5
  have c6: "config_history (snd (RouteHandler_DeleteRoute quiet ?r6 db1)) =
     [audit_row quiet ?r6 db1 ''route'' 1 ''DELETE''
        (Some (RouteJSON (login\<lparr>REnabled := False\<rparr>))) None]"
    by auto
  from c1 c2 c3 c4 c5 c6 show ?thesis by blast
qed

section \<open>A failing insert into the audit trail\<close>

lemma history_fails_simps [simp]:
  "exec_err (history_fails w) q = (q = InsertHistory \<or> exec_err w q)"
  "result_err (history_fails w) = result_err w"
  "CURRENT_TIMESTAMP (history_fails w) = CURRENT_TIMESTAMP w"
  "time_Now (history_fails w) = time_Now w"
  "time_Parse (history_fails w) = time_Parse w"
  "clientFoundRows (history_fails w) = clientFoundRows w"
  "row_order (history_fails w) = row_order w"
  by (simp_all add: history_fails_def)

lemma RowsAffected_history_fails [simp]:
  "RowsAffected (history_fails w) selected assign rows = RowsAffected w selected assign rows"
  by (simp add: RowsAffected_def)

lemma recordHistory_fails [simp]:
  "recordHistory (history_fails w) ct ci opn ov nv r s = s"
  by (simp add: recordHistory_def MySQLStore_CreateHistory_def)

lemma without_audit_recordHistory:
  assumes "config_history s0 = config_history s" and "config_history_seq s0 = config_history_seq s"
  shows "without_audit s (recordHistory w ct ci opn ov nv r s0) = s0"
  using assms
  by (cases s0) (simp add: without_audit_def recordHistory_def MySQLStore_CreateHistory_def Let_def)

lemma verify_backend_history_fails [simp]:
  "verify_backend (history_fails w) n s = verify_backend w n s"
  by (simp add: verify_backend_def MySQLStore_GetBackendByName_def)

lemma CreateBackend_history_fails:
  assumes "BackendHandler_CreateBackend w r s = (Inr b, s')"
  shows "BackendHandler_CreateBackend (history_fails w) r s = (Inr b, without_audit s s')"
proof -
  from assms obtain d where f:
    "Decode (body r) (Backend_field (time_Parse w)) zero_Backend = Some d"
    "Name d \<noteq> []" "Addr d \<noteq> []" "\<not> exec_err w SelectBackend"
    "find (\<lambda>x. Name x = Name d) (backends s) = None"
    "\<not> exec_err w InsertBackend" "\<not> result_err w"
    by (rule CreateBackend_Inr)
  note e = pair_InrD [OF trans [OF assms [symmetric] CreateBackend_eval [OF f]]]
  have "BackendHandler_CreateBackend (history_fails w) r s = (Inr b, without_audit s s')"
    using CreateBackend_eval [of r "history_fails w" d s] f
    by (simp add: e without_audit_recordHistory)
  then show ?thesis .
qed

lemma UpdateBackend_history_fails:
  assumes "BackendHandler_UpdateBackend w r s = (Inr b, s')"
  shows "BackendHandler_UpdateBackend (history_fails w) r s = (Inr b, without_audit s s')"
proof -
  from assms obtain old ms d where f:
    "\<not> exec_err w SelectBackend" "\<not> exec_err w UpdateBackend" "\<not> result_err w"
    "find (\<lambda>x. Name x = url_param r) (backends s) = Some old"
    "Decode_map (body r) = Some ms"
    "Unmarshal (Backend_field (time_Parse w)) (JObj ms) zero_Backend = Some d"
    "Addr d \<noteq> []"
    "RowsAffected w (\<lambda>x. Name x = url_param r)
       (\<lambda>x. x\<lparr>Addr := Addr d, Description := Description d,
              Enabled := merged_enabled ms (Enabled old),
              UpdatedAt := CURRENT_TIMESTAMP w UpdateBackend\<rparr>) (backends s) \<noteq> 0"
    by (rule UpdateBackend_Inr)
  note e = pair_InrD [OF trans [OF assms [symmetric]
        UpdateBackend_eval [OF f(1) f(4) f(5) f(6) f(7) f(2) f(3) f(8)]]]
  show ?thesis
    using UpdateBackend_eval [of "history_fails w" r s old ms d] f
    by (simp add: e without_audit_recordHistory cong: if_cong)
qed

lemma DeleteBackend_history_fails:
  assumes "BackendHandler_DeleteBackend w r s = (Inr u, s')"
  shows "BackendHandler_DeleteBackend (history_fails w) r s = (Inr u, without_audit s s')"
proof -
  from assms obtain old where f:
    "\<not> exec_err w SelectBackend" "\<not> exec_err w DeleteBackend" "\<not> result_err w"
    "find (\<lambda>x. Name x = url_param r) (backends s) = Some old"
    "RowsAffected w (\<lambda>x. Name x = url_param r)
       (\<lambda>x. x\<lparr>Enabled := False, UpdatedAt := CURRENT_TIMESTAMP w DeleteBackend\<rparr>)
       (backends s) \<noteq> 0"
    by (rule DeleteBackend_Inr)
  note e = pair_InrD [OF trans [OF assms [symmetric] DeleteBackend_eval [OF f(1) f(4) f(2) f(3) f(5)]]]
  show ?thesis
    using DeleteBackend_eval [of "history_fails w" r s old] f
    by (simp add: e without_audit_recordHistory cong: if_cong)
qed

lemma CreateRoute_history_fails:
  assumes "RouteHandler_CreateRoute w r s = (Inr b, s')"
  shows "RouteHandler_CreateRoute (history_fails w) r s = (Inr b, without_audit s s')"
proof -
  from assms obtain d where f:
    "Decode (body r) (Route_field (time_Parse w)) zero_Route = Some d"
    "HTTPMethod d \<noteq> []" "HTTPPattern d \<noteq> []" "BackendName d \<noteq> []"
    "BackendService d \<noteq> []" "BackendMethod d \<noteq> []"
    "verify_backend w (BackendName d) s = None"
    "\<not> exec_err w InsertRoute" "\<not> result_err w"
    by (rule CreateRoute_Inr)
  note e = pair_InrD [OF trans [OF assms [symmetric] CreateRoute_eval [OF f]]]
  show ?thesis
    using CreateRoute_eval [of r "history_fails w" d s] f
    by (simp add: e without_audit_recordHistory)
qed

lemma UpdateRoute_history_fails:
  assumes "RouteHandler_UpdateRoute w r s = (Inr b, s')"
  shows "RouteHandler_UpdateRoute (history_fails w) r s = (Inr b, without_audit s s')"
proof -
  from assms obtain i old ms d where f:
    "ParseUint (url_param r) 32 = Some i"
    "\<not> exec_err w SelectRoute"
    "find (\<lambda>x. RID x = i) (routes s) = Some old"
    "Decode_map (body r) = Some ms"
    "Unmarshal (Route_field (time_Parse w)) (JObj ms) zero_Route = Some d"
    "HTTPMethod d \<noteq> []" "HTTPPattern d \<noteq> []" "BackendName d \<noteq> []"
    "BackendService d \<noteq> []" "BackendMethod d \<noteq> []"
    "BackendName d = BackendName old \<or> verify_backend w (BackendName d) s = None"
    "\<not> exec_err w UpdateRoute" "\<not> result_err w"
    "RowsAffected w (\<lambda>x. RID x = i)
       (\<lambda>x. x\<lparr>HTTPMethod := HTTPMethod d, HTTPPattern := HTTPPattern d,
              BackendName := BackendName d, BackendService := BackendService d,
              BackendMethod := BackendMethod d, TimeoutMS := TimeoutMS d,
              RDescription := RDescription d,
              REnabled := merged_enabled ms (REnabled old),
              RUpdatedAt := CURRENT_TIMESTAMP w UpdateRoute\<rparr>) (routes s) \<noteq> 0"
    by (rule UpdateRoute_Inr)
  note e = pair_InrD [OF trans [OF assms [symmetric] UpdateRoute_eval [OF f]]]
  show ?thesis
    using UpdateRoute_eval [of r i "history_fails w" s old ms d] f
    by (simp add: e without_audit_recordHistory cong: if_cong)
qed

lemma DeleteRoute_history_fails:
  assumes "RouteHandler_DeleteRoute w r s = (Inr u, s')"
  shows "RouteHandler_DeleteRoute (history_fails w) r s = (Inr u, without_audit s s')"
proof -
  from assms obtain i old where f:
    "ParseUint (url_param r) 32 = Some i"
    "\<not> exec_err w SelectRoute" "\<not> exec_err w DeleteRoute" "\<not> result_err w"
    "find (\<lambda>x. RID x = i) (routes s) = Some old"
    "RowsAffected w (\<lambda>x. RID x = i)
       (\<lambda>x. x\<lparr>REnabled := False, RUpdatedAt := CURRENT_TIMESTAMP w DeleteRoute\<rparr>)
       (routes s) \<noteq> 0"
    by (rule DeleteRoute_Inr)
  note e = pair_InrD [OF trans [OF assms [symmetric]
        DeleteRoute_eval [OF f(1) f(2) f(5) f(3) f(4) f(6)]]]
  show ?thesis
    using DeleteRoute_eval [of r i "history_fails w" s old] f
    by (simp add: e without_audit_recordHistory cong: if_cong)
qed

text \<open>
  C6. Take any create, update or delete that succeeds, that is, whose statement on
  \<^verbatim>\<open>backends\<close> or \<^verbatim>\<open>routes\<close> succeeds. Served again from the same database while the
  insert into config\_history returns an error, the request is answered in the same
  way, with the same entity, and it leaves the database of the first run except for the
  audit row, which is missing.
\<close>

theorem history_failure_is_swallowed:
  "(BackendHandler_CreateBackend w r1 s1 = (Inr b1, s1') \<longrightarrow>
      BackendHandler_CreateBackend (history_fails w) r1 s1 = (Inr b1, without_audit s1 s1')) \<and>
   (BackendHandler_UpdateBackend w r2 s2 = (Inr b2, s2') \<longrightarrow>
      BackendHandler_UpdateBackend (history_fails w) r2 s2 = (Inr b2, without_audit s2 s2')) \<and>
   (BackendHandler_DeleteBackend w r3 s3 = (Inr u3, s3') \<longrightarrow>
      BackendHandler_DeleteBackend (history_fails w) r3 s3 = (Inr u3, without_audit s3 s3')) \<and>
   (RouteHandler_CreateRoute w r4 s4 = (Inr b4, s4') \<longrightarrow>
      RouteHandler_CreateRoute (history_fails w) r4 s4 = (Inr b4, without_audit s4 s4')) \<and>
   (RouteHandler_UpdateRoute w r5 s5 = (Inr b5, s5') \<longrightarrow>
      RouteHandler_UpdateRoute (history_fails w) r5 s5 = (Inr b5, without_audit s5 s5')) \<and>
   (RouteHandler_DeleteRoute w r6 s6 = (Inr u6, s6') \<longrightarrow>
      RouteHandler_DeleteRoute (history_fails w) r6 s6 = (Inr u6, without_audit s6 s6'))"
  using CreateBackend_history_fails [of w r1 s1 b1 s1']
    UpdateBackend_history_fails [of w r2 s2 b2 s2']
    DeleteBackend_history_fails [of w r3 s3 u3 s3']
    CreateRoute_history_fails [of w r4 s4 b4 s4']
    UpdateRoute_history_fails [of w r5 s5 b5 s5']
    DeleteRoute_history_fails [of w r6 s6 u6 s6']
  by blast

theorem history_failure_is_swallowed_witness:
  "BackendHandler_CreateBackend (history_fails quiet)
     (req [] [(''name'', JStr ''search''), (''addr'', JStr ''10.0.0.4:50051'')]) db1 =
     (Inr \<lparr>ID = 2, Name = ''search'', Addr = ''10.0.0.4:50051'', Description = [],
           Enabled = True, CreatedAt = 101, UpdatedAt = 101\<rparr>,
      db1\<lparr>backends := [account, \<lparr>ID = 2, Name = ''search'', Addr = ''10.0.0.4:50051'',
             Description = [], Enabled = True, CreatedAt = 100, UpdatedAt = 100\<rparr>],
          backends_seq := 3\<rparr>) \<and>
   BackendHandler_UpdateBackend (history_fails quiet)
     (req ''account'' [(''addr'', JStr ''10.0.0.5:50051'')]) db1 =
     (Inr (account\<lparr>Addr := ''10.0.0.5:50051'', Description := [], CreatedAt := 0,
             UpdatedAt := 101\<rparr>),
      db1\<lparr>backends := [account\<lparr>Addr := ''10.0.0.5:50051'', Description := [],
             UpdatedAt := 100\<rparr>]\<rparr>) \<and>
   BackendHandler_DeleteBackend (history_fails quiet) (req ''account'' []) db1 =
     (Inr (), db1\<lparr>backends := [account\<lparr>Enabled := False, UpdatedAt := 100\<rparr>]\<rparr>) \<and>
   RouteHandler_CreateRoute (history_fails quiet) (req [] login_members) db1 =
     (Inr (login_payload\<lparr>RID := 2, TimeoutMS := 5000, REnabled := True,
             RCreatedAt := 101, RUpdatedAt := 101\<rparr>),
      db1\<lparr>routes := [login, login_payload\<lparr>RID := 2, TimeoutMS := 5000, REnabled := True,
             RCreatedAt := 100, RUpdatedAt := 100\<rparr>],
          routes_seq := 3\<rparr>) \<and>
   RouteHandler_UpdateRoute (history_fails quiet) (req ''1'' login_members) db1 =
     (Inr (login_payload\<lparr>RID := 1, REnabled := True, RUpdatedAt := 101\<rparr>),
      db1\<lparr>routes := [login\<lparr>TimeoutMS := 0, RDescription := [], RUpdatedAt := 100\<rparr>]\<rparr>) \<and>
   RouteHandler_DeleteRoute (history_fails quiet) (req ''1'' []) db1 =
     (Inr (), db1\<lparr>routes := [login\<lparr>REnabled := False, RUpdatedAt := 100\<rparr>]\<rparr>)"
proof -
  let ?r1 = "req [] [(''name'', JStr ''search''), (''addr'', JStr ''10.0.0.4:50051'')]"
  let ?r2 = "req ''account'' [(''addr'', JStr ''10.0.0.5:50051'')]"
  let ?t1 = "db1\<lparr>backends := [account, \<lparr>ID = 2, Name = ''search'', Addr = ''10.0.0.4:50051'',
             Description = [], Enabled = True, CreatedAt = 100, UpdatedAt = 100\<rparr>],
          backends_seq := 3\<rparr>"
  let ?t2 = "db1\<lparr>backends := [account\<lparr>Addr := ''10.0.0.5:50051'', Description := [],
             UpdatedAt := 100\<rparr>]\<rparr>"
  let ?t3 = "db1\<lparr>backends := [account\<lparr>Enabled := False, UpdatedAt := 100\<rparr>]\<rparr>"
  let ?t4 = "db1\<lparr>routes := [login, login_payload\<lparr>RID := 2, TimeoutMS := 5000, REnabled := True,
             RCreatedAt := 100, RUpdatedAt := 100\<rparr>],
          routes_seq := 3\<rparr>"
  let ?t5 = "db1\<lparr>routes := [login\<lparr>TimeoutMS := 0, RDescription := [], RUpdatedAt := 100\<rparr>]\<rparr>"
  let ?t6 = "db1\<lparr>routes := [login\<lparr>REnabled := False, RUpdatedAt := 100\<rparr>]\<rparr>"
  have h1: "BackendHandler_CreateBackend quiet ?r1 db1 =
      (Inr \<lparr>ID = 2, Name = ''search'', Addr = ''10.0.0.4:50051'', Description = [],
           Enabled = True, CreatedAt = 101, UpdatedAt = 101\<rparr>,
       snd (BackendHandler_CreateBackend quiet ?r1 db1))"
    by code_simp
  have h2: "BackendHandler_UpdateBackend quiet ?r2 db1 =
      (Inr (account\<lparr>Addr := ''10.0.0.5:50051'', Description := [], CreatedAt := 0,
             UpdatedAt := 101\<rparr>),
       snd (BackendHandler_UpdateBackend quiet ?r2 db1))"
    by code_simp
  have h3: "BackendHandler_DeleteBackend quiet (req ''account'' []) db1 =
      (Inr (), snd (BackendHandler_DeleteBackend quiet (req ''account'' []) db1))"
    by code_simp
  have h4: "RouteHandler_CreateRoute quiet (req [] login_members) db1 =
      (Inr (login_payload\<lparr>RID := 2, TimeoutMS := 5000, REnabled := True,
             RCreatedAt := 101, RUpdatedAt := 101\<rparr>),
       snd (RouteHandler_CreateRoute quiet (req [] login_members) db1))"
    by code_simp
  have h5: "RouteHandler_UpdateRoute quiet (req ''1'' login_members) db1 =
      (Inr (login_payload\<lparr>RID := 1, REnabled := True, RUpdatedAt := 101\<rparr>),
       snd (RouteHandler_UpdateRoute quiet (req ''1'' login_members) db1))"
    by code_simp
  have h6: "RouteHandler_DeleteRoute quiet (req ''1'' []) db1 =
      (Inr (), snd (RouteHandler_DeleteRoute quiet (req ''1'' []) db1))"
    by code_simp
  have w1: "without_audit db1 (snd (BackendHandler_CreateBackend quiet ?r1 db1)) = ?t1"
    and w2: "without_audit db1 (snd (BackendHandler_UpdateBackend quiet ?r2 db1)) = ?t2"
    and w3: "without_audit db1 (snd (BackendHandler_DeleteBackend quiet (req ''account'' []) db1)) = ?t3"
    and w4: "without_audit db1 (snd (RouteHandler_CreateRoute quiet (req [] login_members) db1)) = ?t4"
    and w5: "without_audit db1 (snd (RouteHandler_UpdateRoute quiet (req ''1'' login_members) db1)) = ?t5"
    and w6: "without_audit db1 (snd (RouteHandler_DeleteRoute quiet (req ''1'' []) db1)) = ?t6"
    by code_simp+
  note t = history_failure_is_swallowed [where w = quiet]
  note c1 = t [THEN conjunct1, rule_format, OF h1, unfolded w1]
  note c2 = t [THEN conjunct2, THEN conjunct1, rule_format, OF h2, unfolded w2]
  note c3 = t [THEN conjunct2, THEN conjunct2, THEN conjunct1, rule_format, OF h3, unfolded w3]
  note c4 = t [THEN conjunct2, THEN conjunct2, THEN conjunct2, THEN conjunct1, rule_format, OF h4,
      unfolded w4]
  note c5 = t [THEN conjunct2, THEN conjunct2, THEN conjunct2, THEN conjunct2, THEN conjunct1,
      rule_format, OF h5, unfolded w5]
  note c6 = t [THEN conjunct2, THEN conjunct2, THEN conjunct2, THEN conjunct2, THEN conjunct2,
      rule_format, OF h6, unfolded w6]
  from c1 c2 c3 c4 c5 c6 show ?thesis by (intro conjI)
qed

section \<open>Defaults on creation and on update\<close>

text \<open>
  C7 holds of what the comment \<^verbatim>\<open>// Default enabled to true\<close> announces, not of the
  code: the create handlers look for \<^verbatim>\<open>enabled\<close> in the query string of the URL, not
  in the payload. Without that query parameter a backend and a route whose payloads
  say \<^verbatim>\<open>"enabled": false\<close> are created enabled; with it, a payload that does not
  mention \<^verbatim>\<open>enabled\<close> creates a disabled backend.
\<close>

theorem create_enabled_read_from_query:
  "BackendHandler_CreateBackend quiet
     (req [] [(''name'', JStr ''standby''), (''addr'', JStr ''10.0.0.6:50051''),
        (''enabled'', JBool False)]) db1 =
     (Inr \<lparr>ID = 2, Name = ''standby'', Addr = ''10.0.0.6:50051'', Description = [],
           Enabled = True, CreatedAt = 101, UpdatedAt = 101\<rparr>,
      db1\<lparr>backends := [account, \<lparr>ID = 2, Name = ''standby'', Addr = ''10.0.0.6:50051'',
             Description = [], Enabled = True, CreatedAt = 100, UpdatedAt = 100\<rparr>],
          backends_seq := 3,
          config_history :=
            [\<lparr>HID = 1, ConfigType = ''backend'', ConfigID = Some 2, Operation = ''CREATE'',
              OldValue = None,
              NewValue = Some (BackendJSON \<lparr>ID = 2, Name = ''standby'',
                Addr = ''10.0.0.6:50051'', Description = [], Enabled = True, CreatedAt = 101,
                UpdatedAt = 101\<rparr>),
              Operator = ''ops'', HCreatedAt = 100\<rparr>],
          config_history_seq := 2\<rparr>) \<and>
   fst (RouteHandler_CreateRoute quiet (req [] (login_members @ [(''enabled'', JBool False)])) db1) =
     Inr (login_payload\<lparr>RID := 2, TimeoutMS := 5000, REnabled := True, RCreatedAt := 101,
            RUpdatedAt := 101\<rparr>) \<and>
   routes (snd (RouteHandler_CreateRoute quiet
      (req [] (login_members @ [(''enabled'', JBool False)])) db1)) =
     [login, login_payload\<lparr>RID := 2, TimeoutMS := 5000, REnabled := True, RCreatedAt := 100,
        RUpdatedAt := 100\<rparr>] \<and>
   fst (BackendHandler_CreateBackend quiet
     \<lparr>url_param = [], query = [(''enabled'', ''true'')], X_Operator = ''ops'',
      body = Some (JObj [(''name'', JStr ''standby''), (''addr'', JStr ''10.0.0.6:50051'')])\<rparr>
     db1) =
     Inr \<lparr>ID = 2, Name = ''standby'', Addr = ''10.0.0.6:50051'', Description = [],
           Enabled = False, CreatedAt = 101, UpdatedAt = 101\<rparr>"
  by (intro conjI; code_simp)

text \<open>
  C8 holds for creation and fails for update: \<^verbatim>\<open>CreateRoute\<close> replaces a timeout
  that is unset or not positive by 5000, \<^verbatim>\<open>UpdateRoute\<close> has no such step. An update
  of the route \<open>login\<close> whose payload leaves \<^verbatim>\<open>timeout_ms\<close> out stores 0, one whose
  payload says -5 stores -5, and the same payload sent to \<^verbatim>\<open>CreateRoute\<close> stores 5000.
\<close>

theorem update_route_timeout_not_defaulted:
  "fst (RouteHandler_UpdateRoute quiet (req ''1'' login_members) db1) =
     Inr (login_payload\<lparr>RID := 1, TimeoutMS := 0, REnabled := True, RUpdatedAt := 101\<rparr>) \<and>
   MySQLStore_GetRouteByID quiet 1 (snd (RouteHandler_UpdateRoute quiet (req ''1'' login_members) db1)) =
     Inr (Some (login\<lparr>TimeoutMS := 0, RDescription := [], RUpdatedAt := 100\<rparr>)) \<and>
   MySQLStore_GetRouteByID quiet 1
     (snd (RouteHandler_UpdateRoute quiet
        (req ''1'' (login_members @ [(''timeout_ms'', JNum (IntLit (- 5)))])) db1)) =
     Inr (Some (login\<lparr>TimeoutMS := - 5, RDescription := [], RUpdatedAt := 100\<rparr>)) \<and>
   MySQLStore_GetRouteByID quiet 2
     (snd (RouteHandler_CreateRoute quiet
        (req [] (login_members @ [(''timeout_ms'', JNum (IntLit (- 5)))])) db1)) =
     Inr (Some (login_payload\<lparr>RID := 2, TimeoutMS := 5000, REnabled := True, RCreatedAt := 100,
        RUpdatedAt := 100\<rparr>))"
  by (intro conjI; code_simp)

section \<open>Reading the audit trail\<close>



lemma order_by_created_at_desc_mset [simp]:
  "mset (order_by_created_at_desc w hs) = mset hs"
  by (simp add: order_by_created_at_desc_def)

lemma order_by_created_at_desc_length [simp]:
  "length (order_by_created_at_desc w hs) = length hs"
  by (simp add: order_by_created_at_desc_def)

lemma order_by_created_at_desc_set [simp]:
  "set (order_by_created_at_desc w hs) = set hs"
  by (simp add: order_by_created_at_desc_def)


lemma Scan_rows_all:
  assumes "\<forall>h\<in>set hs. OldValue h \<noteq> None \<and> NewValue h \<noteq> None"
  shows "Scan_rows hs = Inr hs"
  using assms by (induction hs) (auto simp: Scan_def)


text \<open>
  A page with a row that lacks a snapshot is not returned. The handlers write such a
  row for every creation and every deletion: the table \<open>db3\<close> holds the record of a
  deletion, and listing it fails.
\<close>

lemma get_history_absent_snapshot:
  "MySQLStore_GetHistory quiet None None 50 0 db3 = Inl DriverError"
  by code_simp



section \<open>The parameters of a history request\<close>

lemma GetHistory_total:
  assumes "\<not> exec_err w CountHistory" and "\<not> exec_err w SelectHistory"
    and "0 \<le> lim" and "0 \<le> off"
    and "\<forall>h\<in>set (config_history s). history_where ct ci h \<longrightarrow>
           OldValue h \<noteq> None \<and> NewValue h \<noteq> None"
  shows "\<exists>hs n. MySQLStore_GetHistory w ct ci lim off s = Inr (hs, n)"
proof -
  let ?page = "take (nat lim) (drop (nat off)
           (order_by_created_at_desc w (filter (history_where ct ci) (config_history s))))"
  have "\<forall>h\<in>set ?page. OldValue h \<noteq> None \<and> NewValue h \<noteq> None"
  proof
    fix h assume "h \<in> set ?page"
    then have "h \<in> set (order_by_created_at_desc w
        (filter (history_where ct ci) (config_history s)))"
      by (blast dest: in_set_takeD in_set_dropD)
    with assms(5) show "OldValue h \<noteq> None \<and> NewValue h \<noteq> None" by simp
  qed
  then have "Scan_rows ?page = Inr ?page" by (rule Scan_rows_all)
  with assms(1-4) show ?thesis
    by (simp add: MySQLStore_GetHistory_def Let_def)
qed

text \<open>
  C10. A parameter counts as supplied when it is not empty.
  \<^item> A supplied \<^verbatim>\<open>config_type\<close> other than \<^verbatim>\<open>backend\<close> and \<^verbatim>\<open>route\<close> is answered
    with a bad request, whatever the database holds and whether or not it can be
    reached: the store is not asked.
  \<^item> In every page that is returned, the limit is the supplied one if that is a
    number from 1 to 100 and 50 in every other case, and the offset is the supplied
    one if that is a number not below 0 and 0 in every other case; the page is the
    answer of the store for these two values.
  \<^item> With a \<^verbatim>\<open>config_type\<close> and a \<^verbatim>\<open>config_id\<close> that are absent or well formed, no
    value of \<^verbatim>\<open>limit\<close> and \<^verbatim>\<open>offset\<close> is refused: the only error that is answered
    is the internal server error for a failure of the store, and where the two
    statements of the store succeed and every row that passes the filters has both
    snapshots, a page is returned whatever \<^verbatim>\<open>limit\<close> and \<^verbatim>\<open>offset\<close> are.
\<close>

theorem list_history_parameters:
  "(Query_Get r ''config_type'' \<noteq> [] \<and> Query_Get r ''config_type'' \<noteq> ''backend'' \<and>
    Query_Get r ''config_type'' \<noteq> ''route''
    \<longrightarrow> HistoryHandler_ListHistory w r s = Inl (StatusBadRequest invalid_config_type)) \<and>
   (HistoryHandler_ListHistory w r2 s2 = Inr p
    \<longrightarrow> (\<forall>n. Atoi (Query_Get r2 ''limit'') = Some n \<and> 1 \<le> n \<and> n \<le> 100 \<longrightarrow> page_limit p = n) \<and>
        (\<forall>n. Atoi (Query_Get r2 ''limit'') = Some n \<and> (n < 1 \<or> 100 < n) \<longrightarrow> page_limit p = 50) \<and>
        (Atoi (Query_Get r2 ''limit'') = None \<longrightarrow> page_limit p = 50) \<and>
        (\<forall>n. Atoi (Query_Get r2 ''offset'') = Some n \<and> 0 \<le> n \<longrightarrow> page_offset p = n) \<and>
        (\<forall>n. Atoi (Query_Get r2 ''offset'') = Some n \<and> n < 0 \<longrightarrow> page_offset p = 0) \<and>
        (Atoi (Query_Get r2 ''offset'') = None \<longrightarrow> page_offset p = 0) \<and>
        MySQLStore_GetHistory w
          (if Query_Get r2 ''config_type'' = [] then None else Some (Query_Get r2 ''config_type''))
          (ParseUint (Query_Get r2 ''config_id'') 32)
          (page_limit p) (page_offset p) s2 = Inr (page_items p, page_total p)) \<and>
   ((Query_Get r3 ''config_type'' = [] \<or> Query_Get r3 ''config_type'' = ''backend'' \<or>
     Query_Get r3 ''config_type'' = ''route'') \<and>
    (Query_Get r3 ''config_id'' = [] \<or> ParseUint (Query_Get r3 ''config_id'') 32 \<noteq> None)
    \<longrightarrow> (\<forall>e. HistoryHandler_ListHistory w r3 s3 = Inl e \<longrightarrow>
           e = StatusInternalServerError ''internal server error'') \<and>
        (\<not> exec_err w CountHistory \<and> \<not> exec_err w SelectHistory \<and>
         (\<forall>h\<in>set (config_history s3).
            history_where
              (if Query_Get r3 ''config_type'' = [] then None
               else Some (Query_Get r3 ''config_type''))
              (ParseUint (Query_Get r3 ''config_id'') 32) h \<longrightarrow>
            OldValue h \<noteq> None \<and> NewValue h \<noteq> None)
         \<longrightarrow> (\<exists>p. HistoryHandler_ListHistory w r3 s3 = Inr p)))"
proof (rule conjI [OF _ conjI])
  show "Query_Get r ''config_type'' \<noteq> [] \<and> Query_Get r ''config_type'' \<noteq> ''backend'' \<and>
    Query_Get r ''config_type'' \<noteq> ''route''
    \<longrightarrow> HistoryHandler_ListHistory w r s = Inl (StatusBadRequest invalid_config_type)"
    by (simp add: HistoryHandler_ListHistory_def)
next
  show "HistoryHandler_ListHistory w r2 s2 = Inr p
    \<longrightarrow> (\<forall>n. Atoi (Query_Get r2 ''limit'') = Some n \<and> 1 \<le> n \<and> n \<le> 100 \<longrightarrow> page_limit p = n) \<and>
        (\<forall>n. Atoi (Query_Get r2 ''limit'') = Some n \<and> (n < 1 \<or> 100 < n) \<longrightarrow> page_limit p = 50) \<and>
        (Atoi (Query_Get r2 ''limit'') = None \<longrightarrow> page_limit p = 50) \<and>
        (\<forall>n. Atoi (Query_Get r2 ''offset'') = Some n \<and> 0 \<le> n \<longrightarrow> page_offset p = n) \<and>
        (\<forall>n. Atoi (Query_Get r2 ''offset'') = Some n \<and> n < 0 \<longrightarrow> page_offset p = 0) \<and>
        (Atoi (Query_Get r2 ''offset'') = None \<longrightarrow> page_offset p = 0) \<and>
        MySQLStore_GetHistory w
          (if Query_Get r2 ''config_type'' = [] then None else Some (Query_Get r2 ''config_type''))
          (ParseUint (Query_Get r2 ''config_id'') 32)
          (page_limit p) (page_offset p) s2 = Inr (page_items p, page_total p)"
  proof
  assume ok: "HistoryHandler_ListHistory w r2 s2 = Inr p"
  let ?ty = "Query_Get r2 ''config_type''"
  let ?id = "Query_Get r2 ''config_id''"
  let ?lim = "if Query_Get r2 ''limit'' \<noteq> []
     then (case Atoi (Query_Get r2 ''limit'') of
             Some parsedLimit \<Rightarrow> if parsedLimit > 0 \<and> parsedLimit \<le> 100 then parsedLimit else 50
           | None \<Rightarrow> 50)
     else 50"
  let ?off = "if Query_Get r2 ''offset'' \<noteq> []
     then (case Atoi (Query_Get r2 ''offset'') of
             Some parsedOffset \<Rightarrow> if parsedOffset \<ge> 0 then parsedOffset else 0
           | None \<Rightarrow> 0)
     else 0"
  have ty: "?ty = [] \<or> ?ty = ''backend'' \<or> ?ty = ''route''"
  proof (rule ccontr)
    assume "\<not> ?thesis"
    then have "HistoryHandler_ListHistory w r2 s2 = Inl (StatusBadRequest invalid_config_type)"
      by (simp add: HistoryHandler_ListHistory_def)
    with ok show False by simp
  qed
  have id: "?id = [] \<or> ParseUint ?id 32 \<noteq> None"
  proof (rule ccontr)
    assume "\<not> ?thesis"
    then have "HistoryHandler_ListHistory w r2 s2 = Inl (StatusBadRequest ''invalid config_id'')"
      using ty by (auto simp: HistoryHandler_ListHistory_def Let_def)
    with ok show False by simp
  qed
  have cid: "(if ?id \<noteq> [] then map_option Some (ParseUint ?id 32) else Some None) =
      Some (ParseUint ?id 32)"
    using id by (auto simp: ParseUint_def)
  have run: "HistoryHandler_ListHistory w r2 s2 =
      (case MySQLStore_GetHistory w (if ?ty = [] then None else Some ?ty)
              (ParseUint ?id 32) ?lim ?off s2 of
         Inl err \<Rightarrow> Inl (StatusInternalServerError ''internal server error'')
       | Inr (histories, total') \<Rightarrow>
           Inr \<lparr>page_items = histories, page_total = total', page_limit = ?lim,
                page_offset = ?off\<rparr>)"
    using ty cid by (auto simp: HistoryHandler_ListHistory_def Let_def)
  from ok run obtain hs n where
    g: "MySQLStore_GetHistory w (if ?ty = [] then None else Some ?ty)
              (ParseUint ?id 32) ?lim ?off s2 = Inr (hs, n)"
    and p: "p = \<lparr>page_items = hs, page_total = n, page_limit = ?lim, page_offset = ?off\<rparr>"
    by (auto split: sum.splits)
  have empty: "Atoi [] = None" by (simp add: Atoi_def)
  have l1: "\<forall>n. Atoi (Query_Get r2 ''limit'') = Some n \<and> 1 \<le> n \<and> n \<le> 100 \<longrightarrow> page_limit p = n"
    using empty by (auto simp: p)
  have l2: "\<forall>n. Atoi (Query_Get r2 ''limit'') = Some n \<and> (n < 1 \<or> 100 < n) \<longrightarrow> page_limit p = 50"
    by (auto simp: p)
  have l3: "Atoi (Query_Get r2 ''limit'') = None \<longrightarrow> page_limit p = 50"
    by (auto simp: p)
  have o1: "\<forall>n. Atoi (Query_Get r2 ''offset'') = Some n \<and> 0 \<le> n \<longrightarrow> page_offset p = n"
    using empty by (auto simp: p)
  have o2: "\<forall>n. Atoi (Query_Get r2 ''offset'') = Some n \<and> n < 0 \<longrightarrow> page_offset p = 0"
    by (auto simp: p)
  have o3: "Atoi (Query_Get r2 ''offset'') = None \<longrightarrow> page_offset p = 0"
    by (auto simp: p)
  have st: "MySQLStore_GetHistory w (if ?ty = [] then None else Some ?ty)
          (ParseUint ?id 32) (page_limit p) (page_offset p) s2 = Inr (page_items p, page_total p)"
    using g by (simp add: p)
  from l1 l2 l3 o1 o2 o3 st
  show "(\<forall>n. Atoi (Query_Get r2 ''limit'') = Some n \<and> 1 \<le> n \<and> n \<le> 100 \<longrightarrow> page_limit p = n) \<and>
        (\<forall>n. Atoi (Query_Get r2 ''limit'') = Some n \<and> (n < 1 \<or> 100 < n) \<longrightarrow> page_limit p = 50) \<and>
        (Atoi (Query_Get r2 ''limit'') = None \<longrightarrow> page_limit p = 50) \<and>
        (\<forall>n. Atoi (Query_Get r2 ''offset'') = Some n \<and> 0 \<le> n \<longrightarrow> page_offset p = n) \<and>
        (\<forall>n. Atoi (Query_Get r2 ''offset'') = Some n \<and> n < 0 \<longrightarrow> page_offset p = 0) \<and>
        (Atoi (Query_Get r2 ''offset'') = None \<longrightarrow> page_offset p = 0) \<and>
        MySQLStore_GetHistory w
          (if Query_Get r2 ''config_type'' = [] then None else Some (Query_Get r2 ''config_type''))
          (ParseUint (Query_Get r2 ''config_id'') 32)
          (page_limit p) (page_offset p) s2 = Inr (page_items p, page_total p)"
    by (intro conjI)
  qed
next
  show "(Query_Get r3 ''config_type'' = [] \<or> Query_Get r3 ''config_type'' = ''backend'' \<or>
     Query_Get r3 ''config_type'' = ''route'') \<and>
    (Query_Get r3 ''config_id'' = [] \<or> ParseUint (Query_Get r3 ''config_id'') 32 \<noteq> None)
    \<longrightarrow> (\<forall>e. HistoryHandler_ListHistory w r3 s3 = Inl e \<longrightarrow>
           e = StatusInternalServerError ''internal server error'') \<and>
        (\<not> exec_err w CountHistory \<and> \<not> exec_err w SelectHistory \<and>
         (\<forall>h\<in>set (config_history s3).
            history_where
              (if Query_Get r3 ''config_type'' = [] then None
               else Some (Query_Get r3 ''config_type''))
              (ParseUint (Query_Get r3 ''config_id'') 32) h \<longrightarrow>
            OldValue h \<noteq> None \<and> NewValue h \<noteq> None)
         \<longrightarrow> (\<exists>p. HistoryHandler_ListHistory w r3 s3 = Inr p))"
  proof
  assume a: "(Query_Get r3 ''config_type'' = [] \<or> Query_Get r3 ''config_type'' = ''backend'' \<or>
     Query_Get r3 ''config_type'' = ''route'') \<and>
    (Query_Get r3 ''config_id'' = [] \<or> ParseUint (Query_Get r3 ''config_id'') 32 \<noteq> None)"
  let ?ty = "Query_Get r3 ''config_type''"
  let ?id = "Query_Get r3 ''config_id''"
  let ?lim = "if Query_Get r3 ''limit'' \<noteq> []
     then (case Atoi (Query_Get r3 ''limit'') of
             Some parsedLimit \<Rightarrow> if parsedLimit > 0 \<and> parsedLimit \<le> 100 then parsedLimit else 50
           | None \<Rightarrow> 50)
     else 50"
  let ?off = "if Query_Get r3 ''offset'' \<noteq> []
     then (case Atoi (Query_Get r3 ''offset'') of
             Some parsedOffset \<Rightarrow> if parsedOffset \<ge> 0 then parsedOffset else 0
           | None \<Rightarrow> 0)
     else 0"
  have cid: "(if ?id \<noteq> [] then map_option Some (ParseUint ?id 32) else Some None) =
      Some (ParseUint ?id 32)"
    using a by (auto simp: ParseUint_def)
  have run: "HistoryHandler_ListHistory w r3 s3 =
      (case MySQLStore_GetHistory w (if ?ty = [] then None else Some ?ty)
              (ParseUint ?id 32) ?lim ?off s3 of
         Inl err \<Rightarrow> Inl (StatusInternalServerError ''internal server error'')
       | Inr (histories, total') \<Rightarrow>
           Inr \<lparr>page_items = histories, page_total = total', page_limit = ?lim,
                page_offset = ?off\<rparr>)"
    using a cid by (auto simp: HistoryHandler_ListHistory_def Let_def)
  have err: "\<forall>e. HistoryHandler_ListHistory w r3 s3 = Inl e \<longrightarrow>
           e = StatusInternalServerError ''internal server error''"
    unfolding run by (auto split: sum.splits)
  have page: "\<exists>p. HistoryHandler_ListHistory w r3 s3 = Inr p"
    if b: "\<not> exec_err w CountHistory \<and> \<not> exec_err w SelectHistory \<and>
         (\<forall>h\<in>set (config_history s3).
            history_where (if ?ty = [] then None else Some ?ty) (ParseUint ?id 32) h \<longrightarrow>
            OldValue h \<noteq> None \<and> NewValue h \<noteq> None)"
  proof -
    have "0 \<le> ?lim" and "0 \<le> ?off"
      by (auto split: option.splits)
    with b obtain hs n where
      "MySQLStore_GetHistory w (if ?ty = [] then None else Some ?ty)
              (ParseUint ?id 32) ?lim ?off s3 = Inr (hs, n)"
      using GetHistory_total [of w ?lim ?off s3 "if ?ty = [] then None else Some ?ty"
          "ParseUint ?id 32"]
      by blast
    with run show ?thesis by simp
  qed
  from err page
  show "(\<forall>e. HistoryHandler_ListHistory w r3 s3 = Inl e \<longrightarrow>
           e = StatusInternalServerError ''internal server error'') \<and>
        (\<not> exec_err w CountHistory \<and> \<not> exec_err w SelectHistory \<and>
         (\<forall>h\<in>set (config_history s3).
            history_where
              (if Query_Get r3 ''config_type'' = [] then None
               else Some (Query_Get r3 ''config_type''))
              (ParseUint (Query_Get r3 ''config_id'') 32) h \<longrightarrow>
            OldValue h \<noteq> None \<and> NewValue h \<noteq> None)
         \<longrightarrow> (\<exists>p. HistoryHandler_ListHistory w r3 s3 = Inr p))"
    by blast
  qed
qed

theorem list_history_parameters_witness:
  "HistoryHandler_ListHistory history_down (history_request [(''config_type'', ''backends'')])
     db_audited = Inl (StatusBadRequest invalid_config_type) \<and>
   HistoryHandler_ListHistory quiet
     (history_request [(''config_type'', ''backend''), (''config_id'', ''7''),
        (''limit'', ''1000''), (''offset'', ''-3'')]) db_audited =
     Inr \<lparr>page_items = [hist 5 ''backend'' 7 (BackendJSON (account\<lparr>ID := 7\<rparr>)) 7, hist 3 ''backend'' 7 (BackendJSON (account\<lparr>ID := 7\<rparr>)) 7,
             hist 1 ''backend'' 7 (BackendJSON (account\<lparr>ID := 7\<rparr>)) 5],
          page_total = 3, page_limit = 50, page_offset = 0\<rparr> \<and>
   Atoi ''1000'' = Some 1000 \<and> Atoi ''-3'' = Some (- 3) \<and>
   (\<exists>p. HistoryHandler_ListHistory quiet
      (history_request [(''config_type'', ''route''), (''limit'', ''0''), (''offset'', ''x'')])
      db_audited = Inr p \<and>
      page_limit p = 50 \<and> page_offset p = 0)"
proof -
  let ?r1 = "history_request [(''config_type'', ''backends'')]"
  let ?r2 = "history_request [(''config_type'', ''backend''), (''config_id'', ''7''),
        (''limit'', ''1000''), (''offset'', ''-3'')]"
  let ?r3 = "history_request [(''config_type'', ''route''), (''limit'', ''0''), (''offset'', ''x'')]"
  let ?p = "\<lparr>page_items = [hist 5 ''backend'' 7 (BackendJSON (account\<lparr>ID := 7\<rparr>)) 7, hist 3 ''backend'' 7 (BackendJSON (account\<lparr>ID := 7\<rparr>)) 7,
             hist 1 ''backend'' 7 (BackendJSON (account\<lparr>ID := 7\<rparr>)) 5],
          page_total = 3, page_limit = 50, page_offset = 0\<rparr>"
  note t = list_history_parameters [where w = quiet]
  have a1: "Query_Get ?r1 ''config_type'' \<noteq> [] \<and> Query_Get ?r1 ''config_type'' \<noteq> ''backend'' \<and>
    Query_Get ?r1 ''config_type'' \<noteq> ''route''"
    by (simp add: Query_Get_def history_request_def)
  note c1 = list_history_parameters [where w = history_down, THEN conjunct1, rule_format, OF a1,
      of db_audited]
  have h2: "HistoryHandler_ListHistory quiet ?r2 db_audited = Inr ?p"
    by code_simp
  have n2: "Atoi (Query_Get ?r2 ''limit'') = Some 1000" "Atoi (Query_Get ?r2 ''offset'') = Some (- 3)"
    by code_simp+
  have n2': "Atoi ''1000'' = Some 1000" "Atoi ''-3'' = Some (- 3)"
    by code_simp+
  from t [THEN conjunct2, THEN conjunct1, rule_format, OF h2] n2
  have c2: "page_limit ?p = 50 \<and> page_offset ?p = 0"
    by simp
  have a3: "(Query_Get ?r3 ''config_type'' = [] \<or> Query_Get ?r3 ''config_type'' = ''backend'' \<or>
     Query_Get ?r3 ''config_type'' = ''route'') \<and>
    (Query_Get ?r3 ''config_id'' = [] \<or> ParseUint (Query_Get ?r3 ''config_id'') 32 \<noteq> None)"
    by (simp add: Query_Get_def history_request_def)
  have b3: "\<not> exec_err quiet CountHistory \<and> \<not> exec_err quiet SelectHistory \<and>
     (\<forall>h\<in>set (config_history db_audited).
        history_where
          (if Query_Get ?r3 ''config_type'' = [] then None
           else Some (Query_Get ?r3 ''config_type''))
          (ParseUint (Query_Get ?r3 ''config_id'') 32) h \<longrightarrow>
        OldValue h \<noteq> None \<and> NewValue h \<noteq> None)"
    by (simp add: quiet_def db_audited_def hist_def)
  from t [THEN conjunct2, THEN conjunct2, rule_format, OF a3, THEN conjunct2, rule_format, OF b3]
  obtain p where p: "HistoryHandler_ListHistory quiet ?r3 db_audited = Inr p"
    by blast
  have n3: "Atoi (Query_Get ?r3 ''limit'') = Some 0" "Atoi (Query_Get ?r3 ''offset'') = None"
    by code_simp+
  from t [THEN conjunct2, THEN conjunct1, rule_format, OF p] n3
  have "page_limit p = 50 \<and> page_offset p = 0"
    by simp
  with p have c3: "\<exists>p. HistoryHandler_ListHistory quiet ?r3 db_audited = Inr p \<and>
      page_limit p = 50 \<and> page_offset p = 0"
    by blast
  from c1 h2 n2' c3 show ?thesis by blast
qed

end
